theory Spec2Isabelle
  imports
    Main
    "HOL-Library.Char_ord"
    "HOL-Library.List_Lexorder"
    "HOL-Library.Product_Lexorder"
    "HOL-Library.Multiset"
begin

section \<open>JavaScript values\<close>

text \<open>
  A request body, a row handed back by the database driver and a response body are JSON
  values. Numbers are the integers (no column of the schema and no handler computes with
  fractions). \<open>JUndefined\<close> is what reading an absent property gives.
\<close>

datatype jsval =
    JUndefined
  | JNull
  | JBool bool
  | JNum int
  | JStr string
  | JArr "jsval list"
  | JObj "(string \<times> jsval) list"

type_synonym obj = "(string \<times> jsval) list"

text \<open>\<open>o.k\<close>: the value of property \<open>k\<close>, \<open>undefined\<close> when the object has none.\<close>

definition field :: "obj \<Rightarrow> string \<Rightarrow> jsval" where
  "field ob k = (case map_of ob k of Some v \<Rightarrow> v | None \<Rightarrow> JUndefined)"

text \<open>ToBoolean: what \<open>!x\<close>, \<open>x || y\<close>, \<open>x ? a : b\<close> and \<open>Boolean(x)\<close> test.\<close>

fun truthy :: "jsval \<Rightarrow> bool" where
  "truthy JUndefined = False"
| "truthy JNull = False"
| "truthy (JBool b) = b"
| "truthy (JNum n) = (n \<noteq> 0)"
| "truthy (JStr s) = (s \<noteq> [])"
| "truthy (JArr xs) = True"
| "truthy (JObj kvs) = True"

text \<open>\<open>a || b\<close>\<close>

definition js_or :: "jsval \<Rightarrow> jsval \<Rightarrow> jsval" where
  "js_or a b = (if truthy a then a else b)"

section \<open>Errors\<close>

text \<open>
  What a \<open>catch\<close> block receives: an error of the database with its SQLSTATE in
  \<open>error.code\<close>, or an error thrown by JavaScript or bcryptjs, which has no \<open>code\<close>.
\<close>

datatype exn = PgError string | JsError

fun code :: "exn \<Rightarrow> jsval" where
  "code (PgError c) = JStr c"
| "code JsError = JUndefined"

section \<open>Library functions used by the handlers\<close>

text \<open>
  The handlers call into the JavaScript runtime, bcryptjs, the PostgreSQL driver and the
  database server. These are not code of the repository; they are parameters of the model,
  and a theorem assumes about them only what its hypotheses say.
  \<^item> \<open>toLowerCase\<close>, \<open>trim\<close>: the string methods of the same names;
  \<^item> \<open>bcrypt_hash password rounds salt\<close>: \<open>bcrypt.hash(password, rounds)\<close>, where
    \<open>salt\<close> is the random salt the call draws;
  \<^item> \<open>bcrypt_compare password hash\<close>: \<open>bcrypt.compare(password, hash)\<close>;
  \<^item> \<open>json_stringify\<close>, \<open>json_parse\<close>: \<open>JSON.stringify\<close> and \<open>JSON.parse\<close>
    (\<open>None\<close> is the SyntaxError);
  \<^item> \<open>pg_string\<close>: the text the driver sends for a parameter that is a number, a boolean,
    an array or an object;
  \<^item> \<open>error_message\<close>: the \<open>message\<close> of an error;
  \<^item> \<open>js_string\<close>: \<open>String(v)\<close> for a value that is not a string;
  \<^item> \<open>int4_in\<close>: the server reading a text parameter as an INTEGER (\<open>None\<close>: the text is
    not an integer or is out of range);
  \<^item> \<open>lt_number v n\<close>: \<open>v < n\<close> for a string, array or object \<open>v\<close> and a number \<open>n\<close>.
\<close>

record env =
  toLowerCase :: "string \<Rightarrow> string"
  trim :: "string \<Rightarrow> string"
  bcrypt_hash :: "string \<Rightarrow> nat \<Rightarrow> string \<Rightarrow> string"
  bcrypt_compare :: "string \<Rightarrow> string \<Rightarrow> bool"
  json_stringify :: "jsval \<Rightarrow> string"
  json_parse :: "string \<Rightarrow> jsval option"
  pg_string :: "jsval \<Rightarrow> string"
  int4_in :: "string \<Rightarrow> int option"
  lt_number :: "jsval \<Rightarrow> int \<Rightarrow> bool"
  error_message :: "exn \<Rightarrow> string"
  js_string :: "jsval \<Rightarrow> string"

text \<open>\<open>res.json(b)\<close> is \<open>Response 200 b\<close>; \<open>res.status(n).json(b)\<close> is \<open>Response n b\<close>.\<close>

datatype response = Response nat jsval

section \<open>The database\<close>

text \<open>
  A row is the object the driver returns for it: column name to value, where a value is
  \<open>JNull\<close>, \<open>JNum\<close> (INTEGER and SERIAL columns) or \<open>JStr\<close> (TEXT columns). A table
  is its rows in the order a scan of the table meets them and the next value of the
  sequence behind its \<open>id SERIAL\<close> column.
\<close>

type_synonym row = "(string \<times> jsval) list"

record table =
  rows :: "row list"
  next_id :: int

datatype coltype = TInt | TText

text \<open>A column of a \<open>CREATE TABLE\<close> after \<open>id\<close>: name, type, DEFAULT (NULL when none).\<close>

type_synonym schema = "(string \<times> coltype \<times> jsval) list"

definition col :: "string \<Rightarrow> row \<Rightarrow> jsval" where
  "col c r = (case map_of r c of Some v \<Rightarrow> v | None \<Rightarrow> JNull)"

text \<open>SQL \<open>=\<close> in a WHERE clause: never true when a side is NULL.\<close>

definition sql_eq :: "jsval \<Rightarrow> jsval \<Rightarrow> bool" where
  "sql_eq a b = (a \<noteq> JNull \<and> b \<noteq> JNull \<and> a = b)"

subsection \<open>Parameters of a statement\<close>

text \<open>
  The driver sends \<open>undefined\<close> and \<open>null\<close> as NULL, a string as it is and anything
  else as text (\<open>pg_string\<close>); the server reads the text at the type of the column the
  parameter stands for. A text that is no integer is refused for an INTEGER column with
  SQLSTATE 22P02, a number beyond 32 bits with 22003. A text that holds the code point
  U+0000 is refused for a TEXT column with SQLSTATE 22021: the server stores no such
  string.
\<close>

definition has_nul :: "string \<Rightarrow> bool" where
  "has_nul t = (CHR 0x00 \<in> set t)"

definition text_param :: "env \<Rightarrow> jsval \<Rightarrow> jsval" where
  "text_param e v =
     (case v of
        JUndefined \<Rightarrow> JNull
      | JNull \<Rightarrow> JNull
      | JStr t \<Rightarrow> JStr t
      | _ \<Rightarrow> JStr (pg_string e v))"

definition bind :: "env \<Rightarrow> coltype \<Rightarrow> jsval \<Rightarrow> exn + jsval" where
  "bind e ty v =
     (case ty of
        TText \<Rightarrow>
          (case text_param e v of
             JStr t \<Rightarrow> (if has_nul t then Inl (PgError ''22021'') else Inr (JStr t))
           | w \<Rightarrow> Inr w)
      | TInt \<Rightarrow>
          (case v of
             JNum n \<Rightarrow>
               (if - 2147483648 \<le> n \<and> n \<le> 2147483647 then Inr (JNum n)
                else Inl (PgError ''22003''))
           | _ \<Rightarrow>
               (case text_param e v of
                  JStr t \<Rightarrow>
                    (case int4_in e t of
                       Some n \<Rightarrow> Inr (JNum n)
                     | None \<Rightarrow> Inl (PgError ''22P02''))
                | _ \<Rightarrow> Inr JNull)))"

subsection \<open>The tables of \<open>initializeDatabase\<close>\<close>

definition users_schema :: schema where
  "users_schema = [(''email'', TText, JNull), (''password'', TText, JNull)]"

definition projects_schema :: schema where
  "projects_schema =
     [(''name'', TText, JNull), (''owner_email'', TText, JNull),
      (''colleagues'', TText, JStr ''[]''), (''progress'', TInt, JNum 0),
      (''project_title'', TText, JNull), (''notes'', TText, JNull),
      (''colleague_name'', TText, JNull), (''colleague_phone'', TText, JNull),
      (''colleague_email'', TText, JNull), (''colleague_address1'', TText, JNull),
      (''colleague_address2'', TText, JNull), (''colleague_address3'', TText, JNull),
      (''your_name'', TText, JNull), (''your_phone'', TText, JNull),
      (''your_email'', TText, JNull), (''your_address1'', TText, JNull),
      (''your_address2'', TText, JNull), (''your_address3'', TText, JNull),
      (''objectives'', TText, JNull), (''timeline'', TText, JNull),
      (''primary_audience'', TText, JNull), (''secondary_audience'', TText, JNull),
      (''call_action'', TText, JNull), (''competition'', TText, JNull),
      (''graphics'', TText, JNull), (''photography'', TText, JNull),
      (''multimedia'', TText, JNull), (''other_info'', TText, JNull),
      (''client_name'', TText, JNull), (''client_comments'', TText, JNull),
      (''approval_date'', TText, JNull), (''approval_signature'', TText, JNull),
      (''idea'', TText, JNull), (''career_goals'', TText, JNull),
      (''future_work'', TText, JNull), (''deadlines'', TText, JNull)]"

definition colleagues_schema :: schema where
  "colleagues_schema =
     [(''project_id'', TInt, JNull), (''name'', TText, JNull), (''email'', TText, JNull)]"

definition meetings_schema :: schema where
  "meetings_schema =
     [(''colleague_email'', TText, JNull), (''date'', TText, JNull),
      (''description'', TText, JNull)]"

definition ideas_schema :: schema where
  "ideas_schema =
     [(''user_email'', TText, JNull), (''title'', TText, JNull), (''content'', TText, JNull),
      (''category'', TText, JStr ''general''), (''created_date'', TText, JNull)]"

definition notes_schema :: schema where
  "notes_schema =
     [(''user_email'', TText, JNull), (''title'', TText, JNull), (''content'', TText, JNull),
      (''created_date'', TText, JNull)]"

definition career_goals_schema :: schema where
  "career_goals_schema =
     [(''user_email'', TText, JNull), (''title'', TText, JNull),
      (''description'', TText, JNull), (''progress'', TInt, JNum 0),
      (''goal_type'', TText, JStr ''general''), (''target_date'', TText, JNull),
      (''created_date'', TText, JNull), (''total_stages'', TInt, JNum 5),
      (''current_stage'', TInt, JNum 0), (''start_date'', TText, JNull),
      (''stage_description'', TText, JNull)]"

definition career_stage_history_schema :: schema where
  "career_stage_history_schema =
     [(''goal_id'', TInt, JNull), (''stage'', TInt, JNull), (''description'', TText, JNull),
      (''updated_date'', TText, JNull)]"

definition future_work_schema :: schema where
  "future_work_schema =
     [(''user_email'', TText, JNull), (''title'', TText, JNull),
      (''description'', TText, JNull), (''priority'', TText, JStr ''medium''),
      (''timeline'', TText, JNull), (''created_date'', TText, JNull)]"

definition deadlines_schema :: schema where
  "deadlines_schema =
     [(''user_email'', TText, JNull), (''title'', TText, JNull),
      (''description'', TText, JNull), (''due_date'', TText, JNull),
      (''priority'', TText, JStr ''medium''), (''status'', TText, JStr ''pending''),
      (''created_date'', TText, JNull)]"

definition calendar_events_schema :: schema where
  "calendar_events_schema =
     [(''user_email'', TText, JNull), (''title'', TText, JNull),
      (''description'', TText, JNull), (''event_date'', TText, JNull),
      (''start_time'', TText, JNull), (''end_time'', TText, JNull),
      (''location'', TText, JNull), (''category'', TText, JStr ''Work''),
      (''attendees'', TText, JNull), (''reminder'', TInt, JNum 15),
      (''is_all_day'', TInt, JNum 0), (''recurrence'', TText, JStr ''none''),
      (''recurrence_end'', TText, JNull), (''show_as'', TText, JStr ''busy''),
      (''priority'', TText, JStr ''normal''), (''is_online'', TInt, JNum 0),
      (''meeting_link'', TText, JNull), (''attachments'', TText, JNull),
      (''repeat_weekly'', TInt, JNum 0), (''created_date'', TText, JNull),
      (''modified_date'', TText, JNull)]"

definition profiles_schema :: schema where
  "profiles_schema =
     [(''user_email'', TText, JNull), (''full_name'', TText, JNull),
      (''designation'', TText, JNull), (''department'', TText, JNull),
      (''institution'', TText, JNull), (''office_address'', TText, JNull),
      (''official_email'', TText, JNull), (''alternate_email'', TText, JNull),
      (''phone'', TText, JNull), (''website'', TText, JNull), (''degrees'', TText, JNull),
      (''employment'', TText, JNull), (''research_keywords'', TText, JNull),
      (''research_description'', TText, JNull), (''scholar_link'', TText, JNull),
      (''courses'', TText, JNull), (''grants'', TText, JNull),
      (''professional_activities'', TText, JNull), (''awards'', TText, JNull),
      (''skills'', TText, JNull), (''outreach_service'', TText, JNull),
      (''created_date'', TText, JNull), (''modified_date'', TText, JNull)]"

text \<open>One field per table (\<open>notes\<close> is a keyword of Isabelle: the table is \<open>notes_table\<close>).\<close>

record db =
  users :: table
  projects :: table
  colleagues :: table
  meetings :: table
  ideas :: table
  notes_table :: table
  career_goals :: table
  career_stage_history :: table
  future_work :: table
  deadlines :: table
  calendar_events :: table
  profiles :: table

subsection \<open>Statements\<close>

text \<open>The type of a column; \<open>id\<close>, the one column no schema lists, is an integer.\<close>

definition ctype :: "schema \<Rightarrow> string \<Rightarrow> coltype" where
  "ctype sch c = (case map_of sch c of Some (ty, d) \<Rightarrow> ty | None \<Rightarrow> TInt)"

text \<open>The parameters bound to named columns, left to right; the first failure is the error.\<close>

fun bind_all :: "env \<Rightarrow> schema \<Rightarrow> (string \<times> jsval) list \<Rightarrow> exn + row" where
  "bind_all e sch [] = Inr []"
| "bind_all e sch ((c, v) # ps) =
     (case bind e (ctype sch c) v of
        Inl x \<Rightarrow> Inl x
      | Inr w \<Rightarrow>
          (case bind_all e sch ps of
             Inl x \<Rightarrow> Inl x
           | Inr ws \<Rightarrow> Inr ((c, w) # ws)))"

text \<open>
  The row an INSERT forms: \<open>id\<close> from the sequence, a listed column from its parameter,
  any other column from its DEFAULT.
\<close>

definition new_row :: "schema \<Rightarrow> row \<Rightarrow> int \<Rightarrow> row" where
  "new_row sch vals i =
     (''id'', JNum i) #
     map (\<lambda>(c, ty, d). (c, case map_of vals c of Some v \<Rightarrow> v | None \<Rightarrow> d)) sch"

text \<open>
  \<open>INSERT ... RETURNING\<close>. \<open>uniq\<close> lists the UNIQUE columns, \<open>refs\<close> each REFERENCES
  column with the values present in the column it references. The sequence value is
  consumed whether or not the row is accepted; a duplicate in a UNIQUE column is SQLSTATE
  23505, a dangling reference 23503. The \<open>id\<close> is never supplied by a handler, so the
  primary key is not checked.
\<close>

definition sql_insert ::
  "schema \<Rightarrow> string list \<Rightarrow> (string \<times> jsval list) list \<Rightarrow> row \<Rightarrow> table
     \<Rightarrow> (exn + row) \<times> table" where
  "sql_insert sch uniq refs vals t =
     (let r = new_row sch vals (next_id t);
          t' = t\<lparr>next_id := next_id t + 1\<rparr>
      in if list_ex (\<lambda>c. list_ex (\<lambda>r'. sql_eq (col c r') (col c r)) (rows t)) uniq
         then (Inl (PgError ''23505''), t')
         else if list_ex (\<lambda>(c, vs). col c r \<noteq> JNull \<and> \<not> List.member vs (col c r)) refs
         then (Inl (PgError ''23503''), t')
         else (Inr r, t'\<lparr>rows := rows t @ [r]\<rparr>))"

definition exec_insert ::
  "env \<Rightarrow> schema \<Rightarrow> string list \<Rightarrow> (string \<times> jsval list) list \<Rightarrow> (string \<times> jsval) list
     \<Rightarrow> table \<Rightarrow> (exn + row) \<times> table" where
  "exec_insert e sch uniq refs ps t =
     (case bind_all e sch ps of
        Inl x \<Rightarrow> (Inl x, t)
      | Inr vals \<Rightarrow> sql_insert sch uniq refs vals t)"

text \<open>\<open>SELECT * FROM t WHERE kc = $1\<close>, in the order of a scan of the table.\<close>

definition exec_select ::
  "env \<Rightarrow> schema \<Rightarrow> string \<Rightarrow> jsval \<Rightarrow> table \<Rightarrow> exn + row list" where
  "exec_select e sch kc kv t =
     (case bind e (ctype sch kc) kv of
        Inl x \<Rightarrow> Inl x
      | Inr k \<Rightarrow> Inr (filter (\<lambda>r. sql_eq (col kc r) k) (rows t)))"

text \<open>
  \<open>UPDATE t SET c1 = $1, ... WHERE kc = $n\<close>: the rows as updated, and the table. The
  server writes the new version of an updated row behind the rows already there, so a
  scan of the table meets the updated rows last. (A query without ORDER BY promises no
  order at all; the properties below state the order of a listing only where its query
  has an ORDER BY.)
\<close>

definition set_cols :: "row \<Rightarrow> row \<Rightarrow> row" where
  "set_cols sets r = map (\<lambda>(c, v). (c, case map_of sets c of Some w \<Rightarrow> w | None \<Rightarrow> v)) r"

definition exec_update ::
  "env \<Rightarrow> schema \<Rightarrow> (string \<times> jsval) list \<Rightarrow> string \<Rightarrow> jsval \<Rightarrow> table
     \<Rightarrow> (exn + row list) \<times> table" where
  "exec_update e sch ps kc kv t =
     (case bind_all e sch ps of
        Inl x \<Rightarrow> (Inl x, t)
      | Inr sets \<Rightarrow>
          (case bind e (ctype sch kc) kv of
             Inl x \<Rightarrow> (Inl x, t)
           | Inr k \<Rightarrow>
               (let upd = map (set_cols sets) (filter (\<lambda>r. sql_eq (col kc r) k) (rows t))
                in (Inr upd,
                    t\<lparr>rows := filter (\<lambda>r. \<not> sql_eq (col kc r) k) (rows t) @ upd\<rparr>))))"

text \<open>\<open>DELETE FROM t WHERE kc = $1\<close>: the rows deleted, and the table.\<close>

definition exec_delete ::
  "env \<Rightarrow> schema \<Rightarrow> string \<Rightarrow> jsval \<Rightarrow> table \<Rightarrow> (exn + row list) \<times> table" where
  "exec_delete e sch kc kv t =
     (case bind e (ctype sch kc) kv of
        Inl x \<Rightarrow> (Inl x, t)
      | Inr k \<Rightarrow>
          (Inr (filter (\<lambda>r. sql_eq (col kc r) k) (rows t)),
           t\<lparr>rows := filter (\<lambda>r. \<not> sql_eq (col kc r) k) (rows t)\<rparr>))"

text \<open>\<open>result.rowCount\<close>\<close>

definition rowCount :: "row list \<Rightarrow> jsval" where
  "rowCount rs = JNum (int (length rs))"

definition err :: "string \<Rightarrow> jsval" where
  "err m = JObj [(''error'', JStr m)]"

text \<open>
  \<open>ORDER BY\<close>: the rows sorted by insertion into a list kept in order. Rows the clause
  does not tell apart stay in table order (the clause itself leaves their order open).
  NULL sorts after every value, so it comes last ascending and first descending; TEXT is
  compared code unit by code unit.
\<close>

fun insort_by :: "('a \<Rightarrow> 'a \<Rightarrow> bool) \<Rightarrow> 'a \<Rightarrow> 'a list \<Rightarrow> 'a list" where
  "insort_by le x [] = [x]"
| "insort_by le x (y # ys) = (if le x y then x # y # ys else y # insort_by le x ys)"

definition order_by :: "('a \<Rightarrow> 'a \<Rightarrow> bool) \<Rightarrow> 'a list \<Rightarrow> 'a list" where
  "order_by le xs = foldr (insort_by le) xs []"

fun sql_key :: "jsval \<Rightarrow> nat \<times> int \<times> string" where
  "sql_key (JNum n) = (0, n, [])"
| "sql_key (JStr s) = (0, 0, s)"
| "sql_key v = (1, 0, [])"

definition asc :: "string \<Rightarrow> row \<Rightarrow> row \<Rightarrow> bool" where
  "asc c a b = (sql_key (col c a) \<le> sql_key (col c b))"

definition desc :: "string \<Rightarrow> row \<Rightarrow> row \<Rightarrow> bool" where
  "desc c a b = (sql_key (col c b) \<le> sql_key (col c a))"

text \<open>\<open>ORDER BY k1, k2\<close>: \<open>k2\<close> decides between rows that \<open>k1\<close> does not tell apart.\<close>

definition then_by :: "('a \<Rightarrow> 'a \<Rightarrow> bool) \<Rightarrow> ('a \<Rightarrow> 'a \<Rightarrow> bool) \<Rightarrow> 'a \<Rightarrow> 'a \<Rightarrow> bool" where
  "then_by le1 le2 a b = (if le1 a b \<and> le1 b a then le2 a b else le1 a b)"

text \<open>The select list \<open>c1 as l1, c2 as l2, ...\<close>; the server folds a label to lower case.\<close>

definition select_as :: "(string \<times> string) list \<Rightarrow> row \<Rightarrow> row" where
  "select_as cols r = map (\<lambda>(c, l). (l, col c r)) cols"

section \<open>The handlers\<close>

text \<open>
  A handler takes the library, what the request carries (\<open>req.params\<close>, \<open>req.body\<close>; \<open>pid\<close> is \<open>req.params.id\<close>),
  what the call draws from outside (\<open>now\<close> for \<open>new Date().toISOString()\<close>, \<open>salt\<close>) and
  the database; it gives the response and the database after it. A handler that only
  reads gives the response alone. The parameter array of a longer statement is a
  definition of its own, named after the handler (\<open>post_ideas_params\<close>).
\<close>

subsection \<open>Accounts\<close>

text \<open>\<open>x.length\<close> for a truthy \<open>x\<close>\<close>

definition js_length :: "jsval \<Rightarrow> jsval" where
  "js_length v =
     (case v of
        JStr s \<Rightarrow> JNum (int (length s))
      | JArr xs \<Rightarrow> JNum (int (length xs))
      | JObj kvs \<Rightarrow> field kvs ''length''
      | _ \<Rightarrow> JUndefined)"

text \<open>\<open>v < n\<close> for a number \<open>n\<close>: \<open>undefined\<close> is NaN, \<open>null\<close> is 0, \<open>true\<close> is 1.\<close>

definition js_lt :: "env \<Rightarrow> jsval \<Rightarrow> int \<Rightarrow> bool" where
  "js_lt e v n =
     (case v of
        JUndefined \<Rightarrow> False
      | JNull \<Rightarrow> 0 < n
      | JBool b \<Rightarrow> (if b then 1 else 0) < n
      | JNum m \<Rightarrow> m < n
      | _ \<Rightarrow> lt_number e v n)"

definition auth_fail :: "nat \<Rightarrow> string \<Rightarrow> response" where
  "auth_fail st m = Response st (JObj [(''success'', JBool False), (''message'', JStr m)])"

text \<open>The \<open>catch\<close> block of \<open>/register\<close> and \<open>/signup\<close>.\<close>

definition signup_error :: "exn \<Rightarrow> response" where
  "signup_error x =
     (if code x = JStr ''23505'' then auth_fail 400 ''User already exists.''
      else auth_fail 500 ''Server error during signup.'')"

definition register :: "env \<Rightarrow> string \<Rightarrow> obj \<Rightarrow> db \<Rightarrow> response \<times> db" where
  "register e salt body s =
     (let email = field body ''email''; password = field body ''password'' in
      if \<not> truthy email \<or> \<not> truthy password
      then (auth_fail 400 ''Email and password are required.'', s)
      else if js_lt e (js_length password) 6
      then (auth_fail 400 ''Password must be at least 6 characters long.'', s)
      else
        (case password of
           JStr p \<Rightarrow>
             (let hashedPassword = bcrypt_hash e p 10 salt in
              case email of
                JStr em \<Rightarrow>
                  (case exec_insert e users_schema [''email''] []
                          [(''email'', JStr (trim e (toLowerCase e em))),
                           (''password'', JStr hashedPassword)] (users s) of
                     (Inl x, t) \<Rightarrow> (signup_error x, s\<lparr>users := t\<rparr>)
                   | (Inr r, t) \<Rightarrow>
                       (Response 200
                          (JObj [(''success'', JBool True), (''id'', field r ''id''),
                                 (''email'', field r ''email''),
                                 (''message'', JStr ''Account created successfully!'')]),
                        s\<lparr>users := t\<rparr>))
              | _ \<Rightarrow> (signup_error JsError, s))
         | _ \<Rightarrow> (signup_error JsError, s)))"

definition signup :: "env \<Rightarrow> string \<Rightarrow> obj \<Rightarrow> db \<Rightarrow> response \<times> db" where
  "signup e salt body s =
     (let email = field body ''email''; password = field body ''password'' in
      if \<not> truthy email \<or> \<not> truthy password
      then (auth_fail 400 ''Email and password are required.'', s)
      else if js_lt e (js_length password) 6
      then (auth_fail 400 ''Password must be at least 6 characters long.'', s)
      else
        (case password of
           JStr p \<Rightarrow>
             (let hashedPassword = bcrypt_hash e p 10 salt in
              case email of
                JStr em \<Rightarrow>
                  (case exec_insert e users_schema [''email''] []
                          [(''email'', JStr (trim e (toLowerCase e em))),
                           (''password'', JStr hashedPassword)] (users s) of
                     (Inl x, t) \<Rightarrow> (signup_error x, s\<lparr>users := t\<rparr>)
                   | (Inr r, t) \<Rightarrow>
                       (Response 200
                          (JObj [(''success'', JBool True), (''id'', field r ''id''),
                                 (''email'', field r ''email''),
                                 (''message'', JStr ''Account created successfully!'')]),
                        s\<lparr>users := t\<rparr>))
              | _ \<Rightarrow> (signup_error JsError, s))
         | _ \<Rightarrow> (signup_error JsError, s)))"

definition login :: "env \<Rightarrow> obj \<Rightarrow> db \<Rightarrow> response" where
  "login e body s =
     (let email = field body ''email''; password = field body ''password'' in
      if \<not> truthy email \<or> \<not> truthy password
      then auth_fail 400 ''Email and password are required.''
      else
        (case email of
           JStr em \<Rightarrow>
             (case exec_select e users_schema ''email'' (JStr (trim e (toLowerCase e em)))
                     (users s) of
                Inl x \<Rightarrow> auth_fail 500 ''Login failed.''
              | Inr [] \<Rightarrow> auth_fail 400 ''Invalid credentials.''
              | Inr (user # rest) \<Rightarrow>
                  (case (password, field user ''password'') of
                     (JStr p, JStr h) \<Rightarrow>
                       (if \<not> bcrypt_compare e p h
                        then auth_fail 400 ''Invalid credentials.''
                        else Response 200
                               (JObj [(''success'', JBool True),
                                      (''email'', field user ''email''),
                                      (''message'', JStr ''Login successful!'')]))
                   | _ \<Rightarrow> auth_fail 500 ''Login failed.''))
         | _ \<Rightarrow> auth_fail 500 ''Login failed.''))"

subsection \<open>Projects and meetings\<close>

definition post_projects :: "env \<Rightarrow> obj \<Rightarrow> db \<Rightarrow> response \<times> db" where
  "post_projects e body s =
     (let name = field body ''name''; owner_email = field body ''owner_email'';
          colleagues = field body ''colleagues''; progress = field body ''progress'' in
      if \<not> truthy name \<or> \<not> truthy owner_email
      then (Response 400 (err ''Project name and owner email are required.''), s)
      else
        (case exec_insert e projects_schema [] []
                [(''name'', name), (''owner_email'', owner_email),
                 (''colleagues'', js_or colleagues (JStr ''[]'')),
                 (''progress'', js_or progress (JNum 0))] (projects s) of
           (Inl x, t) \<Rightarrow> (Response 500 (err ''Error creating project.''), s\<lparr>projects := t\<rparr>)
         | (Inr r, t) \<Rightarrow> (Response 200 (JObj r), s\<lparr>projects := t\<rparr>)))"

definition get_projects_email :: "env \<Rightarrow> string \<Rightarrow> db \<Rightarrow> response" where
  "get_projects_email e email s =
     (case exec_select e projects_schema ''owner_email'' (JStr email) (projects s) of
        Inl x \<Rightarrow> Response 500 (err ''Error fetching projects.'')
      | Inr rs \<Rightarrow> Response 200 (JArr (map JObj rs)))"

definition put_projects_id :: "env \<Rightarrow> string \<Rightarrow> obj \<Rightarrow> db \<Rightarrow> response \<times> db" where
  "put_projects_id e pid body s =
     (let name = field body ''name''; colleagues = field body ''colleagues'';
          progress = field body ''progress'' in
      case exec_update e projects_schema
             [(''name'', name), (''colleagues'', colleagues),
              (''progress'', if progress \<noteq> JUndefined then progress else JNum 0)]
             ''id'' (JStr pid) (projects s) of
        (Inl x, t) \<Rightarrow> (Response 500 (err ''Error updating project.''), s\<lparr>projects := t\<rparr>)
      | (Inr rs, t) \<Rightarrow> (Response 200 (JObj [(''updated'', rowCount rs)]), s\<lparr>projects := t\<rparr>))"

text \<open>
  \<open>colleagues.project_id REFERENCES projects(id)\<close> has no ON DELETE action: deleting a
  project that a colleague row references is refused (SQLSTATE 23503).
\<close>

definition delete_projects_id :: "env \<Rightarrow> string \<Rightarrow> db \<Rightarrow> response \<times> db" where
  "delete_projects_id e pid s =
     (case exec_delete e projects_schema ''id'' (JStr pid) (projects s) of
        (Inl x, t) \<Rightarrow> (Response 500 (err ''Error deleting project.''), s)
      | (Inr del, t) \<Rightarrow>
          (if list_ex (\<lambda>c. list_ex (\<lambda>r. sql_eq (col ''project_id'' c) (col ''id'' r)) del)
                (rows (colleagues s))
           then (Response 500 (err ''Error deleting project.''), s)
           else (Response 200 (JObj [(''deleted'', rowCount del)]), s\<lparr>projects := t\<rparr>)))"

definition post_meetings :: "env \<Rightarrow> obj \<Rightarrow> db \<Rightarrow> response \<times> db" where
  "post_meetings e body s =
     (case exec_insert e meetings_schema [] []
             [(''colleague_email'', field body ''colleague_email''),
              (''date'', field body ''date''),
              (''description'', field body ''description'')] (meetings s) of
        (Inl x, t) \<Rightarrow> (Response 500 (err ''Error creating meeting.''), s\<lparr>meetings := t\<rparr>)
      | (Inr r, t) \<Rightarrow> (Response 200 (JObj r), s\<lparr>meetings := t\<rparr>))"

definition get_meetings_email :: "env \<Rightarrow> string \<Rightarrow> db \<Rightarrow> response" where
  "get_meetings_email e email s =
     (case exec_select e meetings_schema ''colleague_email'' (JStr email) (meetings s) of
        Inl x \<Rightarrow> Response 500 (err ''Error fetching meetings.'')
      | Inr rs \<Rightarrow> Response 200 (JArr (map JObj rs)))"

subsection \<open>Project description\<close>

text \<open>The object both description handlers build from a row of \<open>projects\<close>.\<close>

definition description_of :: "row \<Rightarrow> jsval" where
  "description_of row = JObj
     [(''projectTitle'', field row ''project_title''), (''notes'', field row ''notes''),
      (''colleagueName'', field row ''colleague_name''),
      (''colleaguePhone'', field row ''colleague_phone''),
      (''colleagueEmail'', field row ''colleague_email''),
      (''colleagueAddress1'', field row ''colleague_address1''),
      (''colleagueAddress2'', field row ''colleague_address2''),
      (''colleagueAddress3'', field row ''colleague_address3''),
      (''yourName'', field row ''your_name''), (''yourPhone'', field row ''your_phone''),
      (''yourEmail'', field row ''your_email''),
      (''yourAddress1'', field row ''your_address1''),
      (''yourAddress2'', field row ''your_address2''),
      (''yourAddress3'', field row ''your_address3''),
      (''objectives'', field row ''objectives''), (''timeline'', field row ''timeline''),
      (''primaryAudience'', field row ''primary_audience''),
      (''secondaryAudience'', field row ''secondary_audience''),
      (''callAction'', field row ''call_action''),
      (''competition'', field row ''competition''), (''graphics'', field row ''graphics''),
      (''photography'', field row ''photography''),
      (''multimedia'', field row ''multimedia''),
      (''otherInfo'', field row ''other_info''),
      (''clientName'', field row ''client_name''),
      (''clientComments'', field row ''client_comments''),
      (''approvalDate'', field row ''approval_date''),
      (''approvalSignature'', field row ''approval_signature'')]"

definition get_projects_id_description :: "env \<Rightarrow> string \<Rightarrow> db \<Rightarrow> response" where
  "get_projects_id_description e pid s =
     (case exec_select e projects_schema ''id'' (JStr pid) (projects s) of
        Inl x \<Rightarrow> Response 500 (err ''Error fetching description.'')
      | Inr [] \<Rightarrow> Response 200 (JObj [])
      | Inr (row # rest) \<Rightarrow> Response 200 (description_of row))"

definition description_params :: "obj \<Rightarrow> (string \<times> jsval) list" where
  "description_params body =
     [(''project_title'', field body ''projectTitle''), (''notes'', field body ''notes''),
      (''colleague_name'', field body ''colleagueName''),
      (''colleague_phone'', field body ''colleaguePhone''),
      (''colleague_email'', field body ''colleagueEmail''),
      (''colleague_address1'', field body ''colleagueAddress1''),
      (''colleague_address2'', field body ''colleagueAddress2''),
      (''colleague_address3'', field body ''colleagueAddress3''),
      (''your_name'', field body ''yourName''), (''your_phone'', field body ''yourPhone''),
      (''your_email'', field body ''yourEmail''),
      (''your_address1'', field body ''yourAddress1''),
      (''your_address2'', field body ''yourAddress2''),
      (''your_address3'', field body ''yourAddress3''),
      (''objectives'', field body ''objectives''), (''timeline'', field body ''timeline''),
      (''primary_audience'', field body ''primaryAudience''),
      (''secondary_audience'', field body ''secondaryAudience''),
      (''call_action'', field body ''callAction''),
      (''competition'', field body ''competition''),
      (''graphics'', field body ''graphics''),
      (''photography'', field body ''photography''),
      (''multimedia'', field body ''multimedia''),
      (''other_info'', field body ''otherInfo''),
      (''client_name'', field body ''clientName''),
      (''client_comments'', field body ''clientComments''),
      (''approval_date'', field body ''approvalDate''),
      (''approval_signature'', field body ''approvalSignature'')]"

text \<open>
  \<open>const row = result.rows[0]\<close> is \<open>undefined\<close> when the UPDATE matched no row; reading
  \<open>row.project_title\<close> then throws a TypeError inside the \<open>try\<close>.
\<close>

definition put_projects_id_description ::
  "env \<Rightarrow> string \<Rightarrow> obj \<Rightarrow> db \<Rightarrow> response \<times> db" where
  "put_projects_id_description e pid body s =
     (case exec_update e projects_schema (description_params body) ''id'' (JStr pid)
             (projects s) of
        (Inl x, t) \<Rightarrow>
          (Response 500 (JObj [(''error'', JStr ''Error updating description.''),
                               (''details'', JStr (error_message e x))]),
           s\<lparr>projects := t\<rparr>)
      | (Inr [], t) \<Rightarrow>
          (Response 500 (JObj [(''error'', JStr ''Error updating description.''),
                               (''details'', JStr (error_message e JsError))]),
           s\<lparr>projects := t\<rparr>)
      | (Inr (row # rest), t) \<Rightarrow>
          (Response 200 (JObj [(''updated'', rowCount (row # rest)),
                               (''data'', description_of row)]),
           s\<lparr>projects := t\<rparr>))"

subsection \<open>Ideas, notes, career goals, future work, deadlines\<close>

text \<open>The values a \<open>REFERENCES users(email)\<close> column may take.\<close>

definition user_emails :: "db \<Rightarrow> jsval list" where
  "user_emails s = map (col ''email'') (rows (users s))"

definition get_ideas_email :: "env \<Rightarrow> string \<Rightarrow> db \<Rightarrow> response" where
  "get_ideas_email e email s =
     (case exec_select e ideas_schema ''user_email'' (JStr email) (ideas s) of
        Inl x \<Rightarrow> Response 500 (err ''Error fetching ideas.'')
      | Inr rs \<Rightarrow> Response 200 (JArr (map JObj (order_by (desc ''created_date'') rs))))"

definition post_ideas_params :: "jsval \<Rightarrow> obj \<Rightarrow> (string \<times> jsval) list" where
  "post_ideas_params date body =
     [(''user_email'', field body ''user_email''),
      (''title'', field body ''title''), (''content'', field body ''content''),
      (''category'', js_or (field body ''category'') (JStr ''general'')),
      (''created_date'', date)]"

definition post_ideas :: "env \<Rightarrow> string \<Rightarrow> obj \<Rightarrow> db \<Rightarrow> response \<times> db" where
  "post_ideas e now body s =
     (let date = js_or (field body ''created_date'') (JStr now) in
      case exec_insert e ideas_schema [] [(''user_email'', user_emails s)]
             (post_ideas_params date body)
             (ideas s) of
        (Inl x, t) \<Rightarrow> (Response 500 (err ''Error creating idea.''), s\<lparr>ideas := t\<rparr>)
      | (Inr r, t) \<Rightarrow> (Response 200 (JObj r), s\<lparr>ideas := t\<rparr>))"

definition put_ideas_id_params :: "obj \<Rightarrow> (string \<times> jsval) list" where
  "put_ideas_id_params body =
     [(''title'', field body ''title''), (''content'', field body ''content''),
      (''category'', field body ''category'')]"

definition put_ideas_id :: "env \<Rightarrow> string \<Rightarrow> obj \<Rightarrow> db \<Rightarrow> response \<times> db" where
  "put_ideas_id e pid body s =
     (case exec_update e ideas_schema
             (put_ideas_id_params body)
             ''id'' (JStr pid) (ideas s) of
        (Inl x, t) \<Rightarrow> (Response 500 (err ''Error updating idea.''), s\<lparr>ideas := t\<rparr>)
      | (Inr rs, t) \<Rightarrow> (Response 200 (JObj [(''updated'', rowCount rs)]), s\<lparr>ideas := t\<rparr>))"

definition delete_ideas_id :: "env \<Rightarrow> string \<Rightarrow> db \<Rightarrow> response \<times> db" where
  "delete_ideas_id e pid s =
     (case exec_delete e ideas_schema ''id'' (JStr pid) (ideas s) of
        (Inl x, t) \<Rightarrow> (Response 500 (err ''Error deleting idea.''), s\<lparr>ideas := t\<rparr>)
      | (Inr del, t) \<Rightarrow> (Response 200 (JObj [(''deleted'', rowCount del)]), s\<lparr>ideas := t\<rparr>))"

definition get_notes_email :: "env \<Rightarrow> string \<Rightarrow> db \<Rightarrow> response" where
  "get_notes_email e email s =
     (case exec_select e notes_schema ''user_email'' (JStr email) (notes_table s) of
        Inl x \<Rightarrow> Response 500 (err ''Error fetching notes.'')
      | Inr rs \<Rightarrow> Response 200 (JArr (map JObj (order_by (desc ''created_date'') rs))))"

definition post_notes_params :: "jsval \<Rightarrow> obj \<Rightarrow> (string \<times> jsval) list" where
  "post_notes_params date body =
     [(''user_email'', field body ''user_email''),
      (''title'', field body ''title''), (''content'', field body ''content''),
      (''created_date'', date)]"

definition post_notes :: "env \<Rightarrow> string \<Rightarrow> obj \<Rightarrow> db \<Rightarrow> response \<times> db" where
  "post_notes e now body s =
     (let date = js_or (field body ''created_date'') (JStr now) in
      case exec_insert e notes_schema [] [(''user_email'', user_emails s)]
             (post_notes_params date body)
             (notes_table s) of
        (Inl x, t) \<Rightarrow> (Response 500 (err ''Error creating note.''), s\<lparr>notes_table := t\<rparr>)
      | (Inr r, t) \<Rightarrow> (Response 200 (JObj r), s\<lparr>notes_table := t\<rparr>))"

definition put_notes_id_params :: "obj \<Rightarrow> (string \<times> jsval) list" where
  "put_notes_id_params body =
     [(''title'', field body ''title''), (''content'', field body ''content'')]"

definition put_notes_id :: "env \<Rightarrow> string \<Rightarrow> obj \<Rightarrow> db \<Rightarrow> response \<times> db" where
  "put_notes_id e pid body s =
     (case exec_update e notes_schema
             (put_notes_id_params body)
             ''id'' (JStr pid) (notes_table s) of
        (Inl x, t) \<Rightarrow> (Response 500 (err ''Error updating note.''), s\<lparr>notes_table := t\<rparr>)
      | (Inr rs, t) \<Rightarrow> (Response 200 (JObj [(''updated'', rowCount rs)]), s\<lparr>notes_table := t\<rparr>))"

definition delete_notes_id :: "env \<Rightarrow> string \<Rightarrow> db \<Rightarrow> response \<times> db" where
  "delete_notes_id e pid s =
     (case exec_delete e notes_schema ''id'' (JStr pid) (notes_table s) of
        (Inl x, t) \<Rightarrow> (Response 500 (err ''Error deleting note.''), s\<lparr>notes_table := t\<rparr>)
      | (Inr del, t) \<Rightarrow> (Response 200 (JObj [(''deleted'', rowCount del)]), s\<lparr>notes_table := t\<rparr>))"

definition get_career_goals_email :: "env \<Rightarrow> string \<Rightarrow> db \<Rightarrow> response" where
  "get_career_goals_email e email s =
     (case exec_select e career_goals_schema ''user_email'' (JStr email) (career_goals s) of
        Inl x \<Rightarrow> Response 500 (err ''Error fetching career goals.'')
      | Inr rs \<Rightarrow> Response 200 (JArr (map JObj (order_by (desc ''created_date'') rs))))"

definition get_career_email :: "env \<Rightarrow> string \<Rightarrow> db \<Rightarrow> response" where
  "get_career_email e email s =
     (case exec_select e career_goals_schema ''user_email'' (JStr email) (career_goals s) of
        Inl x \<Rightarrow> Response 500 (err ''Error fetching career goals.'')
      | Inr rs \<Rightarrow> Response 200 (JArr (map JObj (order_by (desc ''created_date'') rs))))"

definition post_career_goals_params :: "jsval \<Rightarrow> obj \<Rightarrow> (string \<times> jsval) list" where
  "post_career_goals_params date body =
     [(''user_email'', field body ''user_email''),
      (''title'', field body ''title''),
      (''description'', field body ''description''),
      (''progress'', js_or (field body ''progress'') (JNum 0)),
      (''goal_type'', js_or (field body ''goal_type'') (JStr ''general'')),
      (''target_date'', field body ''target_date''),
      (''total_stages'', js_or (field body ''total_stages'') (JNum 5)),
      (''current_stage'', js_or (field body ''current_stage'') (JNum 0)),
      (''start_date'', field body ''start_date''),
      (''stage_description'', field body ''stage_description''),
      (''created_date'', date)]"

definition post_career_goals :: "env \<Rightarrow> string \<Rightarrow> obj \<Rightarrow> db \<Rightarrow> response \<times> db" where
  "post_career_goals e now body s =
     (let date = js_or (field body ''created_date'') (JStr now) in
      case exec_insert e career_goals_schema [] [(''user_email'', user_emails s)]
             (post_career_goals_params date body)
             (career_goals s) of
        (Inl x, t) \<Rightarrow> (Response 500 (err ''Error creating career goal.''), s\<lparr>career_goals := t\<rparr>)
      | (Inr r, t) \<Rightarrow> (Response 200 (JObj r), s\<lparr>career_goals := t\<rparr>))"

definition put_career_goals_id_params :: "obj \<Rightarrow> (string \<times> jsval) list" where
  "put_career_goals_id_params body =
     [(''title'', field body ''title''),
      (''description'', field body ''description''),
      (''progress'', field body ''progress''),
      (''goal_type'', field body ''goal_type''),
      (''target_date'', field body ''target_date''),
      (''total_stages'', field body ''total_stages''),
      (''current_stage'', field body ''current_stage''),
      (''start_date'', field body ''start_date''),
      (''stage_description'', field body ''stage_description'')]"

definition put_career_goals_id :: "env \<Rightarrow> string \<Rightarrow> obj \<Rightarrow> db \<Rightarrow> response \<times> db" where
  "put_career_goals_id e pid body s =
     (case exec_update e career_goals_schema
             (put_career_goals_id_params body)
             ''id'' (JStr pid) (career_goals s) of
        (Inl x, t) \<Rightarrow> (Response 500 (err ''Error updating career goal.''), s\<lparr>career_goals := t\<rparr>)
      | (Inr rs, t) \<Rightarrow> (Response 200 (JObj [(''updated'', rowCount rs)]), s\<lparr>career_goals := t\<rparr>))"

text \<open>
  The handler deletes the history rows of the goal, then the goal. Deleting the goal also
  removes, by \<open>ON DELETE CASCADE\<close>, every history row whose \<open>goal_id\<close> is the \<open>id\<close> of
  a deleted goal.
\<close>

definition on_delete_cascade :: "row list \<Rightarrow> table \<Rightarrow> table" where
  "on_delete_cascade del h =
     h\<lparr>rows := filter (\<lambda>r. \<not> list_ex (\<lambda>g. sql_eq (col ''goal_id'' r) (col ''id'' g)) del)
                   (rows h)\<rparr>"

definition delete_career_goals_id :: "env \<Rightarrow> string \<Rightarrow> db \<Rightarrow> response \<times> db" where
  "delete_career_goals_id e pid s =
     (case exec_delete e career_stage_history_schema ''goal_id'' (JStr pid)
             (career_stage_history s) of
        (Inl x, h) \<Rightarrow>
          (Response 500 (err ''Error deleting career goal.''), s\<lparr>career_stage_history := h\<rparr>)
      | (Inr gone, h) \<Rightarrow>
          (case exec_delete e career_goals_schema ''id'' (JStr pid) (career_goals s) of
             (Inl x, g) \<Rightarrow>
               (Response 500 (err ''Error deleting career goal.''),
                s\<lparr>career_stage_history := h, career_goals := g\<rparr>)
           | (Inr del, g) \<Rightarrow>
               (Response 200 (JObj [(''deleted'', rowCount del)]),
                s\<lparr>career_stage_history := on_delete_cascade del h, career_goals := g\<rparr>)))"

subsection \<open>Stage history\<close>

definition get_career_goals_id_history :: "env \<Rightarrow> string \<Rightarrow> db \<Rightarrow> response" where
  "get_career_goals_id_history e pid s =
     (case exec_select e career_stage_history_schema ''goal_id'' (JStr pid)
             (career_stage_history s) of
        Inl x \<Rightarrow> Response 500 (err ''Error fetching stage history.'')
      | Inr rs \<Rightarrow>
          Response 200
            (JArr (map JObj (order_by (then_by (asc ''stage'') (desc ''updated_date'')) rs))))"

definition post_career_goals_id_history ::
  "env \<Rightarrow> string \<Rightarrow> string \<Rightarrow> obj \<Rightarrow> db \<Rightarrow> response \<times> db" where
  "post_career_goals_id_history e now pid body s =
     (let updated_date = JStr now in
      case exec_insert e career_stage_history_schema []
             [(''goal_id'', map (col ''id'') (rows (career_goals s)))]
             [(''goal_id'', JStr pid), (''stage'', field body ''stage''),
              (''description'', field body ''description''), (''updated_date'', updated_date)]
             (career_stage_history s) of
        (Inl x, t) \<Rightarrow>
          (Response 500 (err ''Error adding stage history.''), s\<lparr>career_stage_history := t\<rparr>)
      | (Inr r, t) \<Rightarrow> (Response 200 (JObj r), s\<lparr>career_stage_history := t\<rparr>))"

text \<open>\<open>DELETE FROM career_stage_history WHERE id = $1 AND goal_id = $2\<close>\<close>

definition delete_career_goals_goalId_history_historyId ::
  "env \<Rightarrow> string \<Rightarrow> string \<Rightarrow> db \<Rightarrow> response \<times> db" where
  "delete_career_goals_goalId_history_historyId e goalId historyId s =
     (case bind e TInt (JStr historyId) of
        Inl x \<Rightarrow> (Response 500 (err ''Error deleting history entry.''), s)
      | Inr h \<Rightarrow>
          (case bind e TInt (JStr goalId) of
             Inl x \<Rightarrow> (Response 500 (err ''Error deleting history entry.''), s)
           | Inr g \<Rightarrow>
               (let hit = (\<lambda>r. sql_eq (col ''id'' r) h \<and> sql_eq (col ''goal_id'' r) g);
                    t = career_stage_history s
                in (Response 200 (JObj [(''deleted'', rowCount (filter hit (rows t)))]),
                    s\<lparr>career_stage_history := t\<lparr>rows := filter (\<lambda>r. \<not> hit r) (rows t)\<rparr>\<rparr>))))"

subsection \<open>Future work and deadlines\<close>

definition get_future_work_email :: "env \<Rightarrow> string \<Rightarrow> db \<Rightarrow> response" where
  "get_future_work_email e email s =
     (case exec_select e future_work_schema ''user_email'' (JStr email) (future_work s) of
        Inl x \<Rightarrow> Response 500 (err ''Error fetching future work.'')
      | Inr rs \<Rightarrow> Response 200 (JArr (map JObj (order_by (desc ''created_date'') rs))))"

definition get_future_email :: "env \<Rightarrow> string \<Rightarrow> db \<Rightarrow> response" where
  "get_future_email e email s =
     (case exec_select e future_work_schema ''user_email'' (JStr email) (future_work s) of
        Inl x \<Rightarrow> Response 500 (err ''Error fetching future work.'')
      | Inr rs \<Rightarrow> Response 200 (JArr (map JObj (order_by (desc ''created_date'') rs))))"

definition post_future_work_params :: "jsval \<Rightarrow> obj \<Rightarrow> (string \<times> jsval) list" where
  "post_future_work_params date body =
     [(''user_email'', field body ''user_email''),
      (''title'', field body ''title''),
      (''description'', field body ''description''),
      (''priority'', js_or (field body ''priority'') (JStr ''medium'')),
      (''timeline'', field body ''timeline''), (''created_date'', date)]"

definition post_future_work :: "env \<Rightarrow> string \<Rightarrow> obj \<Rightarrow> db \<Rightarrow> response \<times> db" where
  "post_future_work e now body s =
     (let date = js_or (field body ''created_date'') (JStr now) in
      case exec_insert e future_work_schema [] [(''user_email'', user_emails s)]
             (post_future_work_params date body)
             (future_work s) of
        (Inl x, t) \<Rightarrow> (Response 500 (err ''Error creating future work.''), s\<lparr>future_work := t\<rparr>)
      | (Inr r, t) \<Rightarrow> (Response 200 (JObj r), s\<lparr>future_work := t\<rparr>))"

definition put_future_work_id_params :: "obj \<Rightarrow> (string \<times> jsval) list" where
  "put_future_work_id_params body =
     [(''title'', field body ''title''),
      (''description'', field body ''description''),
      (''priority'', field body ''priority''),
      (''timeline'', field body ''timeline'')]"

definition put_future_work_id :: "env \<Rightarrow> string \<Rightarrow> obj \<Rightarrow> db \<Rightarrow> response \<times> db" where
  "put_future_work_id e pid body s =
     (case exec_update e future_work_schema
             (put_future_work_id_params body)
             ''id'' (JStr pid) (future_work s) of
        (Inl x, t) \<Rightarrow> (Response 500 (err ''Error updating future work.''), s\<lparr>future_work := t\<rparr>)
      | (Inr rs, t) \<Rightarrow> (Response 200 (JObj [(''updated'', rowCount rs)]), s\<lparr>future_work := t\<rparr>))"

definition delete_future_work_id :: "env \<Rightarrow> string \<Rightarrow> db \<Rightarrow> response \<times> db" where
  "delete_future_work_id e pid s =
     (case exec_delete e future_work_schema ''id'' (JStr pid) (future_work s) of
        (Inl x, t) \<Rightarrow> (Response 500 (err ''Error deleting future work.''), s\<lparr>future_work := t\<rparr>)
      | (Inr del, t) \<Rightarrow> (Response 200 (JObj [(''deleted'', rowCount del)]), s\<lparr>future_work := t\<rparr>))"

definition get_deadlines_email :: "env \<Rightarrow> string \<Rightarrow> db \<Rightarrow> response" where
  "get_deadlines_email e email s =
     (case exec_select e deadlines_schema ''user_email'' (JStr email) (deadlines s) of
        Inl x \<Rightarrow> Response 500 (err ''Error fetching deadlines.'')
      | Inr rs \<Rightarrow> Response 200 (JArr (map JObj (order_by (asc ''due_date'') rs))))"

definition post_deadlines_params :: "jsval \<Rightarrow> obj \<Rightarrow> (string \<times> jsval) list" where
  "post_deadlines_params date body =
     [(''user_email'', field body ''user_email''),
      (''title'', field body ''title''),
      (''description'', field body ''description''),
      (''due_date'', field body ''due_date''),
      (''priority'', js_or (field body ''priority'') (JStr ''medium'')),
      (''status'', js_or (field body ''status'') (JStr ''pending'')),
      (''created_date'', date)]"

definition post_deadlines :: "env \<Rightarrow> string \<Rightarrow> obj \<Rightarrow> db \<Rightarrow> response \<times> db" where
  "post_deadlines e now body s =
     (let date = js_or (field body ''created_date'') (JStr now) in
      case exec_insert e deadlines_schema [] [(''user_email'', user_emails s)]
             (post_deadlines_params date body)
             (deadlines s) of
        (Inl x, t) \<Rightarrow> (Response 500 (err ''Error creating deadline.''), s\<lparr>deadlines := t\<rparr>)
      | (Inr r, t) \<Rightarrow> (Response 200 (JObj r), s\<lparr>deadlines := t\<rparr>))"

definition put_deadlines_id_params :: "obj \<Rightarrow> (string \<times> jsval) list" where
  "put_deadlines_id_params body =
     [(''title'', field body ''title''),
      (''description'', field body ''description''),
      (''due_date'', field body ''due_date''),
      (''priority'', field body ''priority''), (''status'', field body ''status'')]"

definition put_deadlines_id :: "env \<Rightarrow> string \<Rightarrow> obj \<Rightarrow> db \<Rightarrow> response \<times> db" where
  "put_deadlines_id e pid body s =
     (case exec_update e deadlines_schema
             (put_deadlines_id_params body)
             ''id'' (JStr pid) (deadlines s) of
        (Inl x, t) \<Rightarrow> (Response 500 (err ''Error updating deadline.''), s\<lparr>deadlines := t\<rparr>)
      | (Inr rs, t) \<Rightarrow> (Response 200 (JObj [(''updated'', rowCount rs)]), s\<lparr>deadlines := t\<rparr>))"

definition delete_deadlines_id :: "env \<Rightarrow> string \<Rightarrow> db \<Rightarrow> response \<times> db" where
  "delete_deadlines_id e pid s =
     (case exec_delete e deadlines_schema ''id'' (JStr pid) (deadlines s) of
        (Inl x, t) \<Rightarrow> (Response 500 (err ''Error deleting deadline.''), s\<lparr>deadlines := t\<rparr>)
      | (Inr del, t) \<Rightarrow> (Response 200 (JObj [(''deleted'', rowCount del)]), s\<lparr>deadlines := t\<rparr>))"

subsection \<open>Calendar events\<close>

definition events_select_list :: "(string \<times> string) list" where
  "events_select_list =
     [(''id'', ''id''), (''title'', ''title''), (''description'', ''description''),
      (''event_date'', ''date''), (''start_time'', ''start''), (''end_time'', ''end''),
      (''location'', ''location''), (''category'', ''category''),
      (''attendees'', ''attendees''), (''reminder'', ''reminder''),
      (''is_all_day'', ''isallday''), (''recurrence'', ''recurrence''),
      (''recurrence_end'', ''recurrenceend''), (''show_as'', ''showas''),
      (''priority'', ''priority''), (''is_online'', ''isonline''),
      (''meeting_link'', ''meetinglink''), (''attachments'', ''attachments''),
      (''repeat_weekly'', ''repeatweekly''), (''created_date'', ''createddate''),
      (''modified_date'', ''modifieddate'')]"

definition get_events_email :: "env \<Rightarrow> string \<Rightarrow> db \<Rightarrow> response" where
  "get_events_email e email s =
     (case exec_select e calendar_events_schema ''user_email'' (JStr email)
             (calendar_events s) of
        Inl x \<Rightarrow> Response 500 (err ''Error fetching events.'')
      | Inr rs \<Rightarrow>
          (let result_rows =
                 map (select_as events_select_list)
                   (order_by (then_by (asc ''event_date'') (asc ''start_time'')) rs);
               events =
                 map (\<lambda>row. JObj (row @
                        [(''isAllDay'', JBool (truthy (field row ''isallday''))),
                         (''isOnline'', JBool (truthy (field row ''isonline''))),
                         (''repeatWeekly'', JBool (truthy (field row ''repeatweekly'')))]))
                   result_rows
           in Response 200 (JArr events)))"

definition post_events_params :: "jsval \<Rightarrow> jsval \<Rightarrow> obj \<Rightarrow> (string \<times> jsval) list" where
  "post_events_params created_date modified_date body =
     [(''user_email'', field body ''userEmail''),
      (''title'', field body ''title''),
      (''description'', field body ''description''),
      (''event_date'', field body ''date''),
      (''start_time'', field body ''start''), (''end_time'', field body ''end''),
      (''location'', field body ''location''),
      (''category'', js_or (field body ''category'') (JStr ''Work'')),
      (''attendees'', field body ''attendees''),
      (''reminder'', js_or (field body ''reminder'') (JNum 15)),
      (''is_all_day'', JNum (if truthy (field body ''isAllDay'') then 1 else 0)),
      (''recurrence'', js_or (field body ''recurrence'') (JStr ''none'')),
      (''recurrence_end'', field body ''recurrenceEnd''),
      (''show_as'', js_or (field body ''showAs'') (JStr ''busy'')),
      (''priority'', js_or (field body ''priority'') (JStr ''normal'')),
      (''is_online'', JNum (if truthy (field body ''isOnline'') then 1 else 0)),
      (''meeting_link'', field body ''meetingLink''),
      (''attachments'', field body ''attachments''),
      (''repeat_weekly'', JNum (if truthy (field body ''repeatWeekly'') then 1 else 0)),
      (''created_date'', created_date), (''modified_date'', modified_date)]"

definition post_events :: "env \<Rightarrow> string \<Rightarrow> obj \<Rightarrow> db \<Rightarrow> response \<times> db" where
  "post_events e now body s =
     (let created_date = JStr now; modified_date = created_date in
      case exec_insert e calendar_events_schema [] [(''user_email'', user_emails s)]
             (post_events_params created_date modified_date body)
             (calendar_events s) of
        (Inl x, t) \<Rightarrow> (Response 500 (err ''Error creating event.''), s\<lparr>calendar_events := t\<rparr>)
      | (Inr r, t) \<Rightarrow> (Response 200 (JObj r), s\<lparr>calendar_events := t\<rparr>))"

definition put_events_id_params :: "jsval \<Rightarrow> obj \<Rightarrow> (string \<times> jsval) list" where
  "put_events_id_params modified_date body =
     [(''title'', field body ''title''),
      (''description'', field body ''description''),
      (''event_date'', field body ''date''),
      (''start_time'', field body ''start''), (''end_time'', field body ''end''),
      (''location'', field body ''location''),
      (''category'', field body ''category''),
      (''attendees'', field body ''attendees''),
      (''reminder'', field body ''reminder''),
      (''is_all_day'', JNum (if truthy (field body ''isAllDay'') then 1 else 0)),
      (''recurrence'', field body ''recurrence''),
      (''recurrence_end'', field body ''recurrenceEnd''),
      (''show_as'', field body ''showAs''),
      (''priority'', field body ''priority''),
      (''is_online'', JNum (if truthy (field body ''isOnline'') then 1 else 0)),
      (''meeting_link'', field body ''meetingLink''),
      (''attachments'', field body ''attachments''),
      (''repeat_weekly'', JNum (if truthy (field body ''repeatWeekly'') then 1 else 0)),
      (''modified_date'', modified_date)]"

definition put_events_id :: "env \<Rightarrow> string \<Rightarrow> string \<Rightarrow> obj \<Rightarrow> db \<Rightarrow> response \<times> db" where
  "put_events_id e now pid body s =
     (let modified_date = JStr now in
      case exec_update e calendar_events_schema
             (put_events_id_params modified_date body)
             ''id'' (JStr pid) (calendar_events s) of
        (Inl x, t) \<Rightarrow> (Response 500 (err ''Error updating event.''), s\<lparr>calendar_events := t\<rparr>)
      | (Inr rs, t) \<Rightarrow>
          (Response 200 (JObj [(''updated'', rowCount rs)]), s\<lparr>calendar_events := t\<rparr>))"

definition delete_events_id :: "env \<Rightarrow> string \<Rightarrow> db \<Rightarrow> response \<times> db" where
  "delete_events_id e pid s =
     (case exec_delete e calendar_events_schema ''id'' (JStr pid) (calendar_events s) of
        (Inl x, t) \<Rightarrow> (Response 500 (err ''Error deleting event.''), s\<lparr>calendar_events := t\<rparr>)
      | (Inr del, t) \<Rightarrow>
          (Response 200 (JObj [(''deleted'', rowCount del)]), s\<lparr>calendar_events := t\<rparr>))"

subsection \<open>Calendar events, legacy routes\<close>

definition get_calendar_events_email :: "env \<Rightarrow> string \<Rightarrow> db \<Rightarrow> response" where
  "get_calendar_events_email e email s =
     (case exec_select e calendar_events_schema ''user_email'' (JStr email)
             (calendar_events s) of
        Inl x \<Rightarrow> Response 500 (err ''Error fetching events.'')
      | Inr rs \<Rightarrow> Response 200 (JArr (map JObj (order_by (asc ''event_date'') rs))))"

definition post_calendar_events_params :: "jsval \<Rightarrow> obj \<Rightarrow> (string \<times> jsval) list" where
  "post_calendar_events_params date body =
     [(''user_email'', field body ''user_email''),
      (''title'', field body ''title''),
      (''description'', field body ''description''),
      (''event_date'', field body ''event_date''),
      (''start_time'', field body ''start_time''),
      (''end_time'', field body ''end_time''),
      (''repeat_weekly'', field body ''repeat_weekly''), (''created_date'', date)]"

definition post_calendar_events :: "env \<Rightarrow> string \<Rightarrow> obj \<Rightarrow> db \<Rightarrow> response \<times> db" where
  "post_calendar_events e now body s =
     (let date = js_or (field body ''created_date'') (JStr now) in
      case exec_insert e calendar_events_schema [] [(''user_email'', user_emails s)]
             (post_calendar_events_params date body)
             (calendar_events s) of
        (Inl x, t) \<Rightarrow> (Response 500 (err ''Error creating event.''), s\<lparr>calendar_events := t\<rparr>)
      | (Inr r, t) \<Rightarrow> (Response 200 (JObj r), s\<lparr>calendar_events := t\<rparr>))"

definition put_calendar_events_id_params :: "obj \<Rightarrow> (string \<times> jsval) list" where
  "put_calendar_events_id_params body =
     [(''title'', field body ''title''),
      (''description'', field body ''description''),
      (''event_date'', field body ''event_date''),
      (''start_time'', field body ''start_time''),
      (''end_time'', field body ''end_time''),
      (''repeat_weekly'', field body ''repeat_weekly'')]"

definition put_calendar_events_id :: "env \<Rightarrow> string \<Rightarrow> obj \<Rightarrow> db \<Rightarrow> response \<times> db" where
  "put_calendar_events_id e pid body s =
     (case exec_update e calendar_events_schema
             (put_calendar_events_id_params body)
             ''id'' (JStr pid) (calendar_events s) of
        (Inl x, t) \<Rightarrow> (Response 500 (err ''Error updating event.''), s\<lparr>calendar_events := t\<rparr>)
      | (Inr rs, t) \<Rightarrow>
          (Response 200 (JObj [(''updated'', rowCount rs)]), s\<lparr>calendar_events := t\<rparr>))"

definition delete_calendar_events_id :: "env \<Rightarrow> string \<Rightarrow> db \<Rightarrow> response \<times> db" where
  "delete_calendar_events_id e pid s =
     (case exec_delete e calendar_events_schema ''id'' (JStr pid) (calendar_events s) of
        (Inl x, t) \<Rightarrow> (Response 500 (err ''Error deleting event.''), s\<lparr>calendar_events := t\<rparr>)
      | (Inr del, t) \<Rightarrow>
          (Response 200 (JObj [(''deleted'', rowCount del)]), s\<lparr>calendar_events := t\<rparr>))"

subsection \<open>Profile\<close>



text \<open>\<open>JSON.stringify(x || [])\<close> for the list-valued field \<open>k\<close> of the body.\<close>

definition list_json :: "env \<Rightarrow> obj \<Rightarrow> string \<Rightarrow> jsval" where
  "list_json e body k = JStr (json_stringify e (js_or (field body k) (JArr [])))"

text \<open>The parameter arrays of the UPDATE and of the INSERT of \<open>POST /profile\<close>.\<close>

definition profile_update_params :: "env \<Rightarrow> jsval \<Rightarrow> obj \<Rightarrow> (string \<times> jsval) list" where
  "profile_update_params e modifiedDate body =
     [(''full_name'', field body ''fullName''),
      (''designation'', field body ''designation''),
      (''department'', field body ''department''),
      (''institution'', field body ''institution''),
      (''office_address'', field body ''officeAddress''),
      (''official_email'', field body ''officialEmail''),
      (''alternate_email'', field body ''alternateEmail''),
      (''phone'', field body ''phone''), (''website'', field body ''website''),
      (''degrees'', list_json e body ''degrees''),
      (''employment'', list_json e body ''employment''),
      (''research_keywords'', field body ''researchKeywords''),
      (''research_description'', field body ''researchDescription''),
      (''scholar_link'', field body ''scholarLink''),
      (''courses'', list_json e body ''courses''),
      (''grants'', list_json e body ''grants''),
      (''professional_activities'', field body ''professionalActivities''),
      (''awards'', list_json e body ''awards''), (''skills'', field body ''skills''),
      (''outreach_service'', field body ''outreachService''),
      (''modified_date'', modifiedDate)]"

definition profile_insert_params ::
  "env \<Rightarrow> jsval \<Rightarrow> jsval \<Rightarrow> obj \<Rightarrow> (string \<times> jsval) list" where
  "profile_insert_params e createdDate modifiedDate body =
     [(''user_email'', field body ''userEmail''), (''full_name'', field body ''fullName''),
      (''designation'', field body ''designation''),
      (''department'', field body ''department''),
      (''institution'', field body ''institution''),
      (''office_address'', field body ''officeAddress''),
      (''official_email'', field body ''officialEmail''),
      (''alternate_email'', field body ''alternateEmail''),
      (''phone'', field body ''phone''), (''website'', field body ''website''),
      (''degrees'', list_json e body ''degrees''),
      (''employment'', list_json e body ''employment''),
      (''research_keywords'', field body ''researchKeywords''),
      (''research_description'', field body ''researchDescription''),
      (''scholar_link'', field body ''scholarLink''),
      (''courses'', list_json e body ''courses''),
      (''grants'', list_json e body ''grants''),
      (''professional_activities'', field body ''professionalActivities''),
      (''awards'', list_json e body ''awards''), (''skills'', field body ''skills''),
      (''outreach_service'', field body ''outreachService''),
      (''created_date'', createdDate), (''modified_date'', modifiedDate)]"

text \<open>
  \<open>now\<close> is the clock read for \<open>modifiedDate\<close>, \<open>now2\<close> the later reading for
  \<open>createdDate\<close> in the insert branch.
\<close>

definition post_profile :: "env \<Rightarrow> string \<Rightarrow> string \<Rightarrow> obj \<Rightarrow> db \<Rightarrow> response \<times> db" where
  "post_profile e now now2 body s =
     (let userEmail = field body ''userEmail'' in
      if \<not> truthy userEmail then (Response 400 (err ''User email is required.''), s)
      else
        (let modifiedDate = JStr now in
         case exec_select e profiles_schema ''user_email'' userEmail (profiles s) of
           Inl x \<Rightarrow> (Response 500 (err ''Error saving profile.''), s)
         | Inr (found # rest) \<Rightarrow>
             (case exec_update e profiles_schema (profile_update_params e modifiedDate body)
                     ''user_email'' userEmail (profiles s) of
                (Inl x, t) \<Rightarrow> (Response 500 (err ''Error saving profile.''), s\<lparr>profiles := t\<rparr>)
              | (Inr rs, t) \<Rightarrow>
                  (Response 200 (JObj [(''message'', JStr ''Profile updated successfully'')]),
                   s\<lparr>profiles := t\<rparr>))
         | Inr [] \<Rightarrow>
             (let createdDate = JStr now2 in
              case exec_insert e profiles_schema [''user_email'']
                     [(''user_email'', user_emails s)]
                     (profile_insert_params e createdDate modifiedDate body) (profiles s) of
                (Inl x, t) \<Rightarrow> (Response 500 (err ''Error saving profile.''), s\<lparr>profiles := t\<rparr>)
              | (Inr r, t) \<Rightarrow>
                  (Response 200 (JObj [(''message'', JStr ''Profile created successfully''),
                                       (''id'', field r ''id'')]),
                   s\<lparr>profiles := t\<rparr>))))"

definition delete_profile_email :: "env \<Rightarrow> string \<Rightarrow> db \<Rightarrow> response \<times> db" where
  "delete_profile_email e email s =
     (case exec_delete e profiles_schema ''user_email'' (JStr email) (profiles s) of
        (Inl x, t) \<Rightarrow> (Response 500 (err ''Error deleting profile.''), s\<lparr>profiles := t\<rparr>)
      | (Inr del, t) \<Rightarrow>
          (Response 200 (JObj [(''deleted'', rowCount del),
                               (''message'', JStr ''Profile deleted successfully'')]),
           s\<lparr>profiles := t\<rparr>))"

section \<open>A small library and database to evaluate the handlers on\<close>

text \<open>
  Stand-ins for the library, used where a theorem is applied to a concrete request: ASCII
  lower-casing and trimming, decimal integers, a toy password hash that keeps the salt in
  front of the password, and a JSON printer and reader for arrays of flat objects with
  string values. No theorem about the handlers depends on them.
\<close>

definition ascii_lower :: "char \<Rightarrow> char" where
  "ascii_lower c =
     (case map_of (zip ''ABCDEFGHIJKLMNOPQRSTUVWXYZ'' ''abcdefghijklmnopqrstuvwxyz'') c of
        Some l \<Rightarrow> l
      | None \<Rightarrow> c)"

definition ascii_space :: "char \<Rightarrow> bool" where
  "ascii_space c = List.member [CHR '' '', CHR 0x09, CHR 0x0A, CHR 0x0B, CHR 0x0C, CHR 0x0D] c"

definition ascii_trim :: "string \<Rightarrow> string" where
  "ascii_trim s = rev (dropWhile ascii_space (rev (dropWhile ascii_space s)))"

definition digit_in :: "char \<Rightarrow> int option" where
  "digit_in c = map_of (zip ''0123456789'' [0, 1, 2, 3, 4, 5, 6, 7, 8, 9]) c"

fun dec_digits :: "string \<Rightarrow> int \<Rightarrow> int option" where
  "dec_digits [] acc = Some acc"
| "dec_digits (c # cs) acc =
     (case digit_in c of Some d \<Rightarrow> dec_digits cs (10 * acc + d) | None \<Rightarrow> None)"

definition dec_in :: "string \<Rightarrow> int option" where
  "dec_in s =
     (case s of
        [] \<Rightarrow> None
      | c # cs \<Rightarrow>
          (if c = CHR ''-''
           then (if cs = [] then None else map_option uminus (dec_digits cs 0))
           else dec_digits s 0))"

fun dec_nat :: "nat \<Rightarrow> nat \<Rightarrow> string" where
  "dec_nat 0 n = []"
| "dec_nat (Suc fuel) n =
     (if n < 10 then [''0123456789'' ! n]
      else dec_nat fuel (n div 10) @ [''0123456789'' ! (n mod 10)])"

definition dec_out :: "int \<Rightarrow> string" where
  "dec_out n =
     (if n < 0 then CHR ''-'' # dec_nat (nat (- n) + 1) (nat (- n))
      else dec_nat (nat n + 1) (nat n))"

definition toy_hash :: "string \<Rightarrow> nat \<Rightarrow> string \<Rightarrow> string" where
  "toy_hash p rounds salt = salt @ CHR ''$'' # p"

definition toy_compare :: "string \<Rightarrow> string \<Rightarrow> bool" where
  "toy_compare p h = (drop 1 (dropWhile (\<lambda>c. c \<noteq> CHR ''$'') h) = p)"

text \<open>JSON text without white space; \<open>0x22\<close> is the double quote, \<open>0x5C\<close> the backslash.\<close>

definition json_quote :: "string \<Rightarrow> string" where
  "json_quote t =
     CHR 0x22 #
     concat (map (\<lambda>c. if c = CHR 0x22 \<or> c = CHR 0x5C then [CHR 0x5C, c] else [c]) t) @
     [CHR 0x22]"

fun join_commas :: "string list \<Rightarrow> string" where
  "join_commas [] = []"
| "join_commas [x] = x"
| "join_commas (x # y # ys) = x @ CHR '','' # join_commas (y # ys)"

fun json_out :: "jsval \<Rightarrow> string" where
  "json_out JUndefined = ''null''"
| "json_out JNull = ''null''"
| "json_out (JBool b) = (if b then ''true'' else ''false'')"
| "json_out (JNum n) = dec_out n"
| "json_out (JStr t) = json_quote t"
| "json_out (JArr xs) = CHR ''['' # join_commas (map json_out xs) @ '']''"
| "json_out (JObj kvs) =
     CHR ''{'' #
     join_commas (map (\<lambda>kv. json_quote (fst kv) @ CHR '':'' # json_out (snd kv))
                    (filter (\<lambda>kv. snd kv \<noteq> JUndefined) kvs)) @ ''}''"

fun json_string_in :: "string \<Rightarrow> string \<Rightarrow> (string \<times> string) option" where
  "json_string_in [] acc = None"
| "json_string_in (c # cs) acc =
     (if c = CHR 0x22 then Some (rev acc, cs)
      else if c = CHR 0x5C
      then (case cs of [] \<Rightarrow> None | d # ds \<Rightarrow> json_string_in ds (d # acc))
      else json_string_in cs (c # acc))"

definition number_char :: "char \<Rightarrow> bool" where
  "number_char c = List.member ''-0123456789'' c"

fun json_value_in :: "nat \<Rightarrow> string \<Rightarrow> (jsval \<times> string) option"
  and json_elems_in :: "nat \<Rightarrow> string \<Rightarrow> jsval list \<Rightarrow> (jsval \<times> string) option"
  and json_members_in :: "nat \<Rightarrow> string \<Rightarrow> obj \<Rightarrow> (jsval \<times> string) option" where
  "json_value_in 0 s = None"
| "json_value_in (Suc n) s =
     (case s of
        [] \<Rightarrow> None
      | c # cs \<Rightarrow>
          (if c = CHR 0x22
           then (case json_string_in cs [] of
                   None \<Rightarrow> None
                 | Some (t, r) \<Rightarrow> Some (JStr t, r))
           else if c = CHR ''[''
           then (if take 1 cs = '']'' then Some (JArr [], drop 1 cs) else json_elems_in n cs [])
           else if c = CHR ''{''
           then (if take 1 cs = ''}'' then Some (JObj [], drop 1 cs)
                 else json_members_in n cs [])
           else if take 4 s = ''null'' then Some (JNull, drop 4 s)
           else if take 4 s = ''true'' then Some (JBool True, drop 4 s)
           else if take 5 s = ''false'' then Some (JBool False, drop 5 s)
           else (case dec_in (takeWhile number_char s) of
                   None \<Rightarrow> None
                 | Some k \<Rightarrow> Some (JNum k, dropWhile number_char s))))"
| "json_elems_in 0 s acc = None"
| "json_elems_in (Suc n) s acc =
     (case json_value_in n s of
        None \<Rightarrow> None
      | Some (v, r) \<Rightarrow>
          (if take 1 r = '','' then json_elems_in n (drop 1 r) (v # acc)
           else if take 1 r = '']'' then Some (JArr (rev (v # acc)), drop 1 r)
           else None))"
| "json_members_in 0 s acc = None"
| "json_members_in (Suc n) s acc =
     (if take 1 s \<noteq> [CHR 0x22] then None
      else
        (case json_string_in (drop 1 s) [] of
           None \<Rightarrow> None
         | Some (k, r) \<Rightarrow>
             (if take 1 r \<noteq> '':'' then None
              else
                (case json_value_in n (drop 1 r) of
                   None \<Rightarrow> None
                 | Some (v, r') \<Rightarrow>
                     (if take 1 r' = '','' then json_members_in n (drop 1 r') ((k, v) # acc)
                      else if take 1 r' = ''}'' then Some (JObj (rev ((k, v) # acc)), drop 1 r')
                      else None)))))"

definition json_in :: "string \<Rightarrow> jsval option" where
  "json_in t =
     (case json_value_in (Suc (length t)) t of
        Some (v, []) \<Rightarrow> Some v
      | _ \<Rightarrow> None)"

definition env0 :: env where
  "env0 =
     \<lparr>toLowerCase = map ascii_lower, trim = ascii_trim, bcrypt_hash = toy_hash,
      bcrypt_compare = toy_compare, json_stringify = json_out, json_parse = json_in,
      pg_string = json_out, int4_in = dec_in, lt_number = (\<lambda>v n. False),
      error_message = (\<lambda>x. ''error''), js_string = json_out\<rparr>"

definition empty_table :: table where
  "empty_table = \<lparr>rows = [], next_id = 1\<rparr>"

definition db0 :: db where
  "db0 =
     \<lparr>users = empty_table, projects = empty_table, colleagues = empty_table,
      meetings = empty_table, ideas = empty_table, notes_table = empty_table,
      career_goals = empty_table, career_stage_history = empty_table,
      future_work = empty_table, deadlines = empty_table, calendar_events = empty_table,
      profiles = empty_table\<rparr>"

text \<open>Two career goals of one user, and three history rows: two of goal 1, one of goal 2.\<close>

definition goal_row :: "int \<Rightarrow> row" where
  "goal_row i =
     new_row career_goals_schema
       [(''user_email'', JStr ''a@x.com''), (''title'', JStr ''Promotion'')] i"

definition history_row :: "int \<Rightarrow> int \<Rightarrow> int \<Rightarrow> row" where
  "history_row i g st =
     new_row career_stage_history_schema
       [(''goal_id'', JNum g), (''stage'', JNum st), (''description'', JStr ''done''),
        (''updated_date'', JStr ''2026-01-01T00:00:00.000Z'')] i"

definition db_goals :: db where
  "db_goals =
     db0\<lparr>career_goals := \<lparr>rows = [goal_row 1, goal_row 2], next_id = 3\<rparr>,
         career_stage_history :=
           \<lparr>rows = [history_row 1 1 1, history_row 2 2 1, history_row 3 1 2], next_id = 4\<rparr>\<rparr>"

text \<open>Requests of the account routes, and the database after the first registration.\<close>

definition body_a :: obj where
  "body_a = [(''email'', JStr ''a@x.com''), (''password'', JStr ''secret1'')]"

definition body_A :: obj where
  "body_A = [(''email'', JStr ''A@X.com''), (''password'', JStr ''secret1'')]"

definition body_wrong :: obj where
  "body_wrong = [(''email'', JStr ''a@x.com''), (''password'', JStr ''wrong'')]"

definition body_short :: obj where
  "body_short = [(''email'', JStr ''b@x.com''), (''password'', JStr ''12345'')]"

definition db_a :: db where
  "db_a =
     db0\<lparr>users :=
           \<lparr>rows = [[(''id'', JNum 1), (''email'', JStr ''a@x.com''),
                     (''password'', JStr ''salt$secret1'')]],
            next_id = 2\<rparr>\<rparr>"

definition body_unknown :: obj where
  "body_unknown = [(''email'', JStr ''b@x.com''), (''password'', JStr ''secret1'')]"

subsection \<open>Vocabulary of the properties\<close>

text \<open>What a statement stores for a list of parameters that all stand for TEXT columns.\<close>

definition bound_text :: "env \<Rightarrow> (string \<times> jsval) list \<Rightarrow> row" where
  "bound_text e ps = map (\<lambda>cv. (fst cv, text_param e (snd cv))) ps"

text \<open>The rows \<open>SELECT * FROM profiles WHERE user_email = u\<close> returns.\<close>

definition profiles_of :: "db \<Rightarrow> string \<Rightarrow> row list" where
  "profiles_of s u = filter (\<lambda>r. col ''user_email'' r = JStr u) (rows (profiles s))"

text \<open>Every row of the table has \<open>id\<close> and the columns of the schema, in order.\<close>

definition table_ok :: "schema \<Rightarrow> table \<Rightarrow> bool" where
  "table_ok sch t = list_all (\<lambda>r. map fst r = ''id'' # map fst sch) (rows t)"


text \<open>Two profile writes of the registered user a@x.com.\<close>

definition body_profile :: obj where
  "body_profile =
     [(''userEmail'', JStr ''a@x.com''), (''fullName'', JStr ''Ann''),
      (''degrees'', JArr [JObj [(''degree'', JStr ''PhD''), (''year'', JNum 2020)],
                          JObj [(''degree'', JStr ''MSc'')]]),
      (''awards'', JArr [])]"

definition body_profile_again :: obj where
  "body_profile_again =
     [(''userEmail'', JStr ''a@x.com''), (''fullName'', JStr ''Ann B.''),
      (''degrees'', JArr [JObj [(''degree'', JStr ''PhD'')]])]"

text \<open>A total preorder: what the comparison of an ORDER BY clause is.\<close>

definition total_preorder :: "('a \<Rightarrow> 'a \<Rightarrow> bool) \<Rightarrow> bool" where
  "total_preorder le = ((\<forall>a b. le a b \<or> le b a) \<and> (\<forall>a b c. le a b \<longrightarrow> le b c \<longrightarrow> le a c))"

text \<open>What a statement stores for a list of parameters that all bind.\<close>

definition bound :: "env \<Rightarrow> schema \<Rightarrow> (string \<times> jsval) list \<Rightarrow> row" where
  "bound e sch ps =
     map (\<lambda>cv. (fst cv, case bind e (ctype sch (fst cv)) (snd cv) of
                           Inr w \<Rightarrow> w
                         | Inl x \<Rightarrow> JNull)) ps"

text \<open>The object \<open>GET /events/:email\<close> makes of a row.\<close>

definition event_of :: "row \<Rightarrow> jsval" where
  "event_of r =
     JObj (select_as events_select_list r @
           [(''isAllDay'', JBool (truthy (col ''is_all_day'' r))),
            (''isOnline'', JBool (truthy (col ''is_online'' r))),
            (''repeatWeekly'', JBool (truthy (col ''repeat_weekly'' r)))])"

text \<open>
  An all-day event of a@x.com, sent with a \<open>created_date\<close> of its own; the row
  \<open>POST /events\<close> stores for it at 2026-11-03T09:00:00.000Z, and the database then.
\<close>

definition body_event :: obj where
  "body_event =
     [(''userEmail'', JStr ''a@x.com''), (''title'', JStr ''Talk''),
      (''date'', JStr ''2026-12-01''), (''start'', JStr ''10:00''), (''isAllDay'', JBool True),
      (''created_date'', JStr ''2020-01-01T00:00:00.000Z'')]"

definition event_row :: row where
  "event_row =
     [(''id'', JNum 1), (''user_email'', JStr ''a@x.com''), (''title'', JStr ''Talk''),
      (''description'', JNull), (''event_date'', JStr ''2026-12-01''),
      (''start_time'', JStr ''10:00''), (''end_time'', JNull), (''location'', JNull),
      (''category'', JStr ''Work''), (''attendees'', JNull), (''reminder'', JNum 15),
      (''is_all_day'', JNum 1), (''recurrence'', JStr ''none''), (''recurrence_end'', JNull),
      (''show_as'', JStr ''busy''), (''priority'', JStr ''normal''), (''is_online'', JNum 0),
      (''meeting_link'', JNull), (''attachments'', JNull), (''repeat_weekly'', JNum 0),
      (''created_date'', JStr ''2026-11-03T09:00:00.000Z''),
      (''modified_date'', JStr ''2026-11-03T09:00:00.000Z'')]"

definition db_event :: db where
  "db_event = db_a\<lparr>calendar_events := \<lparr>rows = [event_row], next_id = 2\<rparr>\<rparr>"

text \<open>Two ideas of a@x.com, without and with a \<open>created_date\<close>, and the row stored.\<close>

definition body_idea :: obj where
  "body_idea = [(''user_email'', JStr ''a@x.com''), (''title'', JStr ''Idea'')]"

definition body_idea_dated :: obj where
  "body_idea_dated =
     [(''user_email'', JStr ''a@x.com''), (''title'', JStr ''Idea''),
      (''created_date'', JStr ''2020-01-01T00:00:00.000Z'')]"

definition idea_row :: "string \<Rightarrow> row" where
  "idea_row d =
     [(''id'', JNum 1), (''user_email'', JStr ''a@x.com''), (''title'', JStr ''Idea''),
      (''content'', JNull), (''category'', JStr ''general''), (''created_date'', JStr d)]"

text \<open>
  A second event of a@x.com on the day of the first, starting an hour earlier and
  created after it.
\<close>

definition body_event_early :: obj where
  "body_event_early =
     [(''userEmail'', JStr ''a@x.com''), (''title'', JStr ''Breakfast''),
      (''date'', JStr ''2026-12-01''), (''start'', JStr ''09:00'')]"

definition event_row_early :: row where
  "event_row_early =
     [(''id'', JNum 2), (''user_email'', JStr ''a@x.com''), (''title'', JStr ''Breakfast''),
      (''description'', JNull), (''event_date'', JStr ''2026-12-01''),
      (''start_time'', JStr ''09:00''), (''end_time'', JNull), (''location'', JNull),
      (''category'', JStr ''Work''), (''attendees'', JNull), (''reminder'', JNum 15),
      (''is_all_day'', JNum 0), (''recurrence'', JStr ''none''), (''recurrence_end'', JNull),
      (''show_as'', JStr ''busy''), (''priority'', JStr ''normal''), (''is_online'', JNum 0),
      (''meeting_link'', JNull), (''attachments'', JNull), (''repeat_weekly'', JNum 0),
      (''created_date'', JStr ''2026-11-03T09:05:00.000Z''),
      (''modified_date'', JStr ''2026-11-03T09:05:00.000Z'')]"

definition db_two_events :: db where
  "db_two_events =
     db_a\<lparr>calendar_events := \<lparr>rows = [event_row, event_row_early], next_id = 3\<rparr>\<rparr>"

text \<open>
  A parameter the server accepts for a TEXT column: NULL, or a text without U+0000. The
  parameters of a statement that the server accepts for the columns they stand for, and
  what it stores for them.
\<close>

definition sendable :: "env \<Rightarrow> jsval \<Rightarrow> bool" where
  "sendable e v = (case text_param e v of JStr t \<Rightarrow> \<not> has_nul t | w \<Rightarrow> True)"

definition binds :: "env \<Rightarrow> schema \<Rightarrow> (string \<times> jsval) list \<Rightarrow> bool" where
  "binds e sch ps =
     list_all (\<lambda>cv. case bind e (ctype sch (fst cv)) (snd cv) of
                        Inr w \<Rightarrow> True
                      | Inl x \<Rightarrow> False) ps"

text \<open>Requests whose password is the number 1234567, for a registered and an unknown email.\<close>

definition body_numeric :: obj where
  "body_numeric = [(''email'', JStr ''a@x.com''), (''password'', JNum 1234567)]"

definition body_numeric_unknown :: obj where
  "body_numeric_unknown = [(''email'', JStr ''b@x.com''), (''password'', JNum 1234567)]"



section \<open>Properties\<close>

subsection \<open>Parameters and comparisons\<close>

lemma bind_int_str:
  "bind e TInt (JStr t) =
     (case int4_in e t of Some n \<Rightarrow> Inr (JNum n) | None \<Rightarrow> Inl (PgError ''22P02''))"
  by (simp add: bind_def text_param_def)

lemma bind_text:
  "bind e TText v = (if sendable e v then Inr (text_param e v) else Inl (PgError ''22021''))"
  by (cases v) (simp_all add: bind_def sendable_def text_param_def)

lemma bind_text_str:
  "bind e TText (JStr t) = (if has_nul t then Inl (PgError ''22021'') else Inr (JStr t))"
  by (simp add: bind_def text_param_def)

lemma sendable_str: "sendable e (JStr t) = (\<not> has_nul t)"
  by (simp add: sendable_def text_param_def)

lemma sendable_null: "sendable e JNull" "sendable e JUndefined"
  by (simp_all add: sendable_def text_param_def)

lemma bind_flag: "bind e TInt (JNum (if b then 1 else 0)) = Inr (JNum (if b then 1 else 0))"
  by (simp add: bind_def)

lemma sql_eq_num: "sql_eq v (JNum n) = (v = JNum n)"
  by (auto simp: sql_eq_def)

lemma sql_eq_str: "sql_eq v (JStr t) = (v = JStr t)"
  by (auto simp: sql_eq_def)

lemma dec_in_1: "int4_in env0 ''1'' = Some 1"
  by (simp add: env0_def dec_in_def digit_in_def)

lemma dec_in_2: "int4_in env0 ''2'' = Some 2"
  by (simp add: env0_def dec_in_def digit_in_def)

lemma dec_in_7: "int4_in env0 ''7'' = Some 7"
  by (simp add: env0_def dec_in_def digit_in_def)

lemma field_col: "col c r = JStr t \<Longrightarrow> field r c = JStr t"
  by (auto simp: col_def field_def split: option.splits)

subsection \<open>Statements\<close>

lemma bind_all_bound: "binds e sch ps \<Longrightarrow> bind_all e sch ps = Inr (bound e sch ps)"
  by (induction ps) (auto simp: bound_def binds_def split: sum.splits)

lemma bind_all_refused: "\<not> binds e sch ps \<Longrightarrow> \<exists>x. bind_all e sch ps = Inl x"
  by (induction ps) (auto simp: binds_def split: sum.splits)

lemma bind_all_binds: "bind_all e sch ps = Inr vals \<Longrightarrow> binds e sch ps"
  using bind_all_refused by fastforce

lemma binds_text:
  "list_all (\<lambda>cv. ctype sch (fst cv) = TText) ps \<Longrightarrow>
   binds e sch ps = list_all (\<lambda>cv. sendable e (snd cv)) ps"
  by (induction ps) (auto simp: binds_def bind_text)

lemma bound_text:
  "list_all (\<lambda>cv. ctype sch (fst cv) = TText) ps \<Longrightarrow> binds e sch ps \<Longrightarrow>
   bound e sch ps = bound_text e ps"
  by (induction ps) (auto simp: binds_def bound_def bound_text_def bind_text split: if_splits)

lemma bind_all_text:
  "list_all (\<lambda>cv. ctype sch (fst cv) = TText) ps \<Longrightarrow>
   list_all (\<lambda>cv. sendable e (snd cv)) ps \<Longrightarrow>
   bind_all e sch ps = Inr (bound_text e ps)"
  by (simp add: bind_all_bound binds_text bound_text)

lemma bind_all_lookup:
  "bind_all e sch ps = Inr vals \<Longrightarrow> map_of ps c = Some v \<Longrightarrow>
   \<exists>w. bind e (ctype sch c) v = Inr w \<and> map_of vals c = Some w"
proof (induction ps arbitrary: vals)
  case Nil
  then show ?case by simp
next
  case (Cons p ps)
  obtain c' v' where p: "p = (c', v')" by (cases p)
  from Cons.prems(1) p obtain w' ws where
    w': "bind e (ctype sch c') v' = Inr w'" and ws: "bind_all e sch ps = Inr ws"
    and vals: "vals = (c', w') # ws"
    by (auto split: sum.splits)
  show ?case
  proof (cases "c = c'")
    case True
    with Cons.prems(2) p w' vals show ?thesis by simp
  next
    case False
    with Cons.prems(2) p have "map_of ps c = Some v" by simp
    from Cons.IH [OF ws this] False vals show ?thesis by simp
  qed
qed

lemma bind_all_keys: "bind_all e sch ps = Inr vals \<Longrightarrow> map fst vals = map fst ps"
  by (induction ps arbitrary: vals) (auto split: sum.splits)

lemma exec_insert_accepted:
  assumes "exec_insert e sch uniq refs ps t = (Inr r, t')"
  shows "\<exists>vals. bind_all e sch ps = Inr vals \<and> r = new_row sch vals (next_id t) \<and>
           t' = \<lparr>rows = rows t @ [r], next_id = next_id t + 1\<rparr>"
  using assms
  by (auto simp: exec_insert_def sql_insert_def Let_def split: sum.splits if_splits)

lemma exec_insert_refused:
  assumes "exec_insert e sch uniq refs ps t = (Inl x, t')"
  shows "rows t' = rows t"
  using assms
  by (auto simp: exec_insert_def sql_insert_def Let_def split: sum.splits if_splits)

lemma exec_insert_unbound:
  "\<not> binds e sch ps \<Longrightarrow> \<exists>x. exec_insert e sch uniq refs ps t = (Inl x, t)"
  using bind_all_refused [of e sch ps] by (auto simp: exec_insert_def)

lemma exec_update_unbound:
  "\<not> binds e sch ps \<Longrightarrow> \<exists>x. exec_update e sch ps kc kv t = (Inl x, t)"
  using bind_all_refused [of e sch ps] by (auto simp: exec_update_def)

lemma map_of_new_row:
  "map_of (new_row sch vals i) k =
     (if k = ''id'' then Some (JNum i)
      else map_option (\<lambda>td. case map_of vals k of Some v \<Rightarrow> v | None \<Rightarrow> snd td)
             (map_of sch k))"
proof -
  have "map_of (map (\<lambda>(c, ty, d). (c, case map_of vals c of Some v \<Rightarrow> v | None \<Rightarrow> d)) sch) k =
        map_option (\<lambda>td. case map_of vals k of Some v \<Rightarrow> v | None \<Rightarrow> snd td) (map_of sch k)"
    by (induction sch) (auto split: option.splits)
  then show ?thesis
    by (simp add: new_row_def)
qed

lemma col_new_row:
  "col c (new_row sch vals i) =
     (if c = ''id'' then JNum i
      else case map_of sch c of
             None \<Rightarrow> JNull
           | Some td \<Rightarrow> (case map_of vals c of Some v \<Rightarrow> v | None \<Rightarrow> snd td))"
  by (simp add: col_def map_of_new_row split: option.splits)

lemma map_of_set_cols:
  "map_of (set_cols sets r) c =
     map_option (\<lambda>v. case map_of sets c of Some w \<Rightarrow> w | None \<Rightarrow> v) (map_of r c)"
  by (induction r) (auto simp: set_cols_def split: option.splits)

lemma col_set_cols:
  "col c (set_cols sets r) =
     (case map_of r c of
        None \<Rightarrow> JNull
      | Some v \<Rightarrow> (case map_of sets c of Some w \<Rightarrow> w | None \<Rightarrow> v))"
  by (simp add: col_def map_of_set_cols split: option.splits)

lemma col_set_cols_other: "map_of sets c = None \<Longrightarrow> col c (set_cols sets r) = col c r"
  by (simp add: col_def map_of_set_cols split: option.splits)


text \<open>The value an accepted INSERT stores in a column that has a parameter.\<close>

lemma inserted_text:
  assumes "exec_insert e sch uniq refs ps t = (Inr r, t')"
    and "map_of ps c = Some v" and "map_of sch c = Some (TText, d)" and "c \<noteq> ''id''"
  shows "col c r = text_param e v \<and> sendable e v"
proof -
  from exec_insert_accepted [OF assms(1)] obtain vals where
    vals: "bind_all e sch ps = Inr vals" and r: "r = new_row sch vals (next_id t)"
    by blast
  from bind_all_lookup [OF vals assms(2)] assms(3)
  have "map_of vals c = Some (text_param e v) \<and> sendable e v"
    by (auto simp: ctype_def bind_text split: if_splits)
  with r assms(3,4) show ?thesis
    by (simp add: col_new_row)
qed

lemma inserted_int:
  assumes "exec_insert e sch uniq refs ps t = (Inr r, t')"
    and "map_of ps c = Some v" and "map_of sch c = Some (TInt, d)" and "c \<noteq> ''id''"
  shows "bind e TInt v = Inr (col c r)"
proof -
  from exec_insert_accepted [OF assms(1)] obtain vals where
    vals: "bind_all e sch ps = Inr vals" and r: "r = new_row sch vals (next_id t)"
    by blast
  from bind_all_lookup [OF vals assms(2)] assms(3) obtain w where
    "bind e TInt v = Inr w" "map_of vals c = Some w"
    by (auto simp: ctype_def)
  with r assms(3,4) show ?thesis
    by (simp add: col_new_row)
qed

lemma exec_select_text:
  "ctype sch kc = TText \<Longrightarrow>
   exec_select e sch kc (JStr k) t =
     (if has_nul k then Inl (PgError ''22021'')
      else Inr (filter (\<lambda>r. col kc r = JStr k) (rows t)))"
  by (simp add: exec_select_def bind_text_str sql_eq_str)

text \<open>An UPDATE or DELETE by \<open>id\<close> that matches no row returns no row and leaves the table as it was.\<close>

lemma no_row_filter:
  "\<not> list_ex (\<lambda>r. col kc r = JNum g) rs \<Longrightarrow> filter (\<lambda>r. col kc r = JNum g) rs = []"
  by (induction rs) auto

lemma no_row_keep:
  "\<not> list_ex (\<lambda>r. col kc r = JNum g) rs \<Longrightarrow> filter (\<lambda>r. col kc r \<noteq> JNum g) rs = rs"
  by (induction rs) auto

lemma exec_update_no_row:
  assumes "binds e sch ps"
    and "ctype sch ''id'' = TInt" and "int4_in e pid = Some g"
    and "\<not> list_ex (\<lambda>r. col ''id'' r = JNum g) (rows t)"
  shows "exec_update e sch ps ''id'' (JStr pid) t = (Inr [], t)"
  using assms
  by (simp add: exec_update_def bind_all_bound bind_int_str sql_eq_num no_row_filter no_row_keep)

lemma exec_delete_no_row:
  assumes "ctype sch ''id'' = TInt" and "int4_in e pid = Some g"
    and "\<not> list_ex (\<lambda>r. col ''id'' r = JNum g) (rows t)"
  shows "exec_delete e sch ''id'' (JStr pid) t = (Inr [], t)"
  using assms
  by (simp add: exec_delete_def bind_int_str sql_eq_num no_row_filter no_row_keep)

subsection \<open>ORDER BY\<close>

lemma set_insort_by: "set (insort_by le x xs) = insert x (set xs)"
  by (induction xs) auto

lemma mset_insort_by: "mset (insort_by le x xs) = add_mset x (mset xs)"
  by (induction xs) auto

lemma mset_order_by: "mset (order_by le xs) = mset xs"
  by (induction xs) (simp_all add: order_by_def mset_insort_by)

lemma set_order_by: "set (order_by le xs) = set xs"
  by (metis mset_order_by set_mset_mset)

lemma length_order_by: "length (order_by le xs) = length xs"
  by (metis mset_order_by size_mset)

lemma sorted_insort_by:
  assumes "total_preorder le" "sorted_wrt le xs"
  shows "sorted_wrt le (insort_by le x xs)"
  using assms(2)
proof (induction xs)
  case Nil
  then show ?case by simp
next
  case (Cons y ys)
  from assms(1) have tot: "\<And>a b. le a b \<or> le b a" and tr: "\<And>a b c. le a b \<Longrightarrow> le b c \<Longrightarrow> le a c"
    by (auto simp: total_preorder_def)
  show ?case
  proof (cases "le x y")
    case True
    with Cons.prems tr show ?thesis by auto
  next
    case False
    with tot have "le y x" by blast
    with Cons False show ?thesis
      by (auto simp: set_insort_by)
  qed
qed

lemma sorted_order_by: "total_preorder le \<Longrightarrow> sorted_wrt le (order_by le xs)"
  by (induction xs) (simp_all add: order_by_def sorted_insort_by)

lemma total_asc: "total_preorder (asc c)"
  by (auto simp: total_preorder_def asc_def)

lemma total_desc: "total_preorder (desc c)"
  by (auto simp: total_preorder_def desc_def)

lemma total_then_by:
  assumes "total_preorder le1" "total_preorder le2"
  shows "total_preorder (then_by le1 le2)"
  using assms unfolding total_preorder_def then_by_def
  by (intro conjI allI impI) (metis+)

subsection \<open>Stage history\<close>

text \<open>
  C10. \<open>DELETE /career_goals/:goalId/history/:historyId\<close> is scoped to its goal: the rows
  it removes are exactly the history rows whose \<open>id\<close> is \<open>historyId\<close> and whose
  \<open>goal_id\<close> is \<open>goalId\<close>, and it reports their number. When no row has both (the
  history row exists but belongs to another goal, or does not exist), nothing is deleted,
  the database is unchanged and the response is \<open>{deleted: 0}\<close>.
\<close>

theorem history_delete_scoped:
  assumes "int4_in e historyId = Some h" and "int4_in e goalId = Some g"
  shows
    "let t = career_stage_history s;
         hit = (\<lambda>r. col ''id'' r = JNum h \<and> col ''goal_id'' r = JNum g)
     in delete_career_goals_goalId_history_historyId e goalId historyId s =
          (Response 200 (JObj [(''deleted'', JNum (int (length (filter hit (rows t)))))]),
           s\<lparr>career_stage_history := t\<lparr>rows := filter (\<lambda>r. \<not> hit r) (rows t)\<rparr>\<rparr>)
        \<and> ((\<forall>r \<in> set (rows t). \<not> hit r) \<longrightarrow>
             delete_career_goals_goalId_history_historyId e goalId historyId s =
               (Response 200 (JObj [(''deleted'', JNum 0)]), s))"
proof -
  let ?t = "career_stage_history s"
  let ?hit = "\<lambda>r. col ''id'' r = JNum h \<and> col ''goal_id'' r = JNum g"
  have run: "delete_career_goals_goalId_history_historyId e goalId historyId s =
          (Response 200 (JObj [(''deleted'', JNum (int (length (filter ?hit (rows ?t)))))]),
           s\<lparr>career_stage_history := ?t\<lparr>rows := filter (\<lambda>r. \<not> ?hit r) (rows ?t)\<rparr>\<rparr>)"
    using assms
    by (simp add: delete_career_goals_goalId_history_historyId_def bind_int_str sql_eq_num
        rowCount_def Let_def)
  have none: "delete_career_goals_goalId_history_historyId e goalId historyId s =
               (Response 200 (JObj [(''deleted'', JNum 0)]), s)"
    if "\<forall>r \<in> set (rows ?t). \<not> ?hit r"
  proof -
    from that have "filter ?hit (rows ?t) = []" "filter (\<lambda>r. \<not> ?hit r) (rows ?t) = rows ?t"
      by (simp_all add: filter_empty_conv filter_id_conv)
    with run show ?thesis by simp
  qed
  from run none show ?thesis by (simp add: Let_def)
qed

text \<open>
  History row 2 belongs to goal 2; asking goal 1 to delete it deletes nothing.
\<close>

theorem history_delete_scoped_witness:
  "int4_in env0 ''2'' = Some 2 \<and> int4_in env0 ''1'' = Some 1 \<and>
   delete_career_goals_goalId_history_historyId env0 ''1'' ''2'' db_goals =
     (Response 200 (JObj [(''deleted'', JNum 0)]), db_goals)"
proof -
  have "\<forall>r \<in> set (rows (career_stage_history db_goals)).
          \<not> (col ''id'' r = JNum 2 \<and> col ''goal_id'' r = JNum 1)"
    by (simp add: db_goals_def history_row_def new_row_def career_stage_history_schema_def
        col_def)
  with history_delete_scoped [OF dec_in_2 dec_in_1, of db_goals] dec_in_1 dec_in_2
  show ?thesis
    by (simp add: Let_def)
qed

subsection \<open>Career goals\<close>

text \<open>
  C2. After \<open>DELETE /career_goals/:id\<close>, whatever the number of stage-history rows of the
  goal before, no stage-history row references the goal and no goal row has the id: the
  history rows left are exactly those of the other goals, and the response counts the goal
  rows removed.
\<close>

theorem career_goal_delete_leaves_no_history:
  assumes "int4_in e pid = Some g"
  shows
    "fst (delete_career_goals_id e pid s) =
       Response 200
         (JObj [(''deleted'',
                 JNum (int (length (filter (\<lambda>r. col ''id'' r = JNum g)
                                      (rows (career_goals s))))))])
     \<and> rows (career_stage_history (snd (delete_career_goals_id e pid s))) =
         filter (\<lambda>r. col ''goal_id'' r \<noteq> JNum g) (rows (career_stage_history s))
     \<and> filter (\<lambda>r. col ''goal_id'' r = JNum g)
         (rows (career_stage_history (snd (delete_career_goals_id e pid s)))) = []
     \<and> filter (\<lambda>r. col ''id'' r = JNum g)
         (rows (career_goals (snd (delete_career_goals_id e pid s)))) = []"
proof -
  have cascade: "(col ''goal_id'' x \<noteq> JNum g \<and>
                  \<not> list_ex (\<lambda>g'. sql_eq (col ''goal_id'' x) (col ''id'' g'))
                       (filter (\<lambda>r. col ''id'' r = JNum g) gs)) =
                 (col ''goal_id'' x \<noteq> JNum g)" for x :: row and gs :: "row list"
    by (auto simp: list_ex_iff sql_eq_def)
  have run: "delete_career_goals_id e pid s =
      (Response 200
         (JObj [(''deleted'',
                 rowCount (filter (\<lambda>r. col ''id'' r = JNum g) (rows (career_goals s))))]),
       s\<lparr>career_stage_history :=
            (career_stage_history s)
              \<lparr>rows := filter (\<lambda>r. col ''goal_id'' r \<noteq> JNum g)
                         (rows (career_stage_history s))\<rparr>,
         career_goals :=
            (career_goals s)
              \<lparr>rows := filter (\<lambda>r. col ''id'' r \<noteq> JNum g) (rows (career_goals s))\<rparr>\<rparr>)"
    using assms
    by (simp add: delete_career_goals_id_def exec_delete_def ctype_def career_goals_schema_def
        career_stage_history_schema_def bind_int_str sql_eq_num on_delete_cascade_def cascade)
  show ?thesis
    by (simp add: run rowCount_def filter_empty_conv)
qed

text \<open>Goal 1 has two history rows; deleting it leaves the one row of goal 2.\<close>

theorem career_goal_delete_leaves_no_history_witness:
  "int4_in env0 ''1'' = Some 1 \<and>
   fst (delete_career_goals_id env0 ''1'' db_goals) =
     Response 200 (JObj [(''deleted'', JNum 1)]) \<and>
   rows (career_stage_history (snd (delete_career_goals_id env0 ''1'' db_goals))) =
     [history_row 2 2 1]"
  using career_goal_delete_leaves_no_history [OF dec_in_1, of db_goals] dec_in_1
  by (simp add: db_goals_def db0_def goal_row_def history_row_def new_row_def
      career_goals_schema_def career_stage_history_schema_def col_def)

subsection \<open>Accounts\<close>

lemma register_valid:
  assumes "field body ''email'' = JStr em" "em \<noteq> []"
    and "field body ''password'' = JStr p" "6 \<le> length p"
  shows "register e salt body s =
     (if has_nul (trim e (toLowerCase e em)) \<or> has_nul (bcrypt_hash e p 10 salt)
      then (Response 500
              (JObj [(''success'', JBool False),
                     (''message'', JStr ''Server error during signup.'')]), s)
      else if \<exists>r \<in> set (rows (users s)). col ''email'' r = JStr (trim e (toLowerCase e em))
      then (Response 400
              (JObj [(''success'', JBool False), (''message'', JStr ''User already exists.'')]),
            s\<lparr>users := (users s)\<lparr>next_id := next_id (users s) + 1\<rparr>\<rparr>)
      else (Response 200
              (JObj [(''success'', JBool True), (''id'', JNum (next_id (users s))),
                     (''email'', JStr (trim e (toLowerCase e em))),
                     (''message'', JStr ''Account created successfully!'')]),
            s\<lparr>users :=
                 \<lparr>rows = rows (users s) @
                           [[(''id'', JNum (next_id (users s))),
                             (''email'', JStr (trim e (toLowerCase e em))),
                             (''password'', JStr (bcrypt_hash e p 10 salt))]],
                  next_id = next_id (users s) + 1\<rparr>\<rparr>))"
proof -
  from assms have "p \<noteq> []" by auto
  with assms show ?thesis
    by (simp add: register_def Let_def js_lt_def js_length_def exec_insert_def sql_insert_def
        users_schema_def ctype_def bind_text_str new_row_def col_def field_def sql_eq_str
        signup_error_def auth_fail_def list_ex_iff)
qed

lemma register_missing:
  "\<not> truthy (field body ''email'') \<or> \<not> truthy (field body ''password'') \<longrightarrow>
     register e salt body s =
       (Response 400
          (JObj [(''success'', JBool False),
                 (''message'', JStr ''Email and password are required.'')]), s)"
  by (auto simp: register_def Let_def auth_fail_def)

lemma register_short:
  "truthy (field body ''email'') \<and> field body ''password'' = JStr p \<and> p \<noteq> [] \<and>
     length p < 6 \<longrightarrow>
   register e salt body s =
     (Response 400
        (JObj [(''success'', JBool False),
               (''message'', JStr ''Password must be at least 6 characters long.'')]), s)"
  by (simp add: register_def Let_def js_lt_def js_length_def auth_fail_def)

lemma register_short_list:
  "truthy (field body ''email'') \<and> field body ''password'' = JArr xs \<and> length xs < 6 \<longrightarrow>
   register e salt body s =
     (Response 400
        (JObj [(''success'', JBool False),
               (''message'', JStr ''Password must be at least 6 characters long.'')]), s)"
  by (simp add: register_def Let_def js_lt_def js_length_def auth_fail_def)

lemma register_password_not_string:
  "truthy (field body ''email'') \<and> truthy (field body ''password'') \<and>
     (\<forall>p. field body ''password'' \<noteq> JStr p) \<and>
     \<not> js_lt e (js_length (field body ''password'')) 6 \<longrightarrow>
   register e salt body s =
     (Response 500
        (JObj [(''success'', JBool False),
               (''message'', JStr ''Server error during signup.'')]), s)"
  by (cases "field body ''password''")
     (simp_all add: register_def Let_def signup_error_def auth_fail_def)

lemma register_password_number:
  "truthy (field body ''email'') \<and> field body ''password'' = JNum k \<and> k \<noteq> 0 \<longrightarrow>
   register e salt body s =
     (Response 500
        (JObj [(''success'', JBool False),
               (''message'', JStr ''Server error during signup.'')]), s)"
  by (simp add: register_def Let_def signup_error_def auth_fail_def js_lt_def js_length_def)

lemma register_email_not_string:
  "truthy (field body ''email'') \<and> (\<forall>em. field body ''email'' \<noteq> JStr em) \<and>
     field body ''password'' = JStr p \<and> 6 \<le> length p \<longrightarrow>
   register e salt body s =
     (Response 500
        (JObj [(''success'', JBool False),
               (''message'', JStr ''Server error during signup.'')]), s)"
proof
  assume a: "truthy (field body ''email'') \<and> (\<forall>em. field body ''email'' \<noteq> JStr em) \<and>
     field body ''password'' = JStr p \<and> 6 \<le> length p"
  then have "p \<noteq> []" by auto
  with a show "register e salt body s =
     (Response 500
        (JObj [(''success'', JBool False),
               (''message'', JStr ''Server error during signup.'')]), s)"
    by (cases "field body ''email''")
       (simp_all add: register_def Let_def signup_error_def auth_fail_def js_lt_def
          js_length_def)
qed

lemma register_strings:
  "field body ''email'' = JStr em \<and> em \<noteq> [] \<and> field body ''password'' = JStr p \<and>
     6 \<le> length p \<longrightarrow>
   (let n = trim e (toLowerCase e em); h = bcrypt_hash e p 10 salt in
    register e salt body s =
      (if has_nul n \<or> has_nul h
       then (Response 500
               (JObj [(''success'', JBool False),
                      (''message'', JStr ''Server error during signup.'')]), s)
       else if \<exists>r \<in> set (rows (users s)). col ''email'' r = JStr n
       then (Response 400
               (JObj [(''success'', JBool False),
                      (''message'', JStr ''User already exists.'')]),
             s\<lparr>users := (users s)\<lparr>next_id := next_id (users s) + 1\<rparr>\<rparr>)
       else (Response 200
               (JObj [(''success'', JBool True), (''id'', JNum (next_id (users s))),
                      (''email'', JStr n),
                      (''message'', JStr ''Account created successfully!'')]),
             s\<lparr>users :=
                  \<lparr>rows = rows (users s) @
                            [[(''id'', JNum (next_id (users s))), (''email'', JStr n),
                              (''password'', JStr h)]],
                   next_id = next_id (users s) + 1\<rparr>\<rparr>)))"
  by (simp add: Let_def register_valid)

lemma register_twice:
  "field body ''email'' = JStr em \<and> em \<noteq> [] \<and> field body ''password'' = JStr p \<and>
     6 \<le> length p \<and> field body' ''email'' = JStr em' \<and> em' \<noteq> [] \<and>
     field body' ''password'' = JStr p' \<and> 6 \<le> length p' \<and>
     toLowerCase e em' = toLowerCase e em \<and>
     \<not> has_nul (trim e (toLowerCase e em)) \<and> \<not> has_nul (bcrypt_hash e p 10 salt) \<and>
     \<not> has_nul (bcrypt_hash e p' 10 salt') \<longrightarrow>
   fst (register e salt' body' (snd (register e salt body s))) =
     Response 400
       (JObj [(''success'', JBool False), (''message'', JStr ''User already exists.'')])"
proof
  assume a: "field body ''email'' = JStr em \<and> em \<noteq> [] \<and> field body ''password'' = JStr p \<and>
     6 \<le> length p \<and> field body' ''email'' = JStr em' \<and> em' \<noteq> [] \<and>
     field body' ''password'' = JStr p' \<and> 6 \<le> length p' \<and>
     toLowerCase e em' = toLowerCase e em \<and>
     \<not> has_nul (trim e (toLowerCase e em)) \<and> \<not> has_nul (bcrypt_hash e p 10 salt) \<and>
     \<not> has_nul (bcrypt_hash e p' 10 salt')"
  let ?s1 = "snd (register e salt body s)"
  from a have "\<exists>r \<in> set (rows (users ?s1)). col ''email'' r = JStr (trim e (toLowerCase e em))"
    by (auto simp: register_valid col_def)
  with a show "fst (register e salt' body' ?s1) =
     Response 400
       (JObj [(''success'', JBool False), (''message'', JStr ''User already exists.'')])"
    by (simp add: register_valid [where body = body'])
qed

lemma lower_a: "toLowerCase env0 ''a@x.com'' = ''a@x.com''"
  by (simp add: env0_def ascii_lower_def)

lemma lower_A: "toLowerCase env0 ''A@X.com'' = ''a@x.com''"
  by (simp add: env0_def ascii_lower_def)

lemma trim_a: "trim env0 ''a@x.com'' = ''a@x.com''"
  by (simp add: env0_def ascii_trim_def ascii_space_def)

lemma hash_a: "bcrypt_hash env0 ''secret1'' 10 ''salt'' = ''salt$secret1''"
  by (simp add: env0_def toy_hash_def)

lemma hash_A: "bcrypt_hash env0 ''secret1'' 10 ''pepper'' = ''pepper$secret1''"
  by (simp add: env0_def toy_hash_def)

lemma register_a:
  "register env0 ''salt'' body_a db0 =
     (Response 200
        (JObj [(''success'', JBool True), (''id'', JNum 1), (''email'', JStr ''a@x.com''),
               (''message'', JStr ''Account created successfully!'')]),
      db_a)"
  by (simp add: register_valid [where em = "''a@x.com''" and p = "''secret1''"] body_a_def
      field_def lower_a trim_a hash_a has_nul_def db_a_def db0_def empty_table_def)

text \<open>
  C1, as the code has it. \<open>POST /register\<close>, for every request. A missing email or
  password (absent, null, empty, 0 or false: a falsy value) is answered 400, and so is a
  password that is a string or a list of fewer than 6 characters or items; the database
  is unchanged. When both are strings and the password has 6 characters or more: if the
  lower-cased and trimmed email or the hash holds U+0000, the INSERT is refused, the
  answer is 500 "Server error during signup." and nothing is written; otherwise, if a
  user row already holds the normalised email, the answer is 400 "User already exists."
  and no row is written (a value of the id sequence is consumed); otherwise one row is
  appended with the next id, the normalised email and the bcrypt hash of the password
  (10 rounds, the salt drawn by the call), and the answer carries that id and email. A
  present password that is not a string and passes the length test (a non-zero number,
  say), or a present email that is not a string, is answered 500 "Server error during
  signup." and nothing is written. A second registration whose email differs from the
  first only in case is answered with the conflict. A password of 5 characters is
  refused; one of 6 passes validation (the third part applies to it).
\<close>

theorem register_contract:
  "(\<not> truthy (field body ''email'') \<or> \<not> truthy (field body ''password'') \<longrightarrow>
      register e salt body s =
        (Response 400
           (JObj [(''success'', JBool False),
                  (''message'', JStr ''Email and password are required.'')]), s))
   \<and> (truthy (field body ''email'') \<and> field body ''password'' = JStr p \<and> p \<noteq> [] \<and>
        length p < 6 \<longrightarrow>
      register e salt body s =
        (Response 400
           (JObj [(''success'', JBool False),
                  (''message'', JStr ''Password must be at least 6 characters long.'')]), s))
   \<and> (truthy (field body ''email'') \<and> field body ''password'' = JArr xs \<and>
        length xs < 6 \<longrightarrow>
      register e salt body s =
        (Response 400
           (JObj [(''success'', JBool False),
                  (''message'', JStr ''Password must be at least 6 characters long.'')]), s))
   \<and> (field body ''email'' = JStr em \<and> em \<noteq> [] \<and> field body ''password'' = JStr p \<and>
        6 \<le> length p \<longrightarrow>
      (let n = trim e (toLowerCase e em); h = bcrypt_hash e p 10 salt in
       register e salt body s =
         (if has_nul n \<or> has_nul h
          then (Response 500
                  (JObj [(''success'', JBool False),
                         (''message'', JStr ''Server error during signup.'')]), s)
          else if \<exists>r \<in> set (rows (users s)). col ''email'' r = JStr n
          then (Response 400
                  (JObj [(''success'', JBool False),
                         (''message'', JStr ''User already exists.'')]),
                s\<lparr>users := (users s)\<lparr>next_id := next_id (users s) + 1\<rparr>\<rparr>)
          else (Response 200
                  (JObj [(''success'', JBool True), (''id'', JNum (next_id (users s))),
                         (''email'', JStr n),
                         (''message'', JStr ''Account created successfully!'')]),
                s\<lparr>users :=
                     \<lparr>rows = rows (users s) @
                               [[(''id'', JNum (next_id (users s))), (''email'', JStr n),
                                 (''password'', JStr h)]],
                      next_id = next_id (users s) + 1\<rparr>\<rparr>))))
   \<and> (truthy (field body ''email'') \<and> truthy (field body ''password'') \<and>
        (\<forall>p. field body ''password'' \<noteq> JStr p) \<and>
        \<not> js_lt e (js_length (field body ''password'')) 6 \<longrightarrow>
      register e salt body s =
        (Response 500
           (JObj [(''success'', JBool False),
                  (''message'', JStr ''Server error during signup.'')]), s))
   \<and> (truthy (field body ''email'') \<and> field body ''password'' = JNum k \<and> k \<noteq> 0 \<longrightarrow>
      register e salt body s =
        (Response 500
           (JObj [(''success'', JBool False),
                  (''message'', JStr ''Server error during signup.'')]), s))
   \<and> (truthy (field body ''email'') \<and> (\<forall>em. field body ''email'' \<noteq> JStr em) \<and>
        field body ''password'' = JStr p \<and> 6 \<le> length p \<longrightarrow>
      register e salt body s =
        (Response 500
           (JObj [(''success'', JBool False),
                  (''message'', JStr ''Server error during signup.'')]), s))
   \<and> (field body ''email'' = JStr em \<and> em \<noteq> [] \<and> field body ''password'' = JStr p \<and>
        6 \<le> length p \<and> field body' ''email'' = JStr em' \<and> em' \<noteq> [] \<and>
        field body' ''password'' = JStr p' \<and> 6 \<le> length p' \<and>
        toLowerCase e em' = toLowerCase e em \<and>
        \<not> has_nul (trim e (toLowerCase e em)) \<and> \<not> has_nul (bcrypt_hash e p 10 salt) \<and>
        \<not> has_nul (bcrypt_hash e p' 10 salt') \<longrightarrow>
      fst (register e salt' body' (snd (register e salt body s))) =
        Response 400
          (JObj [(''success'', JBool False), (''message'', JStr ''User already exists.'')]))"
  by (intro conjI register_missing register_short register_short_list register_strings
      register_password_not_string register_password_number register_email_not_string
      register_twice)

text \<open>
  On the empty database: a@x.com registers with id 1; A@X.com is then a conflict; a
  password of five characters is refused and nothing is written.
\<close>

theorem register_contract_witness:
  "register env0 ''salt'' body_a db0 =
     (Response 200
        (JObj [(''success'', JBool True), (''id'', JNum 1), (''email'', JStr ''a@x.com''),
               (''message'', JStr ''Account created successfully!'')]),
      db_a)
   \<and> fst (register env0 ''pepper'' body_A (snd (register env0 ''salt'' body_a db0))) =
       Response 400
         (JObj [(''success'', JBool False), (''message'', JStr ''User already exists.'')])
   \<and> register env0 ''salt'' body_short db0 =
       (Response 400
          (JObj [(''success'', JBool False),
                 (''message'', JStr ''Password must be at least 6 characters long.'')]), db0)"
proof -
  have a: "field body_a ''email'' = JStr ''a@x.com'' \<and> ''a@x.com'' \<noteq> [] \<and>
           field body_a ''password'' = JStr ''secret1'' \<and> 6 \<le> length ''secret1''"
    by (simp add: body_a_def field_def)
  have A: "field body_A ''email'' = JStr ''A@X.com'' \<and> ''A@X.com'' \<noteq> [] \<and>
           field body_A ''password'' = JStr ''secret1'' \<and> 6 \<le> length ''secret1'' \<and>
           toLowerCase env0 ''A@X.com'' = toLowerCase env0 ''a@x.com''"
    by (simp add: body_A_def field_def lower_a lower_A)
  have ok: "\<not> has_nul (trim env0 (toLowerCase env0 ''a@x.com''))"
    "\<not> has_nul (bcrypt_hash env0 ''secret1'' 10 ''salt'')"
    "\<not> has_nul (bcrypt_hash env0 ''secret1'' 10 ''pepper'')"
    by (simp_all add: lower_a trim_a hash_a hash_A has_nul_def)
  have short: "truthy (field body_short ''email'') \<and>
           field body_short ''password'' = JStr ''12345'' \<and> ''12345'' \<noteq> [] \<and>
           length ''12345'' < 6"
    by (simp add: body_short_def field_def)
  have fresh: "\<not> (\<exists>r \<in> set (rows (users db0)).
                   col ''email'' r = JStr (trim env0 (toLowerCase env0 ''a@x.com'')))"
    by (simp add: db0_def empty_table_def)
  note c = register_contract [where e = env0 and salt = "''salt''" and body = body_a
      and s = db0 and em = "''a@x.com''" and p = "''secret1''" and body' = body_A
      and em' = "''A@X.com''" and p' = "''secret1''" and salt' = "''pepper''"
      and xs = "[]" and k = 1]
  from c a have "let n = trim env0 (toLowerCase env0 ''a@x.com'');
                     h = bcrypt_hash env0 ''secret1'' 10 ''salt'' in
       register env0 ''salt'' body_a db0 =
         (if has_nul n \<or> has_nul h
          then (Response 500
                  (JObj [(''success'', JBool False),
                         (''message'', JStr ''Server error during signup.'')]), db0)
          else if \<exists>r \<in> set (rows (users db0)). col ''email'' r = JStr n
          then (Response 400
                  (JObj [(''success'', JBool False),
                         (''message'', JStr ''User already exists.'')]),
                db0\<lparr>users := (users db0)\<lparr>next_id := next_id (users db0) + 1\<rparr>\<rparr>)
          else (Response 200
                  (JObj [(''success'', JBool True), (''id'', JNum (next_id (users db0))),
                         (''email'', JStr n),
                         (''message'', JStr ''Account created successfully!'')]),
                db0\<lparr>users :=
                     \<lparr>rows = rows (users db0) @
                               [[(''id'', JNum (next_id (users db0))), (''email'', JStr n),
                                 (''password'', JStr h)]],
                      next_id = next_id (users db0) + 1\<rparr>\<rparr>))"
    by blast
  with ok fresh have first: "register env0 ''salt'' body_a db0 =
     (Response 200
        (JObj [(''success'', JBool True), (''id'', JNum 1), (''email'', JStr ''a@x.com''),
               (''message'', JStr ''Account created successfully!'')]),
      db_a)"
    by (simp add: Let_def lower_a trim_a hash_a db_a_def db0_def empty_table_def)
  from c a A ok have second:
    "fst (register env0 ''pepper'' body_A (snd (register env0 ''salt'' body_a db0))) =
       Response 400
         (JObj [(''success'', JBool False), (''message'', JStr ''User already exists.'')])"
    by blast
  from short register_contract [where e = env0 and salt = "''salt''" and body = body_short
      and s = db0 and p = "''12345''" and em = "[]" and xs = "[]" and k = 1
      and body' = body_short and em' = "[]" and p' = "[]" and salt' = "[]"]
  have third: "register env0 ''salt'' body_short db0 =
       (Response 400
          (JObj [(''success'', JBool False),
                 (''message'', JStr ''Password must be at least 6 characters long.'')]), db0)"
    by blast
  from first second third show ?thesis by blast
qed

text \<open>
  C1 as stated fails on a password that is not a string: a@x.com with the number 1234567
  as password has both fields present, no length below 6 and no stored row, yet nothing
  is stored and the answer is 500.
\<close>

theorem register_numeric_password:
  "register env0 ''salt'' body_numeric db0 =
     (Response 500
        (JObj [(''success'', JBool False),
               (''message'', JStr ''Server error during signup.'')]), db0)
   \<and> field body_numeric ''email'' = JStr ''a@x.com''
   \<and> field body_numeric ''password'' = JNum 1234567
   \<and> rows (users db0) = []"
  by (simp add: register_def Let_def body_numeric_def field_def js_lt_def js_length_def
      signup_error_def auth_fail_def db0_def empty_table_def)

lemma login_present:
  assumes "field body ''email'' = JStr em" "em \<noteq> []"
    and "field body ''password'' = JStr p" "p \<noteq> []"
  shows "login e body s =
     (if has_nul (trim e (toLowerCase e em))
      then Response 500 (JObj [(''success'', JBool False), (''message'', JStr ''Login failed.'')])
      else
        (case filter (\<lambda>r. col ''email'' r = JStr (trim e (toLowerCase e em))) (rows (users s)) of
           [] \<Rightarrow> Response 400 (JObj [(''success'', JBool False),
                                     (''message'', JStr ''Invalid credentials.'')])
         | user # rest \<Rightarrow>
             (case field user ''password'' of
                JStr h \<Rightarrow>
                  (if bcrypt_compare e p h
                   then Response 200
                          (JObj [(''success'', JBool True),
                                 (''email'', JStr (trim e (toLowerCase e em))),
                                 (''message'', JStr ''Login successful!'')])
                   else Response 400 (JObj [(''success'', JBool False),
                                            (''message'', JStr ''Invalid credentials.'')]))
              | _ \<Rightarrow> Response 500 (JObj [(''success'', JBool False),
                                          (''message'', JStr ''Login failed.'')]))))"
proof -
  let ?n = "trim e (toLowerCase e em)"
  have sel: "exec_select e users_schema ''email'' (JStr ?n) (users s) =
        (if has_nul ?n then Inl (PgError ''22021'')
         else Inr (filter (\<lambda>r. col ''email'' r = JStr ?n) (rows (users s))))"
    by (simp add: exec_select_text ctype_def users_schema_def)
  show ?thesis
  proof (cases "has_nul ?n")
    case True
    with assms sel show ?thesis by (simp add: login_def Let_def auth_fail_def)
  next
    case False
    note ok = this
    show ?thesis
    proof (cases "filter (\<lambda>r. col ''email'' r = JStr ?n) (rows (users s))")
      case Nil
      with assms sel ok show ?thesis by (simp add: login_def Let_def auth_fail_def)
    next
      case (Cons user rest)
      then have "user \<in> set (filter (\<lambda>r. col ''email'' r = JStr ?n) (rows (users s)))"
        by simp
      then have "field user ''email'' = JStr ?n"
        by (simp add: field_col)
      with assms sel ok Cons show ?thesis
        by (simp add: login_def Let_def auth_fail_def split: jsval.splits)
    qed
  qed
qed

lemma login_missing:
  "\<not> truthy (field body ''email'') \<or> \<not> truthy (field body ''password'') \<longrightarrow>
     login e body s =
       Response 400
         (JObj [(''success'', JBool False),
                (''message'', JStr ''Email and password are required.'')])"
  by (auto simp: login_def Let_def auth_fail_def)

lemma login_strings:
  "field body ''email'' = JStr em \<and> em \<noteq> [] \<and> field body ''password'' = JStr p \<and> p \<noteq> [] \<and>
     \<not> has_nul (trim e (toLowerCase e em)) \<longrightarrow>
     (let n = trim e (toLowerCase e em);
          hits = filter (\<lambda>r. col ''email'' r = JStr n) (rows (users s));
          ok = Response 200
                 (JObj [(''success'', JBool True), (''email'', JStr n),
                        (''message'', JStr ''Login successful!'')]);
          invalid = Response 400
                      (JObj [(''success'', JBool False),
                             (''message'', JStr ''Invalid credentials.'')]);
          verified = (\<exists>user rest h. hits = user # rest \<and> field user ''password'' = JStr h \<and>
                        bcrypt_compare e p h)
      in ((\<exists>b. login e body s = Response 200 b) = verified)
         \<and> (verified \<longrightarrow> login e body s = ok)
         \<and> (hits = [] \<longrightarrow> login e body s = invalid)
         \<and> (\<forall>user rest h. hits = user # rest \<and> field user ''password'' = JStr h \<and>
               \<not> bcrypt_compare e p h \<longrightarrow> login e body s = invalid)
         \<and> ((\<forall>r \<in> set (rows (users s)). \<exists>h. field r ''password'' = JStr h) \<and> \<not> verified \<longrightarrow>
               login e body s = invalid))"
proof
  assume a: "field body ''email'' = JStr em \<and> em \<noteq> [] \<and> field body ''password'' = JStr p \<and>
     p \<noteq> [] \<and> \<not> has_nul (trim e (toLowerCase e em))"
  let ?n = "trim e (toLowerCase e em)"
  let ?hits = "filter (\<lambda>r. col ''email'' r = JStr ?n) (rows (users s))"
  let ?invalid = "Response 400 (JObj [(''success'', JBool False),
                                     (''message'', JStr ''Invalid credentials.'')])"
  from a have run: "login e body s =
     (case ?hits of
        [] \<Rightarrow> ?invalid
      | user # rest \<Rightarrow>
          (case field user ''password'' of
             JStr h \<Rightarrow>
               (if bcrypt_compare e p h
                then Response 200
                       (JObj [(''success'', JBool True), (''email'', JStr ?n),
                              (''message'', JStr ''Login successful!'')])
                else ?invalid)
           | _ \<Rightarrow> Response 500 (JObj [(''success'', JBool False),
                                       (''message'', JStr ''Login failed.'')])))"
    by (simp add: login_present)
  have strings: "\<exists>h. field user ''password'' = JStr h"
    if "\<forall>r \<in> set (rows (users s)). \<exists>h. field r ''password'' = JStr h" "?hits = user # rest"
    for user rest
  proof -
    from that(2) have "user \<in> set ?hits" by simp
    then have "user \<in> set (rows (users s))" by simp
    with that(1) show ?thesis by blast
  qed
  show "let n = trim e (toLowerCase e em);
          hits = filter (\<lambda>r. col ''email'' r = JStr n) (rows (users s));
          ok = Response 200
                 (JObj [(''success'', JBool True), (''email'', JStr n),
                        (''message'', JStr ''Login successful!'')]);
          invalid = Response 400
                      (JObj [(''success'', JBool False),
                             (''message'', JStr ''Invalid credentials.'')]);
          verified = (\<exists>user rest h. hits = user # rest \<and> field user ''password'' = JStr h \<and>
                        bcrypt_compare e p h)
      in ((\<exists>b. login e body s = Response 200 b) = verified)
         \<and> (verified \<longrightarrow> login e body s = ok)
         \<and> (hits = [] \<longrightarrow> login e body s = invalid)
         \<and> (\<forall>user rest h. hits = user # rest \<and> field user ''password'' = JStr h \<and>
               \<not> bcrypt_compare e p h \<longrightarrow> login e body s = invalid)
         \<and> ((\<forall>r \<in> set (rows (users s)). \<exists>h. field r ''password'' = JStr h) \<and> \<not> verified \<longrightarrow>
               login e body s = invalid)"
  proof (cases ?hits)
    case Nil
    with run show ?thesis
      by (simp add: Let_def)
  next
    case (Cons user rest)
    with run strings [of user rest] show ?thesis
      by (auto simp: Let_def split: jsval.splits)
  qed
qed

lemma login_refused_email:
  "field body ''email'' = JStr em \<and> em \<noteq> [] \<and> truthy (field body ''password'') \<and>
     has_nul (trim e (toLowerCase e em)) \<longrightarrow>
   login e body s =
     Response 500 (JObj [(''success'', JBool False), (''message'', JStr ''Login failed.'')])"
  by (simp add: login_def Let_def auth_fail_def exec_select_text ctype_def users_schema_def)

lemma login_password_not_string:
  "field body ''email'' = JStr em \<and> em \<noteq> [] \<and> \<not> has_nul (trim e (toLowerCase e em)) \<and>
     truthy (field body ''password'') \<and> (\<forall>p. field body ''password'' \<noteq> JStr p) \<longrightarrow>
   login e body s =
     (if filter (\<lambda>r. col ''email'' r = JStr (trim e (toLowerCase e em))) (rows (users s)) = []
      then Response 400 (JObj [(''success'', JBool False),
                               (''message'', JStr ''Invalid credentials.'')])
      else Response 500 (JObj [(''success'', JBool False),
                               (''message'', JStr ''Login failed.'')]))"
proof
  assume a: "field body ''email'' = JStr em \<and> em \<noteq> [] \<and>
     \<not> has_nul (trim e (toLowerCase e em)) \<and>
     truthy (field body ''password'') \<and> (\<forall>p. field body ''password'' \<noteq> JStr p)"
  let ?hits = "filter (\<lambda>r. col ''email'' r = JStr (trim e (toLowerCase e em))) (rows (users s))"
  show "login e body s =
     (if ?hits = []
      then Response 400 (JObj [(''success'', JBool False),
                               (''message'', JStr ''Invalid credentials.'')])
      else Response 500 (JObj [(''success'', JBool False),
                               (''message'', JStr ''Login failed.'')]))"
  proof (cases ?hits)
    case Nil
    with a show ?thesis
      by (simp add: login_def Let_def auth_fail_def exec_select_text ctype_def users_schema_def)
  next
    case (Cons user rest)
    with a show ?thesis
      by (cases "field body ''password''")
         (simp_all add: login_def Let_def auth_fail_def exec_select_text ctype_def
            users_schema_def)
  qed
qed

lemma login_email_not_string:
  "truthy (field body ''email'') \<and> (\<forall>em. field body ''email'' \<noteq> JStr em) \<and>
     truthy (field body ''password'') \<longrightarrow>
   login e body s =
     Response 500 (JObj [(''success'', JBool False), (''message'', JStr ''Login failed.'')])"
  by (cases "field body ''email''") (simp_all add: login_def Let_def auth_fail_def)

lemma login_after_register:
  "field body ''email'' = JStr em \<and> em \<noteq> [] \<and> field body ''password'' = JStr p \<and>
     6 \<le> length p \<and>
     \<not> has_nul (trim e (toLowerCase e em)) \<and> \<not> has_nul (bcrypt_hash e p 10 salt) \<and>
     \<not> (\<exists>r \<in> set (rows (users s)). col ''email'' r = JStr (trim e (toLowerCase e em))) \<and>
     field body' ''email'' = JStr em' \<and> em' \<noteq> [] \<and> toLowerCase e em' = toLowerCase e em \<and>
     field body' ''password'' = JStr p' \<and> p' \<noteq> [] \<longrightarrow>
   login e body' (snd (register e salt body s)) =
     (if bcrypt_compare e p' (bcrypt_hash e p 10 salt)
      then Response 200
             (JObj [(''success'', JBool True),
                    (''email'', JStr (trim e (toLowerCase e em))),
                    (''message'', JStr ''Login successful!'')])
      else Response 400 (JObj [(''success'', JBool False),
                               (''message'', JStr ''Invalid credentials.'')]))"
proof
  assume a: "field body ''email'' = JStr em \<and> em \<noteq> [] \<and> field body ''password'' = JStr p \<and>
     6 \<le> length p \<and>
     \<not> has_nul (trim e (toLowerCase e em)) \<and> \<not> has_nul (bcrypt_hash e p 10 salt) \<and>
     \<not> (\<exists>r \<in> set (rows (users s)). col ''email'' r = JStr (trim e (toLowerCase e em))) \<and>
     field body' ''email'' = JStr em' \<and> em' \<noteq> [] \<and> toLowerCase e em' = toLowerCase e em \<and>
     field body' ''password'' = JStr p' \<and> p' \<noteq> []"
  let ?n = "trim e (toLowerCase e em)"
  let ?s1 = "snd (register e salt body s)"
  from a have old: "filter (\<lambda>r. col ''email'' r = JStr ?n) (rows (users s)) = []"
    by (simp add: filter_empty_conv)
  from a have "rows (users ?s1) =
      rows (users s) @ [[(''id'', JNum (next_id (users s))), (''email'', JStr ?n),
                         (''password'', JStr (bcrypt_hash e p 10 salt))]]"
    by (simp add: register_valid)
  with old have "filter (\<lambda>r. col ''email'' r = JStr ?n) (rows (users ?s1)) =
      [[(''id'', JNum (next_id (users s))), (''email'', JStr ?n),
        (''password'', JStr (bcrypt_hash e p 10 salt))]]"
    by (simp add: col_def)
  with a show "login e body' ?s1 =
        (if bcrypt_compare e p' (bcrypt_hash e p 10 salt)
         then Response 200
                (JObj [(''success'', JBool True), (''email'', JStr ?n),
                       (''message'', JStr ''Login successful!'')])
         else Response 400 (JObj [(''success'', JBool False),
                                  (''message'', JStr ''Invalid credentials.'')]))"
    by (simp add: login_present [where body = body' and em = em' and p = p'] field_def)
qed

text \<open>
  C5, as the code has it. \<open>POST /login\<close>, for every request. A missing email or
  password is answered 400 "Email and password are required.". When both are non-empty
  strings and the lower-cased and trimmed email holds no U+0000: the answer is 200
  exactly when a user row holds the normalised email and the password verifies against
  the hash of the first such row (the only one: \<open>users.email\<close> is UNIQUE); it then
  carries the stored email. An unknown email and a password that does not verify get
  the same answer, 400 "Invalid credentials."; and when every stored password is a
  string, as \<open>register\<close> writes it, every failure is that answer. Outside these requests
  the failures differ: an email whose normalised form holds U+0000, or a present email
  that is not a string, is answered 500 "Login failed."; a present password that is not
  a string is answered 400 "Invalid credentials." when no user row holds the email and
  500 "Login failed." when one does. After a successful registration, a login whose
  email differs only in case succeeds when the password verifies against the hash just
  stored and is answered 400 "Invalid credentials." when it does not.
\<close>

theorem login_contract:
  "(\<not> truthy (field body ''email'') \<or> \<not> truthy (field body ''password'') \<longrightarrow>
     login e body s =
       Response 400
         (JObj [(''success'', JBool False),
                (''message'', JStr ''Email and password are required.'')]))
   \<and> (field body ''email'' = JStr em \<and> em \<noteq> [] \<and> field body ''password'' = JStr p \<and>
      p \<noteq> [] \<and> \<not> has_nul (trim e (toLowerCase e em)) \<longrightarrow>
     (let n = trim e (toLowerCase e em);
          hits = filter (\<lambda>r. col ''email'' r = JStr n) (rows (users s));
          ok = Response 200
                 (JObj [(''success'', JBool True), (''email'', JStr n),
                        (''message'', JStr ''Login successful!'')]);
          invalid = Response 400
                      (JObj [(''success'', JBool False),
                             (''message'', JStr ''Invalid credentials.'')]);
          verified = (\<exists>user rest h. hits = user # rest \<and> field user ''password'' = JStr h \<and>
                        bcrypt_compare e p h)
      in ((\<exists>b. login e body s = Response 200 b) = verified)
         \<and> (verified \<longrightarrow> login e body s = ok)
         \<and> (hits = [] \<longrightarrow> login e body s = invalid)
         \<and> (\<forall>user rest h. hits = user # rest \<and> field user ''password'' = JStr h \<and>
               \<not> bcrypt_compare e p h \<longrightarrow> login e body s = invalid)
         \<and> ((\<forall>r \<in> set (rows (users s)). \<exists>h. field r ''password'' = JStr h) \<and> \<not> verified \<longrightarrow>
               login e body s = invalid)))
   \<and> (field body ''email'' = JStr em \<and> em \<noteq> [] \<and> truthy (field body ''password'') \<and>
      has_nul (trim e (toLowerCase e em)) \<longrightarrow>
     login e body s =
       Response 500 (JObj [(''success'', JBool False), (''message'', JStr ''Login failed.'')]))
   \<and> (field body ''email'' = JStr em \<and> em \<noteq> [] \<and> \<not> has_nul (trim e (toLowerCase e em)) \<and>
      truthy (field body ''password'') \<and> (\<forall>p. field body ''password'' \<noteq> JStr p) \<longrightarrow>
     login e body s =
       (if filter (\<lambda>r. col ''email'' r = JStr (trim e (toLowerCase e em))) (rows (users s)) = []
        then Response 400 (JObj [(''success'', JBool False),
                                 (''message'', JStr ''Invalid credentials.'')])
        else Response 500 (JObj [(''success'', JBool False),
                                 (''message'', JStr ''Login failed.'')])))
   \<and> (truthy (field body ''email'') \<and> (\<forall>em. field body ''email'' \<noteq> JStr em) \<and>
      truthy (field body ''password'') \<longrightarrow>
     login e body s =
       Response 500 (JObj [(''success'', JBool False), (''message'', JStr ''Login failed.'')]))
   \<and> (field body ''email'' = JStr em \<and> em \<noteq> [] \<and> field body ''password'' = JStr p \<and>
        6 \<le> length p \<and>
        \<not> has_nul (trim e (toLowerCase e em)) \<and> \<not> has_nul (bcrypt_hash e p 10 salt) \<and>
        \<not> (\<exists>r \<in> set (rows (users s)). col ''email'' r = JStr (trim e (toLowerCase e em))) \<and>
        field body' ''email'' = JStr em' \<and> em' \<noteq> [] \<and> toLowerCase e em' = toLowerCase e em \<and>
        field body' ''password'' = JStr p' \<and> p' \<noteq> [] \<longrightarrow>
      login e body' (snd (register e salt body s)) =
        (if bcrypt_compare e p' (bcrypt_hash e p 10 salt)
         then Response 200
                (JObj [(''success'', JBool True),
                       (''email'', JStr (trim e (toLowerCase e em))),
                       (''message'', JStr ''Login successful!'')])
         else Response 400 (JObj [(''success'', JBool False),
                                  (''message'', JStr ''Invalid credentials.'')])))"
  by (intro conjI login_missing login_strings login_refused_email login_password_not_string
      login_email_not_string login_after_register)

text \<open>
  After a@x.com registered with "secret1": A@X.com with "secret1" logs in; a@x.com with
  "wrong" and the unknown b@x.com both get "Invalid credentials.".
\<close>

theorem login_contract_witness:
  "login env0 body_A db_a =
     Response 200
       (JObj [(''success'', JBool True), (''email'', JStr ''a@x.com''),
              (''message'', JStr ''Login successful!'')])
   \<and> login env0 body_wrong db_a =
       Response 400 (JObj [(''success'', JBool False),
                           (''message'', JStr ''Invalid credentials.'')])
   \<and> login env0 body_unknown db_a =
       Response 400 (JObj [(''success'', JBool False),
                           (''message'', JStr ''Invalid credentials.'')])"
proof -
  have fresh: "\<not> (\<exists>r \<in> set (rows (users db0)).
                   col ''email'' r = JStr (trim env0 (toLowerCase env0 ''a@x.com'')))"
    by (simp add: db0_def empty_table_def)
  have ok: "\<not> has_nul (trim env0 (toLowerCase env0 ''a@x.com''))"
    "\<not> has_nul (bcrypt_hash env0 ''secret1'' 10 ''salt'')"
    by (simp_all add: lower_a trim_a hash_a has_nul_def)
  have a: "field body_a ''email'' = JStr ''a@x.com'' \<and> ''a@x.com'' \<noteq> [] \<and>
           field body_a ''password'' = JStr ''secret1'' \<and> 6 \<le> length ''secret1''"
    by (simp add: body_a_def field_def)
  have A: "field body_A ''email'' = JStr ''A@X.com'' \<and> ''A@X.com'' \<noteq> [] \<and>
           toLowerCase env0 ''A@X.com'' = toLowerCase env0 ''a@x.com'' \<and>
           field body_A ''password'' = JStr ''secret1'' \<and> ''secret1'' \<noteq> []"
    by (simp add: body_A_def field_def lower_a lower_A)
  have w: "field body_wrong ''email'' = JStr ''a@x.com'' \<and> ''a@x.com'' \<noteq> [] \<and>
           toLowerCase env0 ''a@x.com'' = toLowerCase env0 ''a@x.com'' \<and>
           field body_wrong ''password'' = JStr ''wrong'' \<and> ''wrong'' \<noteq> []"
    by (simp add: body_wrong_def field_def)
  have u: "field body_unknown ''email'' = JStr ''b@x.com'' \<and> ''b@x.com'' \<noteq> [] \<and>
           field body_unknown ''password'' = JStr ''secret1'' \<and> ''secret1'' \<noteq> [] \<and>
           \<not> has_nul (trim env0 (toLowerCase env0 ''b@x.com''))"
    by (simp add: body_unknown_def field_def has_nul_def env0_def ascii_lower_def
        ascii_trim_def ascii_space_def)
  have good: "bcrypt_compare env0 ''secret1'' (bcrypt_hash env0 ''secret1'' 10 ''salt'')"
    and bad: "\<not> bcrypt_compare env0 ''wrong'' (bcrypt_hash env0 ''secret1'' 10 ''salt'')"
    by (simp_all add: env0_def toy_hash_def toy_compare_def)
  have s1: "snd (register env0 ''salt'' body_a db0) = db_a"
    by (simp add: register_a)
  from login_contract [where e = env0 and body = body_a and em = "''a@x.com''"
      and p = "''secret1''" and s = db0 and salt = "''salt''" and body' = body_A
      and em' = "''A@X.com''" and p' = "''secret1''"] a A ok fresh good s1
  have first: "login env0 body_A db_a =
     Response 200
       (JObj [(''success'', JBool True), (''email'', JStr ''a@x.com''),
              (''message'', JStr ''Login successful!'')])"
    by (simp add: lower_a trim_a)
  from login_contract [where e = env0 and body = body_a and em = "''a@x.com''"
      and p = "''secret1''" and s = db0 and salt = "''salt''" and body' = body_wrong
      and em' = "''a@x.com''" and p' = "''wrong''"] a w ok fresh bad s1
  have second: "login env0 body_wrong db_a =
       Response 400 (JObj [(''success'', JBool False),
                           (''message'', JStr ''Invalid credentials.'')])"
    by simp
  have none: "filter (\<lambda>r. col ''email'' r = JStr (trim env0 (toLowerCase env0 ''b@x.com'')))
                (rows (users db_a)) = []"
    by (simp add: db_a_def col_def env0_def ascii_lower_def ascii_trim_def ascii_space_def)
  from login_contract [where e = env0 and body = body_unknown and em = "''b@x.com''"
      and p = "''secret1''" and s = db_a] u none
  have third: "login env0 body_unknown db_a =
       Response 400 (JObj [(''success'', JBool False),
                           (''message'', JStr ''Invalid credentials.'')])"
    by (simp add: Let_def)
  from first second third show ?thesis by blast
qed

text \<open>
  C5 as stated fails on a password that is not a string. With the number 1234567 as
  password, both fields are present; the registered a@x.com is answered 500 "Login
  failed." and the unknown b@x.com 400 "Invalid credentials.": a failure that is not
  the 400, and an answer that tells a registered email from an unknown one.
\<close>

theorem login_numeric_password:
  "login env0 body_numeric db_a =
     Response 500 (JObj [(''success'', JBool False), (''message'', JStr ''Login failed.'')])
   \<and> login env0 body_numeric_unknown db_a =
       Response 400 (JObj [(''success'', JBool False),
                           (''message'', JStr ''Invalid credentials.'')])
   \<and> field body_numeric ''password'' = JNum 1234567
   \<and> field body_numeric_unknown ''password'' = JNum 1234567
   \<and> map (col ''email'') (rows (users db_a)) = [JStr ''a@x.com'']"
proof -
  have sel: "exec_select env0 users_schema ''email''
               (JStr (trim env0 (toLowerCase env0 ''a@x.com''))) (users db_a) =
             Inr (rows (users db_a))"
    by (simp add: exec_select_text ctype_def users_schema_def lower_a trim_a has_nul_def
        db_a_def col_def)
  have sel': "exec_select env0 users_schema ''email''
               (JStr (trim env0 (toLowerCase env0 ''b@x.com''))) (users db_a) = Inr []"
    by (simp add: exec_select_text ctype_def users_schema_def has_nul_def db_a_def col_def
        env0_def ascii_lower_def ascii_trim_def ascii_space_def)
  have "login env0 body_numeric db_a =
     Response 500 (JObj [(''success'', JBool False), (''message'', JStr ''Login failed.'')])"
    using sel by (simp add: login_def Let_def body_numeric_def field_def auth_fail_def db_a_def)
  moreover have "login env0 body_numeric_unknown db_a =
       Response 400 (JObj [(''success'', JBool False),
                           (''message'', JStr ''Invalid credentials.'')])"
    using sel' by (simp add: login_def Let_def body_numeric_unknown_def field_def auth_fail_def)
  moreover have "field body_numeric ''password'' = JNum 1234567"
    "field body_numeric_unknown ''password'' = JNum 1234567"
    "map (col ''email'') (rows (users db_a)) = [JStr ''a@x.com'']"
    by (simp_all add: body_numeric_def body_numeric_unknown_def field_def db_a_def col_def)
  ultimately show ?thesis
    by simp
qed

subsection \<open>The JSON printer and reader of the small library\<close>


























subsection \<open>Profile\<close>

lemma profile_update_params_text:
  "list_all (\<lambda>cv. ctype profiles_schema (fst cv) = TText) (profile_update_params e m body)"
  by (simp add: profile_update_params_def ctype_def profiles_schema_def)

lemma profile_insert_params_text:
  "list_all (\<lambda>cv. ctype profiles_schema (fst cv) = TText) (profile_insert_params e c m body)"
  by (simp add: profile_insert_params_def ctype_def profiles_schema_def)

lemma insert_params_cover:
  "list_all (\<lambda>cv. sendable e (snd cv)) (profile_insert_params e c m body) \<Longrightarrow>
   list_all (\<lambda>cv. sendable e (snd cv)) (profile_update_params e m body)"
  by (simp add: profile_insert_params_def profile_update_params_def)

lemma profile_update_bind:
  "bind_all e profiles_schema (profile_update_params e m body) =
     (if list_all (\<lambda>cv. sendable e (snd cv)) (profile_update_params e m body)
      then Inr (bound_text e (profile_update_params e m body))
      else Inl (PgError ''22021''))
   \<or> (\<not> list_all (\<lambda>cv. sendable e (snd cv)) (profile_update_params e m body) \<and>
       (\<exists>x. bind_all e profiles_schema (profile_update_params e m body) = Inl x))"
proof (cases "list_all (\<lambda>cv. sendable e (snd cv)) (profile_update_params e m body)")
  case True
  then show ?thesis
    by (simp add: bind_all_text profile_update_params_text)
next
  case False
  then have "\<not> binds e profiles_schema (profile_update_params e m body)"
    by (simp add: binds_text profile_update_params_text)
  from bind_all_refused [OF this] False show ?thesis by simp
qed

lemma profile_insert_bind:
  "(list_all (\<lambda>cv. sendable e (snd cv)) (profile_insert_params e c m body) \<and>
    bind_all e profiles_schema (profile_insert_params e c m body) =
      Inr (bound_text e (profile_insert_params e c m body)))
   \<or> (\<not> list_all (\<lambda>cv. sendable e (snd cv)) (profile_insert_params e c m body) \<and>
       (\<exists>x. bind_all e profiles_schema (profile_insert_params e c m body) = Inl x))"
proof (cases "list_all (\<lambda>cv. sendable e (snd cv)) (profile_insert_params e c m body)")
  case True
  then show ?thesis
    by (simp add: bind_all_text profile_insert_params_text)
next
  case False
  then have "\<not> binds e profiles_schema (profile_insert_params e c m body)"
    by (simp add: binds_text profile_insert_params_text)
  from bind_all_refused [OF this] False show ?thesis by simp
qed

lemma new_profile_email:
  "text_param e (field body ''userEmail'') = JStr u \<Longrightarrow>
   col ''user_email''
     (new_row profiles_schema (bound_text e (profile_insert_params e c m body)) i) = JStr u"
  by (simp add: new_row_def col_def profiles_schema_def bound_text_def
      profile_insert_params_def)

lemma post_profile_run:
  assumes "truthy (field body ''userEmail'')" "text_param e (field body ''userEmail'') = JStr u"
  shows "post_profile e now now2 body s =
     (if has_nul u
      then (Response 500 (JObj [(''error'', JStr ''Error saving profile.'')]), s)
      else if profiles_of s u \<noteq> []
      then (if list_all (\<lambda>cv. sendable e (snd cv)) (profile_update_params e (JStr now) body)
            then (Response 200 (JObj [(''message'', JStr ''Profile updated successfully'')]),
                  s\<lparr>profiles := (profiles s)
                       \<lparr>rows := filter (\<lambda>r. col ''user_email'' r \<noteq> JStr u) (rows (profiles s)) @
                                map (set_cols (bound_text e (profile_update_params e (JStr now) body)))
                                  (profiles_of s u)\<rparr>\<rparr>)
            else (Response 500 (JObj [(''error'', JStr ''Error saving profile.'')]), s))
      else if \<not> list_all (\<lambda>cv. sendable e (snd cv))
                   (profile_insert_params e (JStr now2) (JStr now) body)
      then (Response 500 (JObj [(''error'', JStr ''Error saving profile.'')]), s)
      else if JStr u \<in> set (user_emails s)
      then (Response 200 (JObj [(''message'', JStr ''Profile created successfully''),
                                (''id'', JNum (next_id (profiles s)))]),
            s\<lparr>profiles :=
                 \<lparr>rows = rows (profiles s) @
                     [new_row profiles_schema
                        (bound_text e (profile_insert_params e (JStr now2) (JStr now) body))
                        (next_id (profiles s))],
                  next_id = next_id (profiles s) + 1\<rparr>\<rparr>)
      else (Response 500 (JObj [(''error'', JStr ''Error saving profile.'')]),
            s\<lparr>profiles := (profiles s)\<lparr>next_id := next_id (profiles s) + 1\<rparr>\<rparr>))"
proof (cases "has_nul u")
  case True
  with assms have "bind e (ctype profiles_schema ''user_email'') (field body ''userEmail'') =
      Inl (PgError ''22021'')"
    by (simp add: ctype_def profiles_schema_def bind_text sendable_def)
  with assms True show ?thesis
    by (simp add: post_profile_def Let_def exec_select_def err_def)
next
  case False
  note ok = this
  let ?hits = "filter (\<lambda>r. col ''user_email'' r = JStr u) (rows (profiles s))"
  have key: "bind e (ctype profiles_schema ''user_email'') (field body ''userEmail'') = Inr (JStr u)"
    using assms ok by (simp add: ctype_def profiles_schema_def bind_text sendable_def)
  then have sel: "exec_select e profiles_schema ''user_email'' (field body ''userEmail'') (profiles s) =
      Inr ?hits"
    by (simp add: exec_select_def sql_eq_str)
  show ?thesis
  proof (cases ?hits)
    case (Cons found rest)
    from profile_update_bind [of e "JStr now" body] show ?thesis
    proof (elim disjE conjE exE)
      assume b: "bind_all e profiles_schema (profile_update_params e (JStr now) body) =
        (if list_all (\<lambda>cv. sendable e (snd cv)) (profile_update_params e (JStr now) body)
         then Inr (bound_text e (profile_update_params e (JStr now) body))
         else Inl (PgError ''22021''))"
      with assms sel key ok Cons show ?thesis
        by (simp add: post_profile_def Let_def exec_update_def sql_eq_str profiles_of_def
            err_def)
    next
      fix x
      assume "\<not> list_all (\<lambda>cv. sendable e (snd cv)) (profile_update_params e (JStr now) body)"
        and "bind_all e profiles_schema (profile_update_params e (JStr now) body) = Inl x"
      with assms sel key ok Cons show ?thesis
        by (simp add: post_profile_def Let_def exec_update_def profiles_of_def err_def)
    qed
  next
    case Nil
    let ?vals = "bound_text e (profile_insert_params e (JStr now2) (JStr now) body)"
    let ?r = "new_row profiles_schema ?vals (next_id (profiles s))"
    have em: "col ''user_email'' ?r = JStr u"
      using assms(2) by (rule new_profile_email)
    have idf: "field ?r ''id'' = JNum (next_id (profiles s))"
      by (simp add: new_row_def field_def)
    from Nil have nodup: "\<not> list_ex (\<lambda>r'. sql_eq (col ''user_email'' r') (JStr u)) (rows (profiles s))"
      by (simp add: list_ex_iff sql_eq_str filter_empty_conv)
    have ins: "sql_insert profiles_schema [''user_email''] [(''user_email'', user_emails s)] ?vals (profiles s) =
        (if JStr u \<in> set (user_emails s)
         then (Inr ?r, \<lparr>rows = rows (profiles s) @ [?r], next_id = next_id (profiles s) + 1\<rparr>)
         else (Inl (PgError ''23503''), (profiles s)\<lparr>next_id := next_id (profiles s) + 1\<rparr>))"
      using nodup em
      by (simp add: sql_insert_def Let_def)
    from profile_insert_bind [of e "JStr now2" "JStr now" body] show ?thesis
    proof (elim disjE conjE exE)
      assume "list_all (\<lambda>cv. sendable e (snd cv)) (profile_insert_params e (JStr now2) (JStr now) body)"
        and "bind_all e profiles_schema (profile_insert_params e (JStr now2) (JStr now) body) =
               Inr ?vals"
      with assms sel ok Nil show ?thesis
        by (simp add: post_profile_def Let_def exec_insert_def ins idf profiles_of_def err_def)
    next
      fix x
      assume "\<not> list_all (\<lambda>cv. sendable e (snd cv))
                  (profile_insert_params e (JStr now2) (JStr now) body)"
        and "bind_all e profiles_schema (profile_insert_params e (JStr now2) (JStr now) body) =
               Inl x"
      with assms sel ok Nil show ?thesis
        by (simp add: post_profile_def Let_def exec_insert_def profiles_of_def err_def)
    qed
  qed
qed

lemma text_param_truthy: "truthy v \<Longrightarrow> \<exists>u. text_param e v = JStr u"
  by (cases v) (auto simp: text_param_def)

lemma post_profile_string:
  assumes "field body ''userEmail'' = JStr u" "u \<noteq> []"
  shows "truthy (field body ''userEmail'')" "text_param e (field body ''userEmail'') = JStr u"
  using assms by (simp_all add: text_param_def)

lemma update_keeps_email:
  "col ''user_email'' (set_cols (bound_text e (profile_update_params e m body)) r) =
   col ''user_email'' r"
  by (rule col_set_cols_other) (simp add: bound_text_def profile_update_params_def)

lemma update_keeps_id:
  "col ''id'' (set_cols (bound_text e (profile_update_params e m body)) r) = col ''id'' r"
  by (rule col_set_cols_other) (simp add: bound_text_def profile_update_params_def)

lemma filter_moved:
  "filter (\<lambda>r. col ''user_email'' r = v)
     (filter (\<lambda>r. col ''user_email'' r \<noteq> JStr u) rs @
      map (set_cols (bound_text e (profile_update_params e m body)))
        (filter (\<lambda>r. col ''user_email'' r = JStr u) rs)) =
   (if v = JStr u
    then map (set_cols (bound_text e (profile_update_params e m body)))
           (filter (\<lambda>r. col ''user_email'' r = JStr u) rs)
    else filter (\<lambda>r. col ''user_email'' r = v) rs)"
  by (induction rs) (auto simp: update_keeps_email)

lemma profile_update:
  assumes "field body ''userEmail'' = JStr u" "u \<noteq> []" "\<not> has_nul u" "profiles_of s u \<noteq> []"
    and "list_all (\<lambda>cv. sendable e (snd cv)) (profile_update_params e (JStr now) body)"
  shows "post_profile e now now2 body s =
     (Response 200 (JObj [(''message'', JStr ''Profile updated successfully'')]),
      s\<lparr>profiles := (profiles s)
           \<lparr>rows := filter (\<lambda>r. col ''user_email'' r \<noteq> JStr u) (rows (profiles s)) @
                    map (set_cols (bound_text e (profile_update_params e (JStr now) body)))
                      (profiles_of s u)\<rparr>\<rparr>)"
  using post_profile_run [OF post_profile_string [OF assms(1,2)], where now = now
      and ?now2.0 = now2 and s = s and e = e] assms(3,4,5)
  by simp

lemma profile_insert:
  assumes "field body ''userEmail'' = JStr u" "u \<noteq> []" "\<not> has_nul u" "profiles_of s u = []"
    and "list_all (\<lambda>cv. sendable e (snd cv))
           (profile_insert_params e (JStr now2) (JStr now) body)"
    and "JStr u \<in> set (user_emails s)"
  shows "post_profile e now now2 body s =
     (Response 200 (JObj [(''message'', JStr ''Profile created successfully''),
                          (''id'', JNum (next_id (profiles s)))]),
      s\<lparr>profiles :=
           \<lparr>rows = rows (profiles s) @
               [new_row profiles_schema
                  (bound_text e (profile_insert_params e (JStr now2) (JStr now) body))
                  (next_id (profiles s))],
            next_id = next_id (profiles s) + 1\<rparr>\<rparr>)"
  using post_profile_run [OF post_profile_string [OF assms(1,2)], where now = now
      and ?now2.0 = now2 and s = s and e = e] assms(3,4,5,6)
  by simp

lemma profile_invariant:
  assumes "\<forall>v. length (profiles_of s v) \<le> 1"
  shows "length (profiles_of (snd (post_profile e now now2 body s)) v) \<le> 1"
proof (cases "truthy (field body ''userEmail'')")
  case False
  with assms show ?thesis by (simp add: post_profile_def Let_def)
next
  case True
  then obtain u where u: "text_param e (field body ''userEmail'') = JStr u"
    using text_param_truthy by blast
  note run = post_profile_run [OF True u, where now = now and ?now2.0 = now2 and s = s]
  from assms have v: "length (profiles_of s v) \<le> 1" by simp
  from assms have uu: "length (profiles_of s u) \<le> 1" by simp
  have upd: "length (profiles_of
               (s\<lparr>profiles := (profiles s)
                    \<lparr>rows := filter (\<lambda>r. col ''user_email'' r \<noteq> JStr u) (rows (profiles s)) @
                             map (set_cols (bound_text e (profile_update_params e (JStr now) body)))
                               (profiles_of s u)\<rparr>\<rparr>) v) \<le> 1"
    using v uu
    by (simp add: profiles_of_def filter_moved del: filter_append filter_filter filter_map)
  have ins: "profiles_of s u = [] \<Longrightarrow>
        length (profiles_of
               (s\<lparr>profiles :=
                 \<lparr>rows = rows (profiles s) @
                     [new_row profiles_schema
                        (bound_text e (profile_insert_params e (JStr now2) (JStr now) body))
                        (next_id (profiles s))],
                  next_id = next_id (profiles s) + 1\<rparr>\<rparr>) v) \<le> 1"
    using v new_profile_email [OF u, of "JStr now2" "JStr now" "next_id (profiles s)"]
    by (auto simp: profiles_of_def)
  have seq: "length (profiles_of
               (s\<lparr>profiles := (profiles s)\<lparr>next_id := next_id (profiles s) + 1\<rparr>\<rparr>) v) \<le> 1"
    using v by (simp add: profiles_of_def)
  from run v upd ins seq show ?thesis
    by (simp split: if_splits)
qed

lemma update_sets_modified:
  "map_of r ''modified_date'' \<noteq> None \<Longrightarrow>
   col ''modified_date'' (set_cols (bound_text e (profile_update_params e m body)) r) =
     text_param e m"
  by (auto simp: col_set_cols bound_text_def profile_update_params_def split: option.splits)

lemma table_ok_modified:
  "table_ok profiles_schema t \<Longrightarrow> r \<in> set (rows t) \<Longrightarrow> map_of r ''modified_date'' \<noteq> None"
proof -
  assume "table_ok profiles_schema t" "r \<in> set (rows t)"
  then have "map fst r = ''id'' # map fst profiles_schema"
    by (simp add: table_ok_def list_all_iff)
  then have "''modified_date'' \<in> set (map fst r)"
    by (simp add: profiles_schema_def)
  then show ?thesis
    by (simp add: map_of_eq_None_iff)
qed

lemma profile_update_effect:
  assumes "field body ''userEmail'' = JStr u" "u \<noteq> []" "\<not> has_nul u" "profiles_of s u \<noteq> []"
    and "list_all (\<lambda>cv. sendable e (snd cv)) (profile_update_params e (JStr now) body)"
  shows "profiles_of (snd (post_profile e now now2 body s)) u =
           map (set_cols (bound_text e (profile_update_params e (JStr now) body)))
             (profiles_of s u)"
    and "map (col ''id'') (profiles_of (snd (post_profile e now now2 body s)) u) =
           map (col ''id'') (profiles_of s u)"
    and "table_ok profiles_schema (profiles s) \<Longrightarrow>
           list_all (\<lambda>r. col ''modified_date'' r = JStr now)
             (profiles_of (snd (post_profile e now now2 body s)) u)"
    and "length (rows (profiles (snd (post_profile e now now2 body s)))) =
           length (rows (profiles s))"
proof -
  let ?g = "set_cols (bound_text e (profile_update_params e (JStr now) body))"
  show a: "profiles_of (snd (post_profile e now now2 body s)) u = map ?g (profiles_of s u)"
    by (simp add: profile_update [OF assms] profiles_of_def filter_moved
        del: filter_append filter_filter filter_map)
  show "map (col ''id'') (profiles_of (snd (post_profile e now now2 body s)) u) =
           map (col ''id'') (profiles_of s u)"
    by (simp add: a update_keeps_id)
  have "length (filter (\<lambda>r. col ''user_email'' r \<noteq> JStr u) rs) +
        length (filter (\<lambda>r. col ''user_email'' r = JStr u) rs) = length rs" for rs :: "row list"
    by (induction rs) auto
  then show "length (rows (profiles (snd (post_profile e now now2 body s)))) =
           length (rows (profiles s))"
    by (simp add: profile_update [OF assms] profiles_of_def)
  assume ok: "table_ok profiles_schema (profiles s)"
  have "col ''modified_date'' (?g r) = JStr now" if "r \<in> set (profiles_of s u)" for r
  proof -
    from that have "r \<in> set (rows (profiles s))" by (simp add: profiles_of_def)
    with ok have "map_of r ''modified_date'' \<noteq> None" by (rule table_ok_modified)
    then show ?thesis by (simp add: update_sets_modified text_param_def)
  qed
  then show "list_all (\<lambda>r. col ''modified_date'' r = JStr now)
             (profiles_of (snd (post_profile e now now2 body s)) u)"
    by (simp add: a list_all_iff)
qed

lemma upsert_invariant:
  "(\<forall>v. length (profiles_of s v) \<le> 1) \<longrightarrow>
   (\<forall>v. length (profiles_of (snd (post_profile e now now2 body s)) v) \<le> 1)"
  using profile_invariant by blast

lemma upsert_missing:
  "\<not> truthy (field body ''userEmail'') \<longrightarrow>
   post_profile e now now2 body s =
     (Response 400 (JObj [(''error'', JStr ''User email is required.'')]), s)"
  by (simp add: post_profile_def Let_def err_def)

lemma upsert_update:
  "field body ''userEmail'' = JStr u \<and> u \<noteq> [] \<and> \<not> has_nul u \<and> profiles_of s u \<noteq> [] \<and>
   list_all (\<lambda>cv. sendable e (snd cv)) (profile_update_params e (JStr now) body) \<longrightarrow>
     fst (post_profile e now now2 body s) =
       Response 200 (JObj [(''message'', JStr ''Profile updated successfully'')])
     \<and> rows (profiles (snd (post_profile e now now2 body s))) =
         filter (\<lambda>r. col ''user_email'' r \<noteq> JStr u) (rows (profiles s)) @
         map (set_cols (bound_text e (profile_update_params e (JStr now) body)))
           (profiles_of s u)
     \<and> length (rows (profiles (snd (post_profile e now now2 body s)))) =
         length (rows (profiles s))
     \<and> profiles_of (snd (post_profile e now now2 body s)) u =
         map (set_cols (bound_text e (profile_update_params e (JStr now) body)))
           (profiles_of s u)
     \<and> map (col ''id'') (profiles_of (snd (post_profile e now now2 body s)) u) =
         map (col ''id'') (profiles_of s u)
     \<and> (table_ok profiles_schema (profiles s) \<longrightarrow>
          list_all (\<lambda>r. col ''modified_date'' r = JStr now)
            (profiles_of (snd (post_profile e now now2 body s)) u))"
proof (intro impI conjI)
  assume a: "field body ''userEmail'' = JStr u \<and> u \<noteq> [] \<and> \<not> has_nul u \<and>
    profiles_of s u \<noteq> [] \<and>
    list_all (\<lambda>cv. sendable e (snd cv)) (profile_update_params e (JStr now) body)"
  then have b: "field body ''userEmail'' = JStr u" "u \<noteq> []" "\<not> has_nul u"
    "profiles_of s u \<noteq> []"
    "list_all (\<lambda>cv. sendable e (snd cv)) (profile_update_params e (JStr now) body)"
    by simp_all
  show "fst (post_profile e now now2 body s) =
          Response 200 (JObj [(''message'', JStr ''Profile updated successfully'')])"
    by (simp add: profile_update [OF b])
  show "rows (profiles (snd (post_profile e now now2 body s))) =
         filter (\<lambda>r. col ''user_email'' r \<noteq> JStr u) (rows (profiles s)) @
         map (set_cols (bound_text e (profile_update_params e (JStr now) body)))
           (profiles_of s u)"
    by (simp add: profile_update [OF b])
  show "length (rows (profiles (snd (post_profile e now now2 body s)))) =
            length (rows (profiles s))"
    by (rule profile_update_effect(4) [OF b])
  show "profiles_of (snd (post_profile e now now2 body s)) u =
            map (set_cols (bound_text e (profile_update_params e (JStr now) body)))
              (profiles_of s u)"
    by (rule profile_update_effect(1) [OF b])
  show "map (col ''id'') (profiles_of (snd (post_profile e now now2 body s)) u) =
            map (col ''id'') (profiles_of s u)"
    by (rule profile_update_effect(2) [OF b])
  assume "table_ok profiles_schema (profiles s)"
  then show "list_all (\<lambda>r. col ''modified_date'' r = JStr now)
               (profiles_of (snd (post_profile e now now2 body s)) u)"
    by (rule profile_update_effect(3) [OF b])
qed

lemma upsert_update_refused:
  "field body ''userEmail'' = JStr u \<and> u \<noteq> [] \<and> profiles_of s u \<noteq> [] \<and>
   \<not> list_all (\<lambda>cv. sendable e (snd cv)) (profile_update_params e (JStr now) body) \<longrightarrow>
     post_profile e now now2 body s =
       (Response 500 (JObj [(''error'', JStr ''Error saving profile.'')]), s)"
proof
  assume a: "field body ''userEmail'' = JStr u \<and> u \<noteq> [] \<and> profiles_of s u \<noteq> [] \<and>
   \<not> list_all (\<lambda>cv. sendable e (snd cv)) (profile_update_params e (JStr now) body)"
  then have b: "field body ''userEmail'' = JStr u" "u \<noteq> []" by simp_all
  from a post_profile_run [OF post_profile_string [OF b], where now = now
      and ?now2.0 = now2 and s = s and e = e]
  show "post_profile e now now2 body s =
       (Response 500 (JObj [(''error'', JStr ''Error saving profile.'')]), s)"
    by simp
qed

lemma upsert_refused_email:
  "field body ''userEmail'' = JStr u \<and> has_nul u \<longrightarrow>
     post_profile e now now2 body s =
       (Response 500 (JObj [(''error'', JStr ''Error saving profile.'')]), s)"
proof
  assume a: "field body ''userEmail'' = JStr u \<and> has_nul u"
  then have b: "field body ''userEmail'' = JStr u" "u \<noteq> []" by (auto simp: has_nul_def)
  from a post_profile_run [OF post_profile_string [OF b], where now = now
      and ?now2.0 = now2 and s = s and e = e]
  show "post_profile e now now2 body s =
       (Response 500 (JObj [(''error'', JStr ''Error saving profile.'')]), s)"
    by simp
qed

lemma upsert_insert:
  "field body ''userEmail'' = JStr u \<and> u \<noteq> [] \<and> \<not> has_nul u \<and> profiles_of s u = [] \<and>
   list_all (\<lambda>cv. sendable e (snd cv))
     (profile_insert_params e (JStr now2) (JStr now) body) \<and>
   JStr u \<in> set (user_emails s) \<longrightarrow>
     fst (post_profile e now now2 body s) =
       Response 200 (JObj [(''message'', JStr ''Profile created successfully''),
                           (''id'', JNum (next_id (profiles s)))])
     \<and> rows (profiles (snd (post_profile e now now2 body s))) =
         rows (profiles s) @
           [new_row profiles_schema
              (bound_text e (profile_insert_params e (JStr now2) (JStr now) body))
              (next_id (profiles s))]
     \<and> length (profiles_of (snd (post_profile e now now2 body s)) u) = 1"
proof (intro impI conjI)
  assume a: "field body ''userEmail'' = JStr u \<and> u \<noteq> [] \<and> \<not> has_nul u \<and>
   profiles_of s u = [] \<and>
   list_all (\<lambda>cv. sendable e (snd cv))
     (profile_insert_params e (JStr now2) (JStr now) body) \<and>
   JStr u \<in> set (user_emails s)"
  then have b: "field body ''userEmail'' = JStr u" "u \<noteq> []" "\<not> has_nul u"
    "profiles_of s u = []"
    "list_all (\<lambda>cv. sendable e (snd cv))
       (profile_insert_params e (JStr now2) (JStr now) body)"
    "JStr u \<in> set (user_emails s)"
    by simp_all
  note ins = profile_insert [OF b]
  show "fst (post_profile e now now2 body s) =
          Response 200 (JObj [(''message'', JStr ''Profile created successfully''),
                              (''id'', JNum (next_id (profiles s)))])"
    by (simp add: ins)
  show "rows (profiles (snd (post_profile e now now2 body s))) =
            rows (profiles s) @
              [new_row profiles_schema
                 (bound_text e (profile_insert_params e (JStr now2) (JStr now) body))
                 (next_id (profiles s))]"
    by (simp add: ins)
  from b(4) show "length (profiles_of (snd (post_profile e now now2 body s)) u) = 1"
    by (simp add: ins profiles_of_def
        new_profile_email [OF post_profile_string(2) [OF b(1,2)]])
qed

lemma upsert_insert_unregistered:
  "field body ''userEmail'' = JStr u \<and> u \<noteq> [] \<and> \<not> has_nul u \<and> profiles_of s u = [] \<and>
   list_all (\<lambda>cv. sendable e (snd cv))
     (profile_insert_params e (JStr now2) (JStr now) body) \<and>
   JStr u \<notin> set (user_emails s) \<longrightarrow>
     post_profile e now now2 body s =
       (Response 500 (JObj [(''error'', JStr ''Error saving profile.'')]),
        s\<lparr>profiles := (profiles s)\<lparr>next_id := next_id (profiles s) + 1\<rparr>\<rparr>)"
proof
  assume a: "field body ''userEmail'' = JStr u \<and> u \<noteq> [] \<and> \<not> has_nul u \<and>
   profiles_of s u = [] \<and>
   list_all (\<lambda>cv. sendable e (snd cv))
     (profile_insert_params e (JStr now2) (JStr now) body) \<and>
   JStr u \<notin> set (user_emails s)"
  then have b: "field body ''userEmail'' = JStr u" "u \<noteq> []" by simp_all
  from a post_profile_run [OF post_profile_string [OF b], where now = now
      and ?now2.0 = now2 and s = s and e = e]
  show "post_profile e now now2 body s =
       (Response 500 (JObj [(''error'', JStr ''Error saving profile.'')]),
        s\<lparr>profiles := (profiles s)\<lparr>next_id := next_id (profiles s) + 1\<rparr>\<rparr>)"
    by simp
qed

lemma upsert_insert_refused:
  "field body ''userEmail'' = JStr u \<and> u \<noteq> [] \<and> profiles_of s u = [] \<and>
   \<not> list_all (\<lambda>cv. sendable e (snd cv))
       (profile_insert_params e (JStr now2) (JStr now) body) \<longrightarrow>
     post_profile e now now2 body s =
       (Response 500 (JObj [(''error'', JStr ''Error saving profile.'')]), s)"
proof
  assume a: "field body ''userEmail'' = JStr u \<and> u \<noteq> [] \<and> profiles_of s u = [] \<and>
   \<not> list_all (\<lambda>cv. sendable e (snd cv))
       (profile_insert_params e (JStr now2) (JStr now) body)"
  then have b: "field body ''userEmail'' = JStr u" "u \<noteq> []" by simp_all
  from a post_profile_run [OF post_profile_string [OF b], where now = now
      and ?now2.0 = now2 and s = s and e = e]
  show "post_profile e now now2 body s =
       (Response 500 (JObj [(''error'', JStr ''Error saving profile.'')]), s)"
    by simp
qed

lemma upsert_twice:
  "field body ''userEmail'' = JStr u \<and> u \<noteq> [] \<and> \<not> has_nul u \<and>
   field body' ''userEmail'' = JStr u \<and>
   length (profiles_of s u) \<le> 1 \<and> JStr u \<in> set (user_emails s) \<and>
   list_all (\<lambda>cv. sendable e (snd cv))
     (profile_insert_params e (JStr now2) (JStr now) body) \<and>
   list_all (\<lambda>cv. sendable e (snd cv)) (profile_update_params e (JStr later) body') \<longrightarrow>
     length (profiles_of (snd (post_profile e now now2 body s)) u) = 1
     \<and> fst (post_profile e later later2 body' (snd (post_profile e now now2 body s))) =
         Response 200 (JObj [(''message'', JStr ''Profile updated successfully'')])
     \<and> length (profiles_of
           (snd (post_profile e later later2 body'
                   (snd (post_profile e now now2 body s)))) u) = 1
     \<and> map (col ''id'')
         (profiles_of
            (snd (post_profile e later later2 body'
                    (snd (post_profile e now now2 body s)))) u) =
        map (col ''id'') (profiles_of (snd (post_profile e now now2 body s)) u)"
proof (intro impI conjI)
  assume a: "field body ''userEmail'' = JStr u \<and> u \<noteq> [] \<and> \<not> has_nul u \<and>
   field body' ''userEmail'' = JStr u \<and>
   length (profiles_of s u) \<le> 1 \<and> JStr u \<in> set (user_emails s) \<and>
   list_all (\<lambda>cv. sendable e (snd cv))
     (profile_insert_params e (JStr now2) (JStr now) body) \<and>
   list_all (\<lambda>cv. sendable e (snd cv)) (profile_update_params e (JStr later) body')"
  let ?s1 = "snd (post_profile e now now2 body s)"
  let ?s2 = "snd (post_profile e later later2 body' ?s1)"
  from a have b: "field body ''userEmail'' = JStr u" "u \<noteq> []" "\<not> has_nul u"
    and b': "field body' ''userEmail'' = JStr u"
    and le: "length (profiles_of s u) \<le> 1" and reg: "JStr u \<in> set (user_emails s)"
    and ips: "list_all (\<lambda>cv. sendable e (snd cv))
                (profile_insert_params e (JStr now2) (JStr now) body)"
    and ups': "list_all (\<lambda>cv. sendable e (snd cv)) (profile_update_params e (JStr later) body')"
    by simp_all
  from ips have ups: "list_all (\<lambda>cv. sendable e (snd cv)) (profile_update_params e (JStr now) body)"
    by (rule insert_params_cover)
  have one: "length (profiles_of ?s1 u) = 1"
  proof (cases "profiles_of s u = []")
    case True
    with b reg show ?thesis
      by (simp add: profile_insert [OF b True ips reg] profiles_of_def
          new_profile_email [OF post_profile_string(2) [OF b(1,2)]])
  next
    case False
    with le have "length (profiles_of s u) = 1"
      by (cases "profiles_of s u") auto
    with False show ?thesis
      by (simp add: profile_update_effect(1) [OF b False ups])
  qed
  then show "length (profiles_of ?s1 u) = 1" .
  from one have ne: "profiles_of ?s1 u \<noteq> []" by auto
  show "fst (post_profile e later later2 body' ?s1) =
            Response 200 (JObj [(''message'', JStr ''Profile updated successfully'')])"
    by (simp add: profile_update [OF b' b(2,3) ne ups'])
  from one show "length (profiles_of ?s2 u) = 1"
    by (simp add: profile_update_effect(1) [OF b' b(2,3) ne ups'])
  show "map (col ''id'') (profiles_of ?s2 u) = map (col ''id'') (profiles_of ?s1 u)"
    by (rule profile_update_effect(2) [OF b' b(2,3) ne ups'])
qed

lemma profile_params_sendable:
  "list_all (\<lambda>cv. sendable env0 (snd cv))
     (profile_insert_params env0 (JStr ''t2'') (JStr ''t1'') body_profile)"
  "list_all (\<lambda>cv. sendable env0 (snd cv))
     (profile_update_params env0 (JStr ''t3'') body_profile_again)"
  "list_all (\<lambda>cv. sendable env0 (snd cv))
     (profile_insert_params env0 (JStr ''t4'') (JStr ''t3'') body_profile_again)"
  by code_simp+

text \<open>
  C3, as the code has it. \<open>POST /profile\<close> is an upsert keyed on \<open>user_email\<close>. It
  keeps "at most one profile row per user_email", whatever the request. A request with
  no \<open>userEmail\<close> is answered 400. For a request that names a user (\<open>userEmail\<close> a
  non-empty string without U+0000) and whose values the server accepts as text: when a
  row of that user exists, the rows of that user are overwritten (same ids,
  \<open>modified_date\<close> set to the time of the call; the new versions stand behind the other
  rows) and no row is added; when none exists and the user is registered, exactly one
  row is appended; when none exists and the user is not registered, the INSERT breaks
  \<open>profiles.user_email REFERENCES users(email)\<close>: the answer is 500 "Error saving
  profile." and no row is written. A request with a value that holds U+0000 is answered
  500 and changes nothing. Two accepted writes in sequence for the same registered user
  leave one row: the second answers "Profile updated successfully" and the row keeps the
  id it had after the first.
\<close>

theorem profile_upsert_singleton:
  "((\<forall>v. length (profiles_of s v) \<le> 1) \<longrightarrow>
      (\<forall>v. length (profiles_of (snd (post_profile e now now2 body s)) v) \<le> 1))
   \<and> (\<not> truthy (field body ''userEmail'') \<longrightarrow>
        post_profile e now now2 body s =
          (Response 400 (JObj [(''error'', JStr ''User email is required.'')]), s))
   \<and> (field body ''userEmail'' = JStr u \<and> u \<noteq> [] \<and> \<not> has_nul u \<and> profiles_of s u \<noteq> [] \<and>
      list_all (\<lambda>cv. sendable e (snd cv)) (profile_update_params e (JStr now) body) \<longrightarrow>
        fst (post_profile e now now2 body s) =
          Response 200 (JObj [(''message'', JStr ''Profile updated successfully'')])
        \<and> rows (profiles (snd (post_profile e now now2 body s))) =
            filter (\<lambda>r. col ''user_email'' r \<noteq> JStr u) (rows (profiles s)) @
            map (set_cols (bound_text e (profile_update_params e (JStr now) body)))
              (profiles_of s u)
        \<and> length (rows (profiles (snd (post_profile e now now2 body s)))) =
            length (rows (profiles s))
        \<and> profiles_of (snd (post_profile e now now2 body s)) u =
            map (set_cols (bound_text e (profile_update_params e (JStr now) body)))
              (profiles_of s u)
        \<and> map (col ''id'') (profiles_of (snd (post_profile e now now2 body s)) u) =
            map (col ''id'') (profiles_of s u)
        \<and> (table_ok profiles_schema (profiles s) \<longrightarrow>
             list_all (\<lambda>r. col ''modified_date'' r = JStr now)
               (profiles_of (snd (post_profile e now now2 body s)) u)))
   \<and> (field body ''userEmail'' = JStr u \<and> u \<noteq> [] \<and> profiles_of s u \<noteq> [] \<and>
      \<not> list_all (\<lambda>cv. sendable e (snd cv)) (profile_update_params e (JStr now) body) \<longrightarrow>
        post_profile e now now2 body s =
          (Response 500 (JObj [(''error'', JStr ''Error saving profile.'')]), s))
   \<and> (field body ''userEmail'' = JStr u \<and> has_nul u \<longrightarrow>
        post_profile e now now2 body s =
          (Response 500 (JObj [(''error'', JStr ''Error saving profile.'')]), s))
   \<and> (field body ''userEmail'' = JStr u \<and> u \<noteq> [] \<and> \<not> has_nul u \<and> profiles_of s u = [] \<and>
      list_all (\<lambda>cv. sendable e (snd cv))
        (profile_insert_params e (JStr now2) (JStr now) body) \<and>
      JStr u \<in> set (user_emails s) \<longrightarrow>
        fst (post_profile e now now2 body s) =
          Response 200 (JObj [(''message'', JStr ''Profile created successfully''),
                              (''id'', JNum (next_id (profiles s)))])
        \<and> rows (profiles (snd (post_profile e now now2 body s))) =
            rows (profiles s) @
              [new_row profiles_schema
                 (bound_text e (profile_insert_params e (JStr now2) (JStr now) body))
                 (next_id (profiles s))]
        \<and> length (profiles_of (snd (post_profile e now now2 body s)) u) = 1)
   \<and> (field body ''userEmail'' = JStr u \<and> u \<noteq> [] \<and> \<not> has_nul u \<and> profiles_of s u = [] \<and>
      list_all (\<lambda>cv. sendable e (snd cv))
        (profile_insert_params e (JStr now2) (JStr now) body) \<and>
      JStr u \<notin> set (user_emails s) \<longrightarrow>
        post_profile e now now2 body s =
          (Response 500 (JObj [(''error'', JStr ''Error saving profile.'')]),
           s\<lparr>profiles := (profiles s)\<lparr>next_id := next_id (profiles s) + 1\<rparr>\<rparr>))
   \<and> (field body ''userEmail'' = JStr u \<and> u \<noteq> [] \<and> profiles_of s u = [] \<and>
      \<not> list_all (\<lambda>cv. sendable e (snd cv))
          (profile_insert_params e (JStr now2) (JStr now) body) \<longrightarrow>
        post_profile e now now2 body s =
          (Response 500 (JObj [(''error'', JStr ''Error saving profile.'')]), s))
   \<and> (field body ''userEmail'' = JStr u \<and> u \<noteq> [] \<and> \<not> has_nul u \<and>
      field body' ''userEmail'' = JStr u \<and>
      length (profiles_of s u) \<le> 1 \<and> JStr u \<in> set (user_emails s) \<and>
      list_all (\<lambda>cv. sendable e (snd cv))
        (profile_insert_params e (JStr now2) (JStr now) body) \<and>
      list_all (\<lambda>cv. sendable e (snd cv)) (profile_update_params e (JStr later) body') \<longrightarrow>
        length (profiles_of (snd (post_profile e now now2 body s)) u) = 1
        \<and> fst (post_profile e later later2 body' (snd (post_profile e now now2 body s))) =
            Response 200 (JObj [(''message'', JStr ''Profile updated successfully'')])
        \<and> length (profiles_of
              (snd (post_profile e later later2 body'
                      (snd (post_profile e now now2 body s)))) u) = 1
        \<and> map (col ''id'')
            (profiles_of
               (snd (post_profile e later later2 body'
                       (snd (post_profile e now now2 body s)))) u) =
           map (col ''id'') (profiles_of (snd (post_profile e now now2 body s)) u))"
  by (intro conjI upsert_invariant upsert_missing upsert_update upsert_update_refused
      upsert_refused_email upsert_insert upsert_insert_unregistered upsert_insert_refused
      upsert_twice)

text \<open>
  a@x.com is registered and has no profile: the first write creates the row, the second
  updates it, and one row is left.
\<close>

theorem profile_upsert_singleton_witness:
  "length (profiles_of (snd (post_profile env0 ''t1'' ''t2'' body_profile db_a)) ''a@x.com'') = 1
   \<and> fst (post_profile env0 ''t3'' ''t4'' body_profile_again
            (snd (post_profile env0 ''t1'' ''t2'' body_profile db_a))) =
       Response 200 (JObj [(''message'', JStr ''Profile updated successfully'')])
   \<and> length (profiles_of
        (snd (post_profile env0 ''t3'' ''t4'' body_profile_again
                (snd (post_profile env0 ''t1'' ''t2'' body_profile db_a)))) ''a@x.com'') = 1"
proof -
  have h: "field body_profile ''userEmail'' = JStr ''a@x.com'' \<and> ''a@x.com'' \<noteq> [] \<and>
           \<not> has_nul ''a@x.com'' \<and>
           field body_profile_again ''userEmail'' = JStr ''a@x.com'' \<and>
           length (profiles_of db_a ''a@x.com'') \<le> 1 \<and>
           JStr ''a@x.com'' \<in> set (user_emails db_a)"
    by (simp add: body_profile_def body_profile_again_def field_def profiles_of_def db_a_def
        db0_def empty_table_def user_emails_def col_def has_nul_def)
  note t = profile_upsert_singleton [where e = env0 and body = body_profile
      and u = "''a@x.com''" and s = db_a and body' = body_profile_again and now = "''t1''"
      and ?now2.0 = "''t2''" and later = "''t3''" and ?later2.0 = "''t4''"]
  note twice = t [THEN conjunct2, THEN conjunct2, THEN conjunct2, THEN conjunct2,
      THEN conjunct2, THEN conjunct2, THEN conjunct2, THEN conjunct2]
  from twice h profile_params_sendable(1,2) show ?thesis
    by simp
qed

text \<open>
  C3 as stated fails for a user who is not registered: on the empty database a@x.com
  has no profile row, yet the write inserts none and is answered 500; the second write
  finds no row to update and is answered 500 as well.
\<close>

theorem profile_write_unregistered:
  "user_emails db0 = [] \<and> profiles_of db0 ''a@x.com'' = []
   \<and> fst (post_profile env0 ''t1'' ''t2'' body_profile db0) =
       Response 500 (JObj [(''error'', JStr ''Error saving profile.'')])
   \<and> rows (profiles (snd (post_profile env0 ''t1'' ''t2'' body_profile db0))) = []
   \<and> fst (post_profile env0 ''t3'' ''t4'' body_profile_again
            (snd (post_profile env0 ''t1'' ''t2'' body_profile db0))) =
       Response 500 (JObj [(''error'', JStr ''Error saving profile.'')])
   \<and> rows (profiles (snd (post_profile env0 ''t3'' ''t4'' body_profile_again
                             (snd (post_profile env0 ''t1'' ''t2'' body_profile db0))))) = []"
proof -
  let ?s1 = "db0\<lparr>profiles := (profiles db0)\<lparr>next_id := next_id (profiles db0) + 1\<rparr>\<rparr>"
  have e: "user_emails db0 = []" "profiles_of db0 ''a@x.com'' = []"
    "user_emails ?s1 = []" "profiles_of ?s1 ''a@x.com'' = []"
    by (simp_all add: user_emails_def profiles_of_def db0_def empty_table_def)
  have f: "field body_profile ''userEmail'' = JStr ''a@x.com''"
    "field body_profile_again ''userEmail'' = JStr ''a@x.com''" "''a@x.com'' \<noteq> []"
    "\<not> has_nul ''a@x.com''"
    by (simp_all add: body_profile_def body_profile_again_def field_def has_nul_def)
  have first: "post_profile env0 ''t1'' ''t2'' body_profile db0 =
      (Response 500 (JObj [(''error'', JStr ''Error saving profile.'')]), ?s1)"
    using post_profile_run [OF post_profile_string [OF f(1,3)], where e = env0
        and now = "''t1''" and ?now2.0 = "''t2''" and s = db0] e f(4)
      profile_params_sendable(1)
    by simp
  have second: "post_profile env0 ''t3'' ''t4'' body_profile_again ?s1 =
      (Response 500 (JObj [(''error'', JStr ''Error saving profile.'')]),
       ?s1\<lparr>profiles := (profiles ?s1)\<lparr>next_id := next_id (profiles ?s1) + 1\<rparr>\<rparr>)"
    using post_profile_run [OF post_profile_string [OF f(2,3)], where e = env0
        and now = "''t3''" and ?now2.0 = "''t4''" and s = ?s1] e f(4)
      profile_params_sendable(3)
    by simp
  from first have r1: "rows (profiles (snd (post_profile env0 ''t1'' ''t2'' body_profile db0))) = []"
    by (simp add: db0_def empty_table_def)
  from first second
  have r2: "rows (profiles (snd (post_profile env0 ''t3'' ''t4'' body_profile_again
                             (snd (post_profile env0 ''t1'' ''t2'' body_profile db0))))) = []"
    by (simp add: db0_def empty_table_def)
  from first second e(1,2) r1 r2 show ?thesis
    by simp
qed

















subsection \<open>The create handlers\<close>

lemma post_ideas_accepted:
  assumes "fst (post_ideas e now body s) = Response 200 (JObj r)"
  shows "\<exists>t'. exec_insert e ideas_schema [] [(''user_email'', user_emails s)]
                 (post_ideas_params (js_or (field body ''created_date'') (JStr now)) body)
                 (ideas s) = (Inr r, t') \<and>
              snd (post_ideas e now body s) = s\<lparr>ideas := t'\<rparr>"
  using assms
  by (auto simp: post_ideas_def Let_def err_def split: prod.splits sum.splits)

lemma post_ideas_stored_imp:
  "fst (post_ideas e now body s) = Response 200 (JObj r) \<longrightarrow>
      rows (ideas (snd (post_ideas e now body s))) = rows (ideas s) @ [r] \<and>
      col ''created_date'' r = text_param e (js_or (field body ''created_date'') (JStr now))"
proof
  assume "fst (post_ideas e now body s) = Response 200 (JObj r)"
  from post_ideas_accepted [OF this] obtain t' where
    ins: "exec_insert e ideas_schema [] [(''user_email'', user_emails s)]
            (post_ideas_params (js_or (field body ''created_date'') (JStr now)) body)
            (ideas s) = (Inr r, t')"
    and s': "snd (post_ideas e now body s) = s\<lparr>ideas := t'\<rparr>"
    by blast
  from exec_insert_accepted [OF ins] s'
  have "rows (ideas (snd (post_ideas e now body s))) = rows (ideas s) @ [r]"
    by auto
  moreover
  have "col ''created_date'' r = text_param e (js_or (field body ''created_date'') (JStr now))"
    by (rule inserted_text [OF ins, THEN conjunct1])
       (simp_all add: post_ideas_params_def ideas_schema_def)
  ultimately show "rows (ideas (snd (post_ideas e now body s))) = rows (ideas s) @ [r] \<and>
      col ''created_date'' r = text_param e (js_or (field body ''created_date'') (JStr now))"
    by simp
qed

lemma post_ideas_accepts_imp:
  "field body ''user_email'' = JStr u \<and> JStr u \<in> set (user_emails s) \<and>
   binds e ideas_schema (post_ideas_params (js_or (field body ''created_date'') (JStr now)) body) \<longrightarrow>
     (\<exists>r. fst (post_ideas e now body s) = Response 200 (JObj r))"
proof
  assume a: "field body ''user_email'' = JStr u \<and> JStr u \<in> set (user_emails s) \<and>
   binds e ideas_schema (post_ideas_params (js_or (field body ''created_date'') (JStr now)) body)"
  let ?ps = "post_ideas_params (js_or (field body ''created_date'') (JStr now)) body"
  from a have b: "binds e ideas_schema ?ps" by simp
  from a have u: "field body ''user_email'' = JStr u" "JStr u \<in> set (user_emails s)"
    by simp_all
  from b u(1) have ok: "\<not> has_nul u"
    by (simp add: binds_def post_ideas_params_def ctype_def ideas_schema_def bind_text_str
        split: if_splits)
  have "col ''user_email'' (new_row ideas_schema (bound e ideas_schema ?ps) (next_id (ideas s))) = JStr u"
    using u(1) ok
    by (simp add: col_new_row ideas_schema_def bound_def post_ideas_params_def ctype_def bind_text_str)
  with u(2) show "\<exists>r. fst (post_ideas e now body s) = Response 200 (JObj r)"
    by (simp add: post_ideas_def Let_def exec_insert_def bind_all_bound [OF b] sql_insert_def)
qed

lemma post_ideas_refused_imp:
  "\<not> binds e ideas_schema (post_ideas_params (js_or (field body ''created_date'') (JStr now)) body) \<longrightarrow>
     post_ideas e now body s = (Response 500 (JObj [(''error'', JStr ''Error creating idea.'')]), s)"
proof
  assume "\<not> binds e ideas_schema (post_ideas_params (js_or (field body ''created_date'') (JStr now)) body)"
  from exec_insert_unbound [OF this] obtain x where
    "exec_insert e ideas_schema [] [(''user_email'', user_emails s)]
       (post_ideas_params (js_or (field body ''created_date'') (JStr now)) body) (ideas s) =
     (Inl x, ideas s)"
    by blast
  then show "post_ideas e now body s = (Response 500 (JObj [(''error'', JStr ''Error creating idea.'')]), s)"
    by (simp add: post_ideas_def Let_def err_def)
qed

lemma post_notes_accepted:
  assumes "fst (post_notes e now body s) = Response 200 (JObj r)"
  shows "\<exists>t'. exec_insert e notes_schema [] [(''user_email'', user_emails s)]
                 (post_notes_params (js_or (field body ''created_date'') (JStr now)) body)
                 (notes_table s) = (Inr r, t') \<and>
              snd (post_notes e now body s) = s\<lparr>notes_table := t'\<rparr>"
  using assms
  by (auto simp: post_notes_def Let_def err_def split: prod.splits sum.splits)

lemma post_notes_stored_imp:
  "fst (post_notes e now body s) = Response 200 (JObj r) \<longrightarrow>
      rows (notes_table (snd (post_notes e now body s))) = rows (notes_table s) @ [r] \<and>
      col ''created_date'' r = text_param e (js_or (field body ''created_date'') (JStr now))"
proof
  assume "fst (post_notes e now body s) = Response 200 (JObj r)"
  from post_notes_accepted [OF this] obtain t' where
    ins: "exec_insert e notes_schema [] [(''user_email'', user_emails s)]
            (post_notes_params (js_or (field body ''created_date'') (JStr now)) body)
            (notes_table s) = (Inr r, t')"
    and s': "snd (post_notes e now body s) = s\<lparr>notes_table := t'\<rparr>"
    by blast
  from exec_insert_accepted [OF ins] s'
  have "rows (notes_table (snd (post_notes e now body s))) = rows (notes_table s) @ [r]"
    by auto
  moreover
  have "col ''created_date'' r = text_param e (js_or (field body ''created_date'') (JStr now))"
    by (rule inserted_text [OF ins, THEN conjunct1])
       (simp_all add: post_notes_params_def notes_schema_def)
  ultimately show "rows (notes_table (snd (post_notes e now body s))) = rows (notes_table s) @ [r] \<and>
      col ''created_date'' r = text_param e (js_or (field body ''created_date'') (JStr now))"
    by simp
qed

lemma post_notes_accepts_imp:
  "field body ''user_email'' = JStr u \<and> JStr u \<in> set (user_emails s) \<and>
   binds e notes_schema (post_notes_params (js_or (field body ''created_date'') (JStr now)) body) \<longrightarrow>
     (\<exists>r. fst (post_notes e now body s) = Response 200 (JObj r))"
proof
  assume a: "field body ''user_email'' = JStr u \<and> JStr u \<in> set (user_emails s) \<and>
   binds e notes_schema (post_notes_params (js_or (field body ''created_date'') (JStr now)) body)"
  let ?ps = "post_notes_params (js_or (field body ''created_date'') (JStr now)) body"
  from a have b: "binds e notes_schema ?ps" by simp
  from a have u: "field body ''user_email'' = JStr u" "JStr u \<in> set (user_emails s)"
    by simp_all
  from b u(1) have ok: "\<not> has_nul u"
    by (simp add: binds_def post_notes_params_def ctype_def notes_schema_def bind_text_str
        split: if_splits)
  have "col ''user_email'' (new_row notes_schema (bound e notes_schema ?ps) (next_id (notes_table s))) = JStr u"
    using u(1) ok
    by (simp add: col_new_row notes_schema_def bound_def post_notes_params_def ctype_def bind_text_str)
  with u(2) show "\<exists>r. fst (post_notes e now body s) = Response 200 (JObj r)"
    by (simp add: post_notes_def Let_def exec_insert_def bind_all_bound [OF b] sql_insert_def)
qed

lemma post_notes_refused_imp:
  "\<not> binds e notes_schema (post_notes_params (js_or (field body ''created_date'') (JStr now)) body) \<longrightarrow>
     post_notes e now body s = (Response 500 (JObj [(''error'', JStr ''Error creating note.'')]), s)"
proof
  assume "\<not> binds e notes_schema (post_notes_params (js_or (field body ''created_date'') (JStr now)) body)"
  from exec_insert_unbound [OF this] obtain x where
    "exec_insert e notes_schema [] [(''user_email'', user_emails s)]
       (post_notes_params (js_or (field body ''created_date'') (JStr now)) body) (notes_table s) =
     (Inl x, notes_table s)"
    by blast
  then show "post_notes e now body s = (Response 500 (JObj [(''error'', JStr ''Error creating note.'')]), s)"
    by (simp add: post_notes_def Let_def err_def)
qed

lemma post_career_goals_accepted:
  assumes "fst (post_career_goals e now body s) = Response 200 (JObj r)"
  shows "\<exists>t'. exec_insert e career_goals_schema [] [(''user_email'', user_emails s)]
                 (post_career_goals_params (js_or (field body ''created_date'') (JStr now)) body)
                 (career_goals s) = (Inr r, t') \<and>
              snd (post_career_goals e now body s) = s\<lparr>career_goals := t'\<rparr>"
  using assms
  by (auto simp: post_career_goals_def Let_def err_def split: prod.splits sum.splits)

lemma post_career_goals_stored_imp:
  "fst (post_career_goals e now body s) = Response 200 (JObj r) \<longrightarrow>
      rows (career_goals (snd (post_career_goals e now body s))) = rows (career_goals s) @ [r] \<and>
      col ''created_date'' r = text_param e (js_or (field body ''created_date'') (JStr now))"
proof
  assume "fst (post_career_goals e now body s) = Response 200 (JObj r)"
  from post_career_goals_accepted [OF this] obtain t' where
    ins: "exec_insert e career_goals_schema [] [(''user_email'', user_emails s)]
            (post_career_goals_params (js_or (field body ''created_date'') (JStr now)) body)
            (career_goals s) = (Inr r, t')"
    and s': "snd (post_career_goals e now body s) = s\<lparr>career_goals := t'\<rparr>"
    by blast
  from exec_insert_accepted [OF ins] s'
  have "rows (career_goals (snd (post_career_goals e now body s))) = rows (career_goals s) @ [r]"
    by auto
  moreover
  have "col ''created_date'' r = text_param e (js_or (field body ''created_date'') (JStr now))"
    by (rule inserted_text [OF ins, THEN conjunct1])
       (simp_all add: post_career_goals_params_def career_goals_schema_def)
  ultimately show "rows (career_goals (snd (post_career_goals e now body s))) = rows (career_goals s) @ [r] \<and>
      col ''created_date'' r = text_param e (js_or (field body ''created_date'') (JStr now))"
    by simp
qed

lemma post_career_goals_accepts_imp:
  "field body ''user_email'' = JStr u \<and> JStr u \<in> set (user_emails s) \<and>
   binds e career_goals_schema (post_career_goals_params (js_or (field body ''created_date'') (JStr now)) body) \<longrightarrow>
     (\<exists>r. fst (post_career_goals e now body s) = Response 200 (JObj r))"
proof
  assume a: "field body ''user_email'' = JStr u \<and> JStr u \<in> set (user_emails s) \<and>
   binds e career_goals_schema (post_career_goals_params (js_or (field body ''created_date'') (JStr now)) body)"
  let ?ps = "post_career_goals_params (js_or (field body ''created_date'') (JStr now)) body"
  from a have b: "binds e career_goals_schema ?ps" by simp
  from a have u: "field body ''user_email'' = JStr u" "JStr u \<in> set (user_emails s)"
    by simp_all
  from b u(1) have ok: "\<not> has_nul u"
    by (simp add: binds_def post_career_goals_params_def ctype_def career_goals_schema_def bind_text_str
        split: if_splits)
  have "col ''user_email'' (new_row career_goals_schema (bound e career_goals_schema ?ps) (next_id (career_goals s))) = JStr u"
    using u(1) ok
    by (simp add: col_new_row career_goals_schema_def bound_def post_career_goals_params_def ctype_def bind_text_str)
  with u(2) show "\<exists>r. fst (post_career_goals e now body s) = Response 200 (JObj r)"
    by (simp add: post_career_goals_def Let_def exec_insert_def bind_all_bound [OF b] sql_insert_def)
qed

lemma post_career_goals_refused_imp:
  "\<not> binds e career_goals_schema (post_career_goals_params (js_or (field body ''created_date'') (JStr now)) body) \<longrightarrow>
     post_career_goals e now body s = (Response 500 (JObj [(''error'', JStr ''Error creating career goal.'')]), s)"
proof
  assume "\<not> binds e career_goals_schema (post_career_goals_params (js_or (field body ''created_date'') (JStr now)) body)"
  from exec_insert_unbound [OF this] obtain x where
    "exec_insert e career_goals_schema [] [(''user_email'', user_emails s)]
       (post_career_goals_params (js_or (field body ''created_date'') (JStr now)) body) (career_goals s) =
     (Inl x, career_goals s)"
    by blast
  then show "post_career_goals e now body s = (Response 500 (JObj [(''error'', JStr ''Error creating career goal.'')]), s)"
    by (simp add: post_career_goals_def Let_def err_def)
qed

lemma post_future_work_accepted:
  assumes "fst (post_future_work e now body s) = Response 200 (JObj r)"
  shows "\<exists>t'. exec_insert e future_work_schema [] [(''user_email'', user_emails s)]
                 (post_future_work_params (js_or (field body ''created_date'') (JStr now)) body)
                 (future_work s) = (Inr r, t') \<and>
              snd (post_future_work e now body s) = s\<lparr>future_work := t'\<rparr>"
  using assms
  by (auto simp: post_future_work_def Let_def err_def split: prod.splits sum.splits)

lemma post_future_work_stored_imp:
  "fst (post_future_work e now body s) = Response 200 (JObj r) \<longrightarrow>
      rows (future_work (snd (post_future_work e now body s))) = rows (future_work s) @ [r] \<and>
      col ''created_date'' r = text_param e (js_or (field body ''created_date'') (JStr now))"
proof
  assume "fst (post_future_work e now body s) = Response 200 (JObj r)"
  from post_future_work_accepted [OF this] obtain t' where
    ins: "exec_insert e future_work_schema [] [(''user_email'', user_emails s)]
            (post_future_work_params (js_or (field body ''created_date'') (JStr now)) body)
            (future_work s) = (Inr r, t')"
    and s': "snd (post_future_work e now body s) = s\<lparr>future_work := t'\<rparr>"
    by blast
  from exec_insert_accepted [OF ins] s'
  have "rows (future_work (snd (post_future_work e now body s))) = rows (future_work s) @ [r]"
    by auto
  moreover
  have "col ''created_date'' r = text_param e (js_or (field body ''created_date'') (JStr now))"
    by (rule inserted_text [OF ins, THEN conjunct1])
       (simp_all add: post_future_work_params_def future_work_schema_def)
  ultimately show "rows (future_work (snd (post_future_work e now body s))) = rows (future_work s) @ [r] \<and>
      col ''created_date'' r = text_param e (js_or (field body ''created_date'') (JStr now))"
    by simp
qed

lemma post_future_work_accepts_imp:
  "field body ''user_email'' = JStr u \<and> JStr u \<in> set (user_emails s) \<and>
   binds e future_work_schema (post_future_work_params (js_or (field body ''created_date'') (JStr now)) body) \<longrightarrow>
     (\<exists>r. fst (post_future_work e now body s) = Response 200 (JObj r))"
proof
  assume a: "field body ''user_email'' = JStr u \<and> JStr u \<in> set (user_emails s) \<and>
   binds e future_work_schema (post_future_work_params (js_or (field body ''created_date'') (JStr now)) body)"
  let ?ps = "post_future_work_params (js_or (field body ''created_date'') (JStr now)) body"
  from a have b: "binds e future_work_schema ?ps" by simp
  from a have u: "field body ''user_email'' = JStr u" "JStr u \<in> set (user_emails s)"
    by simp_all
  from b u(1) have ok: "\<not> has_nul u"
    by (simp add: binds_def post_future_work_params_def ctype_def future_work_schema_def bind_text_str
        split: if_splits)
  have "col ''user_email'' (new_row future_work_schema (bound e future_work_schema ?ps) (next_id (future_work s))) = JStr u"
    using u(1) ok
    by (simp add: col_new_row future_work_schema_def bound_def post_future_work_params_def ctype_def bind_text_str)
  with u(2) show "\<exists>r. fst (post_future_work e now body s) = Response 200 (JObj r)"
    by (simp add: post_future_work_def Let_def exec_insert_def bind_all_bound [OF b] sql_insert_def)
qed

lemma post_future_work_refused_imp:
  "\<not> binds e future_work_schema (post_future_work_params (js_or (field body ''created_date'') (JStr now)) body) \<longrightarrow>
     post_future_work e now body s = (Response 500 (JObj [(''error'', JStr ''Error creating future work.'')]), s)"
proof
  assume "\<not> binds e future_work_schema (post_future_work_params (js_or (field body ''created_date'') (JStr now)) body)"
  from exec_insert_unbound [OF this] obtain x where
    "exec_insert e future_work_schema [] [(''user_email'', user_emails s)]
       (post_future_work_params (js_or (field body ''created_date'') (JStr now)) body) (future_work s) =
     (Inl x, future_work s)"
    by blast
  then show "post_future_work e now body s = (Response 500 (JObj [(''error'', JStr ''Error creating future work.'')]), s)"
    by (simp add: post_future_work_def Let_def err_def)
qed

lemma post_deadlines_accepted:
  assumes "fst (post_deadlines e now body s) = Response 200 (JObj r)"
  shows "\<exists>t'. exec_insert e deadlines_schema [] [(''user_email'', user_emails s)]
                 (post_deadlines_params (js_or (field body ''created_date'') (JStr now)) body)
                 (deadlines s) = (Inr r, t') \<and>
              snd (post_deadlines e now body s) = s\<lparr>deadlines := t'\<rparr>"
  using assms
  by (auto simp: post_deadlines_def Let_def err_def split: prod.splits sum.splits)

lemma post_deadlines_stored_imp:
  "fst (post_deadlines e now body s) = Response 200 (JObj r) \<longrightarrow>
      rows (deadlines (snd (post_deadlines e now body s))) = rows (deadlines s) @ [r] \<and>
      col ''created_date'' r = text_param e (js_or (field body ''created_date'') (JStr now))"
proof
  assume "fst (post_deadlines e now body s) = Response 200 (JObj r)"
  from post_deadlines_accepted [OF this] obtain t' where
    ins: "exec_insert e deadlines_schema [] [(''user_email'', user_emails s)]
            (post_deadlines_params (js_or (field body ''created_date'') (JStr now)) body)
            (deadlines s) = (Inr r, t')"
    and s': "snd (post_deadlines e now body s) = s\<lparr>deadlines := t'\<rparr>"
    by blast
  from exec_insert_accepted [OF ins] s'
  have "rows (deadlines (snd (post_deadlines e now body s))) = rows (deadlines s) @ [r]"
    by auto
  moreover
  have "col ''created_date'' r = text_param e (js_or (field body ''created_date'') (JStr now))"
    by (rule inserted_text [OF ins, THEN conjunct1])
       (simp_all add: post_deadlines_params_def deadlines_schema_def)
  ultimately show "rows (deadlines (snd (post_deadlines e now body s))) = rows (deadlines s) @ [r] \<and>
      col ''created_date'' r = text_param e (js_or (field body ''created_date'') (JStr now))"
    by simp
qed

lemma post_deadlines_accepts_imp:
  "field body ''user_email'' = JStr u \<and> JStr u \<in> set (user_emails s) \<and>
   binds e deadlines_schema (post_deadlines_params (js_or (field body ''created_date'') (JStr now)) body) \<longrightarrow>
     (\<exists>r. fst (post_deadlines e now body s) = Response 200 (JObj r))"
proof
  assume a: "field body ''user_email'' = JStr u \<and> JStr u \<in> set (user_emails s) \<and>
   binds e deadlines_schema (post_deadlines_params (js_or (field body ''created_date'') (JStr now)) body)"
  let ?ps = "post_deadlines_params (js_or (field body ''created_date'') (JStr now)) body"
  from a have b: "binds e deadlines_schema ?ps" by simp
  from a have u: "field body ''user_email'' = JStr u" "JStr u \<in> set (user_emails s)"
    by simp_all
  from b u(1) have ok: "\<not> has_nul u"
    by (simp add: binds_def post_deadlines_params_def ctype_def deadlines_schema_def bind_text_str
        split: if_splits)
  have "col ''user_email'' (new_row deadlines_schema (bound e deadlines_schema ?ps) (next_id (deadlines s))) = JStr u"
    using u(1) ok
    by (simp add: col_new_row deadlines_schema_def bound_def post_deadlines_params_def ctype_def bind_text_str)
  with u(2) show "\<exists>r. fst (post_deadlines e now body s) = Response 200 (JObj r)"
    by (simp add: post_deadlines_def Let_def exec_insert_def bind_all_bound [OF b] sql_insert_def)
qed

lemma post_deadlines_refused_imp:
  "\<not> binds e deadlines_schema (post_deadlines_params (js_or (field body ''created_date'') (JStr now)) body) \<longrightarrow>
     post_deadlines e now body s = (Response 500 (JObj [(''error'', JStr ''Error creating deadline.'')]), s)"
proof
  assume "\<not> binds e deadlines_schema (post_deadlines_params (js_or (field body ''created_date'') (JStr now)) body)"
  from exec_insert_unbound [OF this] obtain x where
    "exec_insert e deadlines_schema [] [(''user_email'', user_emails s)]
       (post_deadlines_params (js_or (field body ''created_date'') (JStr now)) body) (deadlines s) =
     (Inl x, deadlines s)"
    by blast
  then show "post_deadlines e now body s = (Response 500 (JObj [(''error'', JStr ''Error creating deadline.'')]), s)"
    by (simp add: post_deadlines_def Let_def err_def)
qed

lemma post_calendar_events_accepted:
  assumes "fst (post_calendar_events e now body s) = Response 200 (JObj r)"
  shows "\<exists>t'. exec_insert e calendar_events_schema [] [(''user_email'', user_emails s)]
                 (post_calendar_events_params (js_or (field body ''created_date'') (JStr now)) body)
                 (calendar_events s) = (Inr r, t') \<and>
              snd (post_calendar_events e now body s) = s\<lparr>calendar_events := t'\<rparr>"
  using assms
  by (auto simp: post_calendar_events_def Let_def err_def split: prod.splits sum.splits)

lemma post_calendar_events_stored_imp:
  "fst (post_calendar_events e now body s) = Response 200 (JObj r) \<longrightarrow>
      rows (calendar_events (snd (post_calendar_events e now body s))) = rows (calendar_events s) @ [r] \<and>
      col ''created_date'' r = text_param e (js_or (field body ''created_date'') (JStr now))"
proof
  assume "fst (post_calendar_events e now body s) = Response 200 (JObj r)"
  from post_calendar_events_accepted [OF this] obtain t' where
    ins: "exec_insert e calendar_events_schema [] [(''user_email'', user_emails s)]
            (post_calendar_events_params (js_or (field body ''created_date'') (JStr now)) body)
            (calendar_events s) = (Inr r, t')"
    and s': "snd (post_calendar_events e now body s) = s\<lparr>calendar_events := t'\<rparr>"
    by blast
  from exec_insert_accepted [OF ins] s'
  have "rows (calendar_events (snd (post_calendar_events e now body s))) = rows (calendar_events s) @ [r]"
    by auto
  moreover
  have "col ''created_date'' r = text_param e (js_or (field body ''created_date'') (JStr now))"
    by (rule inserted_text [OF ins, THEN conjunct1])
       (simp_all add: post_calendar_events_params_def calendar_events_schema_def)
  ultimately show "rows (calendar_events (snd (post_calendar_events e now body s))) = rows (calendar_events s) @ [r] \<and>
      col ''created_date'' r = text_param e (js_or (field body ''created_date'') (JStr now))"
    by simp
qed

lemma post_calendar_events_accepts_imp:
  "field body ''user_email'' = JStr u \<and> JStr u \<in> set (user_emails s) \<and>
   binds e calendar_events_schema (post_calendar_events_params (js_or (field body ''created_date'') (JStr now)) body) \<longrightarrow>
     (\<exists>r. fst (post_calendar_events e now body s) = Response 200 (JObj r))"
proof
  assume a: "field body ''user_email'' = JStr u \<and> JStr u \<in> set (user_emails s) \<and>
   binds e calendar_events_schema (post_calendar_events_params (js_or (field body ''created_date'') (JStr now)) body)"
  let ?ps = "post_calendar_events_params (js_or (field body ''created_date'') (JStr now)) body"
  from a have b: "binds e calendar_events_schema ?ps" by simp
  from a have u: "field body ''user_email'' = JStr u" "JStr u \<in> set (user_emails s)"
    by simp_all
  from b u(1) have ok: "\<not> has_nul u"
    by (simp add: binds_def post_calendar_events_params_def ctype_def calendar_events_schema_def bind_text_str
        split: if_splits)
  have "col ''user_email'' (new_row calendar_events_schema (bound e calendar_events_schema ?ps) (next_id (calendar_events s))) = JStr u"
    using u(1) ok
    by (simp add: col_new_row calendar_events_schema_def bound_def post_calendar_events_params_def ctype_def bind_text_str)
  with u(2) show "\<exists>r. fst (post_calendar_events e now body s) = Response 200 (JObj r)"
    by (simp add: post_calendar_events_def Let_def exec_insert_def bind_all_bound [OF b] sql_insert_def)
qed

lemma post_calendar_events_refused_imp:
  "\<not> binds e calendar_events_schema (post_calendar_events_params (js_or (field body ''created_date'') (JStr now)) body) \<longrightarrow>
     post_calendar_events e now body s = (Response 500 (JObj [(''error'', JStr ''Error creating event.'')]), s)"
proof
  assume "\<not> binds e calendar_events_schema (post_calendar_events_params (js_or (field body ''created_date'') (JStr now)) body)"
  from exec_insert_unbound [OF this] obtain x where
    "exec_insert e calendar_events_schema [] [(''user_email'', user_emails s)]
       (post_calendar_events_params (js_or (field body ''created_date'') (JStr now)) body) (calendar_events s) =
     (Inl x, calendar_events s)"
    by blast
  then show "post_calendar_events e now body s = (Response 500 (JObj [(''error'', JStr ''Error creating event.'')]), s)"
    by (simp add: post_calendar_events_def Let_def err_def)
qed

subsection \<open>Calendar events\<close>

lemma post_events_accepted:
  assumes "fst (post_events e now body s) = Response 200 (JObj r)"
  shows "\<exists>t'. exec_insert e calendar_events_schema [] [(''user_email'', user_emails s)]
                 (post_events_params (JStr now) (JStr now) body) (calendar_events s) =
               (Inr r, t') \<and>
              snd (post_events e now body s) = s\<lparr>calendar_events := t'\<rparr>"
  using assms
  by (auto simp: post_events_def Let_def err_def split: prod.splits sum.splits)

lemma post_events_stored:
  assumes "fst (post_events e now body s) = Response 200 (JObj r)"
  shows "rows (calendar_events (snd (post_events e now body s))) =
           rows (calendar_events s) @ [r]"
    and "col ''user_email'' r = text_param e (field body ''userEmail'')"
    and "col ''is_all_day'' r = JNum (if truthy (field body ''isAllDay'') then 1 else 0)"
    and "col ''is_online'' r = JNum (if truthy (field body ''isOnline'') then 1 else 0)"
    and "col ''repeat_weekly'' r = JNum (if truthy (field body ''repeatWeekly'') then 1 else 0)"
    and "col ''created_date'' r = JStr now"
    and "sendable e (field body ''userEmail'')"
proof -
  from post_events_accepted [OF assms] obtain t' where
    ins: "exec_insert e calendar_events_schema [] [(''user_email'', user_emails s)]
            (post_events_params (JStr now) (JStr now) body) (calendar_events s) = (Inr r, t')"
    and s': "snd (post_events e now body s) = s\<lparr>calendar_events := t'\<rparr>"
    by blast
  from exec_insert_accepted [OF ins] s'
  show "rows (calendar_events (snd (post_events e now body s))) =
           rows (calendar_events s) @ [r]"
    by auto
  have em: "col ''user_email'' r = text_param e (field body ''userEmail'') \<and>
        sendable e (field body ''userEmail'')"
    by (rule inserted_text [OF ins])
       (simp_all add: post_events_params_def calendar_events_schema_def)
  from em show "col ''user_email'' r = text_param e (field body ''userEmail'')" by simp
  from em show "sendable e (field body ''userEmail'')" by simp
  have "bind e TInt (JNum (if truthy (field body ''isAllDay'') then 1 else 0)) =
          Inr (col ''is_all_day'' r)"
    by (rule inserted_int [OF ins])
       (simp_all add: post_events_params_def calendar_events_schema_def)
  then show "col ''is_all_day'' r = JNum (if truthy (field body ''isAllDay'') then 1 else 0)"
    by (simp add: bind_flag)
  have "bind e TInt (JNum (if truthy (field body ''isOnline'') then 1 else 0)) =
          Inr (col ''is_online'' r)"
    by (rule inserted_int [OF ins])
       (simp_all add: post_events_params_def calendar_events_schema_def)
  then show "col ''is_online'' r = JNum (if truthy (field body ''isOnline'') then 1 else 0)"
    by (simp add: bind_flag)
  have "bind e TInt (JNum (if truthy (field body ''repeatWeekly'') then 1 else 0)) =
          Inr (col ''repeat_weekly'' r)"
    by (rule inserted_int [OF ins])
       (simp_all add: post_events_params_def calendar_events_schema_def)
  then show "col ''repeat_weekly'' r =
      JNum (if truthy (field body ''repeatWeekly'') then 1 else 0)"
    by (simp add: bind_flag)
  have "col ''created_date'' r = text_param e (JStr now)"
    by (rule inserted_text [OF ins, THEN conjunct1])
       (simp_all add: post_events_params_def calendar_events_schema_def)
  then show "col ''created_date'' r = JStr now"
    by (simp add: text_param_def)
qed

lemma post_events_accepts_imp:
  "field body ''userEmail'' = JStr u \<and> JStr u \<in> set (user_emails s) \<and>
   binds e calendar_events_schema (post_events_params (JStr now) (JStr now) body) \<longrightarrow>
     (\<exists>r. fst (post_events e now body s) = Response 200 (JObj r))"
proof
  assume a: "field body ''userEmail'' = JStr u \<and> JStr u \<in> set (user_emails s) \<and>
   binds e calendar_events_schema (post_events_params (JStr now) (JStr now) body)"
  let ?ps = "post_events_params (JStr now) (JStr now) body"
  from a have b: "binds e calendar_events_schema ?ps" by simp
  from a have u: "field body ''userEmail'' = JStr u" "JStr u \<in> set (user_emails s)"
    by simp_all
  from b u(1) have ok: "\<not> has_nul u"
    by (simp add: binds_def post_events_params_def ctype_def calendar_events_schema_def
        bind_text_str split: if_splits)
  have "col ''user_email''
          (new_row calendar_events_schema (bound e calendar_events_schema ?ps)
             (next_id (calendar_events s))) = JStr u"
    using u(1) ok
    by (simp add: col_new_row calendar_events_schema_def bound_def post_events_params_def
        ctype_def bind_text_str)
  with u(2) show "\<exists>r. fst (post_events e now body s) = Response 200 (JObj r)"
    by (simp add: post_events_def Let_def exec_insert_def bind_all_bound [OF b] sql_insert_def)
qed

lemma post_events_refused_imp:
  "\<not> binds e calendar_events_schema (post_events_params (JStr now) (JStr now) body) \<longrightarrow>
     post_events e now body s =
       (Response 500 (JObj [(''error'', JStr ''Error creating event.'')]), s)"
proof
  assume "\<not> binds e calendar_events_schema (post_events_params (JStr now) (JStr now) body)"
  from exec_insert_unbound [OF this] obtain x where
    "exec_insert e calendar_events_schema [] [(''user_email'', user_emails s)]
       (post_events_params (JStr now) (JStr now) body) (calendar_events s) =
     (Inl x, calendar_events s)"
    by blast
  then show "post_events e now body s =
       (Response 500 (JObj [(''error'', JStr ''Error creating event.'')]), s)"
    by (simp add: post_events_def Let_def err_def)
qed

lemma get_events_run:
  "get_events_email e email s =
     (if has_nul email then Response 500 (JObj [(''error'', JStr ''Error fetching events.'')])
      else Response 200
             (JArr (map event_of
                      (order_by (then_by (asc ''event_date'') (asc ''start_time''))
                         (filter (\<lambda>r. col ''user_email'' r = JStr email)
                            (rows (calendar_events s)))))))"
proof -
  have "field (select_as events_select_list r) ''isallday'' = col ''is_all_day'' r"
       "field (select_as events_select_list r) ''isonline'' = col ''is_online'' r"
       "field (select_as events_select_list r) ''repeatweekly'' = col ''repeat_weekly'' r"
    for r
    by (simp_all add: select_as_def events_select_list_def field_def)
  then show ?thesis
    by (simp add: get_events_email_def exec_select_text ctype_def calendar_events_schema_def
        Let_def event_of_def err_def)
qed

lemma event_of_fields:
  "event_of r = JObj ob \<Longrightarrow>
   field ob ''id'' = col ''id'' r \<and>
   field ob ''isAllDay'' = JBool (truthy (col ''is_all_day'' r)) \<and>
   field ob ''isOnline'' = JBool (truthy (col ''is_online'' r)) \<and>
   field ob ''repeatWeekly'' = JBool (truthy (col ''repeat_weekly'' r))"
  by (auto simp: event_of_def select_as_def events_select_list_def field_def)

lemma get_calendar_events_run:
  "get_calendar_events_email e email s =
     (if has_nul email then Response 500 (JObj [(''error'', JStr ''Error fetching events.'')])
      else Response 200
             (JArr (map JObj
                      (order_by (asc ''event_date'')
                         (filter (\<lambda>r. col ''user_email'' r = JStr email)
                            (rows (calendar_events s)))))))"
  by (simp add: get_calendar_events_email_def exec_select_text ctype_def
      calendar_events_schema_def err_def)

lemma post_event_eval:
  "post_events env0 ''2026-11-03T09:00:00.000Z'' body_event db_a =
     (Response 200 (JObj event_row), db_event)"
  by code_simp

lemma legacy_eval:
  "get_calendar_events_email env0 ''a@x.com'' db_event = Response 200 (JArr [JObj event_row])"
  by code_simp

text \<open>An accepted UPDATE by \<open>id\<close>: what a row with that id holds afterwards.\<close>

lemma map_of_absent: "map fst vals = ks \<Longrightarrow> c \<notin> set ks \<Longrightarrow> map_of vals c = None"
  by (simp add: map_of_eq_None_iff flip: set_map)

lemma exec_update_accepted:
  assumes "exec_update e sch ps ''id'' (JStr pid) t = (Inr rs, t')"
    and "int4_in e pid = Some g" and "ctype sch ''id'' = TInt"
  shows "\<exists>sets. bind_all e sch ps = Inr sets \<and>
           rs = map (set_cols sets) (filter (\<lambda>r. col ''id'' r = JNum g) (rows t)) \<and>
           rows t' = filter (\<lambda>r. col ''id'' r \<noteq> JNum g) (rows t) @ rs"
  using assms
  by (auto simp: exec_update_def bind_int_str sql_eq_num Let_def split: sum.splits)

lemma exec_update_sets:
  assumes upd: "exec_update e sch ps ''id'' (JStr pid) t = (Inr rs, t')"
    and pid: "int4_in e pid = Some g" and ty: "ctype sch ''id'' = TInt"
    and key: "''id'' \<notin> set (map fst ps)"
    and par: "map_of ps c = Some v"
    and ok: "table_ok sch t" and c: "c \<in> set (map fst sch)"
    and r: "r \<in> set (rows t')" "col ''id'' r = JNum g"
  shows "bind e (ctype sch c) v = Inr (col c r)"
proof -
  from exec_update_accepted [OF upd pid ty] obtain sets where
    sets: "bind_all e sch ps = Inr sets"
    and t': "rows t' = filter (\<lambda>r. col ''id'' r \<noteq> JNum g) (rows t) @
                       map (set_cols sets) (filter (\<lambda>r. col ''id'' r = JNum g) (rows t))"
    by blast
  from bind_all_keys [OF sets] key have "map_of sets ''id'' = None"
    by (rule map_of_absent)
  then have keep: "col ''id'' (set_cols sets x) = col ''id'' x" for x
    by (rule col_set_cols_other)
  from r t' obtain r0 where r0: "r0 \<in> set (rows t)" "r = set_cols sets r0"
    by auto
  from ok r0(1) have "map fst r0 = ''id'' # map fst sch"
    by (simp add: table_ok_def list_all_iff)
  with c have "c \<in> set (map fst r0)" by simp
  then obtain x where x: "map_of r0 c = Some x"
    by (cases "map_of r0 c") (simp_all add: map_of_eq_None_iff)
  from bind_all_lookup [OF sets par] obtain w where
    w: "bind e (ctype sch c) v = Inr w" "map_of sets c = Some w"
    by blast
  from x w(2) r0(2) have "col c r = w"
    by (simp add: col_set_cols)
  with w(1) show ?thesis by simp
qed

lemma put_events_accepted:
  assumes "fst (put_events_id e now pid body s) = Response 200 b"
  shows "\<exists>rs t'. exec_update e calendar_events_schema (put_events_id_params (JStr now) body)
                    ''id'' (JStr pid) (calendar_events s) = (Inr rs, t') \<and>
                  snd (put_events_id e now pid body s) = s\<lparr>calendar_events := t'\<rparr>"
  using assms
  by (auto simp: put_events_id_def Let_def err_def split: prod.splits sum.splits)

lemma put_calendar_events_accepted:
  assumes "fst (put_calendar_events_id e pid body s) = Response 200 b"
  shows "\<exists>rs t'. exec_update e calendar_events_schema (put_calendar_events_id_params body)
                    ''id'' (JStr pid) (calendar_events s) = (Inr rs, t') \<and>
                  snd (put_calendar_events_id e pid body s) = s\<lparr>calendar_events := t'\<rparr>"
  using assms
  by (auto simp: put_calendar_events_id_def Let_def err_def split: prod.splits sum.splits)

lemma events_id_integer: "ctype calendar_events_schema ''id'' = TInt"
  by (simp add: ctype_def calendar_events_schema_def)

lemma bind_int_values:
  "bind e TInt JUndefined = Inr JNull" "bind e TInt JNull = Inr JNull"
  "- 2147483648 \<le> n \<and> n \<le> 2147483647 \<Longrightarrow> bind e TInt (JNum n) = Inr (JNum n)"
  by (simp_all add: bind_def text_param_def)

lemma events_read:
  "get_events_email e email s =
     (if has_nul email then Response 500 (JObj [(''error'', JStr ''Error fetching events.'')])
      else Response 200
             (JArr (map event_of
                      (order_by (then_by (asc ''event_date'') (asc ''start_time''))
                         (filter (\<lambda>r. col ''user_email'' r = JStr email)
                            (rows (calendar_events s)))))))"
  by (rule get_events_run)

lemma events_booleans_read:
  "event_of r = JObj ob \<longrightarrow>
     field ob ''isAllDay'' = JBool (truthy (col ''is_all_day'' r)) \<and>
     field ob ''isOnline'' = JBool (truthy (col ''is_online'' r)) \<and>
     field ob ''repeatWeekly'' = JBool (truthy (col ''repeat_weekly'' r))"
  using event_of_fields by blast

lemma truthy_stored: "truthy (JNum n) = (n \<noteq> 0) \<and> \<not> truthy JNull"
  by simp

lemma events_written:
  "field body ''userEmail'' = JStr u \<and>
     fst (post_events e now body s) = Response 200 (JObj r) \<longrightarrow>
   col ''is_all_day'' r = JNum (if truthy (field body ''isAllDay'') then 1 else 0) \<and>
   col ''is_online'' r = JNum (if truthy (field body ''isOnline'') then 1 else 0) \<and>
   col ''repeat_weekly'' r = JNum (if truthy (field body ''repeatWeekly'') then 1 else 0) \<and>
   (\<exists>evs ob. get_events_email e u (snd (post_events e now body s)) =
                Response 200 (JArr evs) \<and>
              JObj ob \<in> set evs \<and> field ob ''id'' = col ''id'' r \<and>
              field ob ''isAllDay'' = JBool (truthy (field body ''isAllDay'')) \<and>
              field ob ''isOnline'' = JBool (truthy (field body ''isOnline'')) \<and>
              field ob ''repeatWeekly'' = JBool (truthy (field body ''repeatWeekly'')))"
proof (intro impI conjI)
  assume a: "field body ''userEmail'' = JStr u \<and>
       fst (post_events e now body s) = Response 200 (JObj r)"
  then have acc: "fst (post_events e now body s) = Response 200 (JObj r)" by simp
  note st = post_events_stored [OF acc]
  show "col ''is_all_day'' r = JNum (if truthy (field body ''isAllDay'') then 1 else 0)"
    by (rule st(3))
  show "col ''is_online'' r = JNum (if truthy (field body ''isOnline'') then 1 else 0)"
    by (rule st(4))
  show "col ''repeat_weekly'' r = JNum (if truthy (field body ''repeatWeekly'') then 1 else 0)"
    by (rule st(5))
  let ?s' = "snd (post_events e now body s)"
  let ?rs = "order_by (then_by (asc ''event_date'') (asc ''start_time''))
               (filter (\<lambda>r. col ''user_email'' r = JStr u) (rows (calendar_events ?s')))"
  from a st(7) have ok: "\<not> has_nul u"
    by (simp add: sendable_str)
  from a st(2) have "col ''user_email'' r = JStr u"
    by (simp add: text_param_def)
  with st(1) have "r \<in> set ?rs"
    by (simp add: set_order_by)
  then have mem: "event_of r \<in> set (map event_of ?rs)"
    by simp
  obtain ob where ob: "event_of r = JObj ob"
    by (simp add: event_of_def)
  from event_of_fields [OF ob] st(3,4,5)
  have "field ob ''id'' = col ''id'' r \<and>
        field ob ''isAllDay'' = JBool (truthy (field body ''isAllDay'')) \<and>
        field ob ''isOnline'' = JBool (truthy (field body ''isOnline'')) \<and>
        field ob ''repeatWeekly'' = JBool (truthy (field body ''repeatWeekly''))"
    by simp
  moreover from ok have "get_events_email e u ?s' = Response 200 (JArr (map event_of ?rs))"
    by (simp add: get_events_run)
  ultimately
  show "\<exists>evs ob. get_events_email e u ?s' = Response 200 (JArr evs) \<and>
                   JObj ob \<in> set evs \<and> field ob ''id'' = col ''id'' r \<and>
                   field ob ''isAllDay'' = JBool (truthy (field body ''isAllDay'')) \<and>
                   field ob ''isOnline'' = JBool (truthy (field body ''isOnline'')) \<and>
                   field ob ''repeatWeekly'' = JBool (truthy (field body ''repeatWeekly''))"
    using mem ob by metis
qed

lemma events_updated:
  "fst (put_events_id e now pid body s) = Response 200 b \<and> int4_in e pid = Some g \<and>
   table_ok calendar_events_schema (calendar_events s) \<and>
   r \<in> set (rows (calendar_events (snd (put_events_id e now pid body s)))) \<and>
   col ''id'' r = JNum g \<longrightarrow>
     col ''is_all_day'' r = JNum (if truthy (field body ''isAllDay'') then 1 else 0) \<and>
     col ''is_online'' r = JNum (if truthy (field body ''isOnline'') then 1 else 0) \<and>
     col ''repeat_weekly'' r = JNum (if truthy (field body ''repeatWeekly'') then 1 else 0)"
proof (intro impI)
  assume a: "fst (put_events_id e now pid body s) = Response 200 b \<and>
   int4_in e pid = Some g \<and>
   table_ok calendar_events_schema (calendar_events s) \<and>
   r \<in> set (rows (calendar_events (snd (put_events_id e now pid body s)))) \<and>
   col ''id'' r = JNum g"
  then have acc: "fst (put_events_id e now pid body s) = Response 200 b" by simp
  from put_events_accepted [OF acc] obtain rs t' where
    upd: "exec_update e calendar_events_schema (put_events_id_params (JStr now) body)
            ''id'' (JStr pid) (calendar_events s) = (Inr rs, t')"
    and s': "snd (put_events_id e now pid body s) = s\<lparr>calendar_events := t'\<rparr>"
    by blast
  from a s' have r: "r \<in> set (rows t')" "col ''id'' r = JNum g" by simp_all
  from a have pid: "int4_in e pid = Some g"
    and ok: "table_ok calendar_events_schema (calendar_events s)" by simp_all
  have key: "''id'' \<notin> set (map fst (put_events_id_params (JStr now) body))"
    by (simp add: put_events_id_params_def)
  note sets = exec_update_sets [OF upd pid events_id_integer key _ ok _ r]
  have "bind e (ctype calendar_events_schema ''is_all_day'')
          (JNum (if truthy (field body ''isAllDay'') then 1 else 0)) =
        Inr (col ''is_all_day'' r)"
    by (rule sets) (simp_all add: put_events_id_params_def calendar_events_schema_def)
  moreover
  have "bind e (ctype calendar_events_schema ''is_online'')
          (JNum (if truthy (field body ''isOnline'') then 1 else 0)) =
        Inr (col ''is_online'' r)"
    by (rule sets) (simp_all add: put_events_id_params_def calendar_events_schema_def)
  moreover
  have "bind e (ctype calendar_events_schema ''repeat_weekly'')
          (JNum (if truthy (field body ''repeatWeekly'') then 1 else 0)) =
        Inr (col ''repeat_weekly'' r)"
    by (rule sets) (simp_all add: put_events_id_params_def calendar_events_schema_def)
  ultimately
  show "col ''is_all_day'' r = JNum (if truthy (field body ''isAllDay'') then 1 else 0) \<and>
     col ''is_online'' r = JNum (if truthy (field body ''isOnline'') then 1 else 0) \<and>
     col ''repeat_weekly'' r = JNum (if truthy (field body ''repeatWeekly'') then 1 else 0)"
    by (simp add: ctype_def calendar_events_schema_def bind_flag)
qed

lemma legacy_written:
  "fst (post_calendar_events e now body s) = Response 200 (JObj r) \<longrightarrow>
     col ''is_all_day'' r = JNum 0 \<and> col ''is_online'' r = JNum 0 \<and>
     (field body ''repeat_weekly'' = JUndefined \<or> field body ''repeat_weekly'' = JNull \<longrightarrow>
        col ''repeat_weekly'' r = JNull) \<and>
     (field body ''repeat_weekly'' = JNum n \<longrightarrow> col ''repeat_weekly'' r = JNum n)"
proof
  assume "fst (post_calendar_events e now body s) = Response 200 (JObj r)"
  from post_calendar_events_accepted [OF this] obtain t' where
    ins: "exec_insert e calendar_events_schema [] [(''user_email'', user_emails s)]
            (post_calendar_events_params (js_or (field body ''created_date'') (JStr now)) body)
            (calendar_events s) = (Inr r, t')"
    by blast
  from exec_insert_accepted [OF ins] obtain vals where
    vals: "bind_all e calendar_events_schema
             (post_calendar_events_params (js_or (field body ''created_date'') (JStr now)) body) =
           Inr vals"
    and r: "r = new_row calendar_events_schema vals (next_id (calendar_events s))"
    by blast
  from bind_all_keys [OF vals]
  have "map_of vals ''is_all_day'' = None" "map_of vals ''is_online'' = None"
    by (rule map_of_absent, simp add: post_calendar_events_params_def)+
  with r have d: "col ''is_all_day'' r = JNum 0" "col ''is_online'' r = JNum 0"
    by (simp_all add: col_new_row calendar_events_schema_def)
  have b: "bind e TInt (field body ''repeat_weekly'') = Inr (col ''repeat_weekly'' r)"
    by (rule inserted_int [OF ins])
       (simp_all add: post_calendar_events_params_def calendar_events_schema_def)
  from b have "field body ''repeat_weekly'' = JUndefined \<or> field body ''repeat_weekly'' = JNull \<longrightarrow>
        col ''repeat_weekly'' r = JNull"
    by (auto simp: bind_def text_param_def)
  moreover from b have "field body ''repeat_weekly'' = JNum n \<longrightarrow> col ''repeat_weekly'' r = JNum n"
    by (auto simp: bind_def split: if_splits)
  ultimately
  show "col ''is_all_day'' r = JNum 0 \<and> col ''is_online'' r = JNum 0 \<and>
     (field body ''repeat_weekly'' = JUndefined \<or> field body ''repeat_weekly'' = JNull \<longrightarrow>
        col ''repeat_weekly'' r = JNull) \<and>
     (field body ''repeat_weekly'' = JNum n \<longrightarrow> col ''repeat_weekly'' r = JNum n)"
    using d by simp
qed

lemma legacy_updated:
  "fst (put_calendar_events_id e pid body s) = Response 200 b \<and> int4_in e pid = Some g \<and>
   table_ok calendar_events_schema (calendar_events s) \<and>
   r \<in> set (rows (calendar_events (snd (put_calendar_events_id e pid body s)))) \<and>
   col ''id'' r = JNum g \<longrightarrow>
     (field body ''repeat_weekly'' = JUndefined \<or> field body ''repeat_weekly'' = JNull \<longrightarrow>
        col ''repeat_weekly'' r = JNull) \<and>
     (field body ''repeat_weekly'' = JNum n \<longrightarrow> col ''repeat_weekly'' r = JNum n)"
proof (intro impI)
  assume a: "fst (put_calendar_events_id e pid body s) = Response 200 b \<and>
   int4_in e pid = Some g \<and>
   table_ok calendar_events_schema (calendar_events s) \<and>
   r \<in> set (rows (calendar_events (snd (put_calendar_events_id e pid body s)))) \<and>
   col ''id'' r = JNum g"
  then have acc: "fst (put_calendar_events_id e pid body s) = Response 200 b" by simp
  from put_calendar_events_accepted [OF acc] obtain rs t' where
    upd: "exec_update e calendar_events_schema (put_calendar_events_id_params body)
            ''id'' (JStr pid) (calendar_events s) = (Inr rs, t')"
    and s': "snd (put_calendar_events_id e pid body s) = s\<lparr>calendar_events := t'\<rparr>"
    by blast
  from a s' have r: "r \<in> set (rows t')" "col ''id'' r = JNum g" by simp_all
  from a have pid: "int4_in e pid = Some g"
    and ok: "table_ok calendar_events_schema (calendar_events s)" by simp_all
  have key: "''id'' \<notin> set (map fst (put_calendar_events_id_params body))"
    by (simp add: put_calendar_events_id_params_def)
  have "bind e (ctype calendar_events_schema ''repeat_weekly'') (field body ''repeat_weekly'') =
        Inr (col ''repeat_weekly'' r)"
    by (rule exec_update_sets [OF upd pid events_id_integer key _ ok _ r])
       (simp_all add: put_calendar_events_id_params_def calendar_events_schema_def)
  then have b: "bind e TInt (field body ''repeat_weekly'') = Inr (col ''repeat_weekly'' r)"
    by (simp add: ctype_def calendar_events_schema_def)
  from b have "field body ''repeat_weekly'' = JUndefined \<or> field body ''repeat_weekly'' = JNull \<longrightarrow>
        col ''repeat_weekly'' r = JNull"
    by (auto simp: bind_def text_param_def)
  moreover from b have "field body ''repeat_weekly'' = JNum n \<longrightarrow> col ''repeat_weekly'' r = JNum n"
    by (auto simp: bind_def split: if_splits)
  ultimately
  show "(field body ''repeat_weekly'' = JUndefined \<or> field body ''repeat_weekly'' = JNull \<longrightarrow>
        col ''repeat_weekly'' r = JNull) \<and>
     (field body ''repeat_weekly'' = JNum n \<longrightarrow> col ''repeat_weekly'' r = JNum n)"
    by simp
qed

lemma legacy_read:
  "get_calendar_events_email e email s =
     (if has_nul email then Response 500 (JObj [(''error'', JStr ''Error fetching events.'')])
      else Response 200
             (JArr (map JObj
                      (order_by (asc ''event_date'')
                         (filter (\<lambda>r. col ''user_email'' r = JStr email)
                            (rows (calendar_events s)))))))"
  by (rule get_calendar_events_run)

text \<open>
  C6, as the code has it. \<open>POST /events\<close> and \<open>PUT /events/:id\<close> store the boolean
  attributes of a calendar event as 0/1 integers: 1 when the attribute sent is truthy, 0
  otherwise. \<open>GET /events/:email\<close> turns the stored values back into booleans for every
  event it returns: \<open>isAllDay\<close>, \<open>isOnline\<close> and \<open>repeatWeekly\<close> are \<open>true\<close> for a
  stored integer other than 0 and \<open>false\<close> for a stored 0 or NULL. An event accepted by
  \<open>POST /events\<close> with \<open>isAllDay: true\<close> is stored with 1 and read back on \<open>/events\<close>
  with \<open>isAllDay === true\<close> (and \<open>false\<close> when the flag was false or absent); the write
  of a registered user is accepted when the server accepts every parameter, and
  answered 500 with nothing stored when it refuses one. The legacy \<open>POST\<close> and
  \<open>PUT /calendar_events\<close> store \<open>repeat_weekly\<close> as it is sent (NULL when absent, 7
  when 7) and the insert leaves \<open>is_all_day\<close> and \<open>is_online\<close> at their default 0. The
  legacy \<open>GET /calendar_events/:email\<close> returns the stored rows as they are, with no
  conversion. Both reads answer 500 to an email that holds U+0000.
\<close>

theorem event_booleans:
  "get_events_email e email s =
     (if has_nul email then Response 500 (JObj [(''error'', JStr ''Error fetching events.'')])
      else Response 200
             (JArr (map event_of
                      (order_by (then_by (asc ''event_date'') (asc ''start_time''))
                         (filter (\<lambda>r. col ''user_email'' r = JStr email)
                            (rows (calendar_events s)))))))
   \<and> (event_of r = JObj ob \<longrightarrow>
        field ob ''isAllDay'' = JBool (truthy (col ''is_all_day'' r)) \<and>
        field ob ''isOnline'' = JBool (truthy (col ''is_online'' r)) \<and>
        field ob ''repeatWeekly'' = JBool (truthy (col ''repeat_weekly'' r)))
   \<and> (truthy (JNum n) = (n \<noteq> 0) \<and> \<not> truthy JNull)
   \<and> (field body ''userEmail'' = JStr u \<and>
       fst (post_events e now body s) = Response 200 (JObj r) \<longrightarrow>
        col ''is_all_day'' r = JNum (if truthy (field body ''isAllDay'') then 1 else 0) \<and>
        col ''is_online'' r = JNum (if truthy (field body ''isOnline'') then 1 else 0) \<and>
        col ''repeat_weekly'' r = JNum (if truthy (field body ''repeatWeekly'') then 1 else 0) \<and>
        (\<exists>evs ob. get_events_email e u (snd (post_events e now body s)) =
                     Response 200 (JArr evs) \<and>
                   JObj ob \<in> set evs \<and> field ob ''id'' = col ''id'' r \<and>
                   field ob ''isAllDay'' = JBool (truthy (field body ''isAllDay'')) \<and>
                   field ob ''isOnline'' = JBool (truthy (field body ''isOnline'')) \<and>
                   field ob ''repeatWeekly'' = JBool (truthy (field body ''repeatWeekly''))))
   \<and> (field body ''userEmail'' = JStr u \<and> JStr u \<in> set (user_emails s) \<and>
       binds e calendar_events_schema (post_events_params (JStr now) (JStr now) body) \<longrightarrow>
        (\<exists>r. fst (post_events e now body s) = Response 200 (JObj r)))
   \<and> (\<not> binds e calendar_events_schema (post_events_params (JStr now) (JStr now) body) \<longrightarrow>
        post_events e now body s =
          (Response 500 (JObj [(''error'', JStr ''Error creating event.'')]), s))
   \<and> (fst (put_events_id e now pid body s) = Response 200 b \<and> int4_in e pid = Some g \<and>
       table_ok calendar_events_schema (calendar_events s) \<and>
       r \<in> set (rows (calendar_events (snd (put_events_id e now pid body s)))) \<and>
       col ''id'' r = JNum g \<longrightarrow>
        col ''is_all_day'' r = JNum (if truthy (field body ''isAllDay'') then 1 else 0) \<and>
        col ''is_online'' r = JNum (if truthy (field body ''isOnline'') then 1 else 0) \<and>
        col ''repeat_weekly'' r = JNum (if truthy (field body ''repeatWeekly'') then 1 else 0))
   \<and> (fst (post_calendar_events e now body s) = Response 200 (JObj r) \<longrightarrow>
        col ''is_all_day'' r = JNum 0 \<and> col ''is_online'' r = JNum 0 \<and>
        (field body ''repeat_weekly'' = JUndefined \<or> field body ''repeat_weekly'' = JNull \<longrightarrow>
           col ''repeat_weekly'' r = JNull) \<and>
        (field body ''repeat_weekly'' = JNum n \<longrightarrow> col ''repeat_weekly'' r = JNum n))
   \<and> (fst (put_calendar_events_id e pid body s) = Response 200 b \<and> int4_in e pid = Some g \<and>
       table_ok calendar_events_schema (calendar_events s) \<and>
       r \<in> set (rows (calendar_events (snd (put_calendar_events_id e pid body s)))) \<and>
       col ''id'' r = JNum g \<longrightarrow>
        (field body ''repeat_weekly'' = JUndefined \<or> field body ''repeat_weekly'' = JNull \<longrightarrow>
           col ''repeat_weekly'' r = JNull) \<and>
        (field body ''repeat_weekly'' = JNum n \<longrightarrow> col ''repeat_weekly'' r = JNum n))
   \<and> get_calendar_events_email e email s =
       (if has_nul email then Response 500 (JObj [(''error'', JStr ''Error fetching events.'')])
        else Response 200
               (JArr (map JObj
                        (order_by (asc ''event_date'')
                           (filter (\<lambda>r. col ''user_email'' r = JStr email)
                              (rows (calendar_events s)))))))"
  by (intro conjI events_read events_booleans_read truthy_stored events_written
      post_events_accepts_imp post_events_refused_imp events_updated legacy_written
      legacy_updated legacy_read)

text \<open>
  The all-day event of a@x.com is stored as \<open>event_row\<close> and read back on \<open>/events\<close>
  with \<open>isAllDay\<close> true and the two other flags false.
\<close>

theorem event_booleans_witness:
  "fst (post_events env0 ''2026-11-03T09:00:00.000Z'' body_event db_a) =
     Response 200 (JObj event_row)
   \<and> (\<exists>evs ob. get_events_email env0 ''a@x.com''
                  (snd (post_events env0 ''2026-11-03T09:00:00.000Z'' body_event db_a)) =
                Response 200 (JArr evs) \<and>
              JObj ob \<in> set evs \<and> field ob ''id'' = JNum 1 \<and>
              field ob ''isAllDay'' = JBool True \<and> field ob ''isOnline'' = JBool False \<and>
              field ob ''repeatWeekly'' = JBool False)"
proof -
  have h: "field body_event ''userEmail'' = JStr ''a@x.com'' \<and>
           fst (post_events env0 ''2026-11-03T09:00:00.000Z'' body_event db_a) =
             Response 200 (JObj event_row)"
  proof
    show "field body_event ''userEmail'' = JStr ''a@x.com''"
      by (simp add: body_event_def field_def)
    show "fst (post_events env0 ''2026-11-03T09:00:00.000Z'' body_event db_a) =
             Response 200 (JObj event_row)"
      by (simp add: post_event_eval)
  qed
  have v: "col ''id'' event_row = JNum 1" "truthy (field body_event ''isAllDay'')"
    "\<not> truthy (field body_event ''isOnline'')" "\<not> truthy (field body_event ''repeatWeekly'')"
    by (simp_all add: event_row_def col_def body_event_def field_def)
  note t = event_booleans [where e = env0 and body = body_event and u = "''a@x.com''"
      and s = db_a and now = "''2026-11-03T09:00:00.000Z''" and r = event_row
      and email = "''a@x.com''" and ob = "[]" and n = 1 and pid = "''1''" and g = 1
      and b = JNull]
  from t [THEN conjunct2, THEN conjunct2, THEN conjunct2, THEN conjunct1] h v
  show ?thesis
    by simp
qed

text \<open>
  C6 as stated fails on the legacy route: the same event, written with \<open>isAllDay: true\<close>,
  is read back on \<open>/calendar_events\<close> as the stored row, which has no \<open>isAllDay\<close> and
  holds the integer 1 in \<open>is_all_day\<close>.
\<close>

theorem legacy_read_keeps_integers:
  "get_calendar_events_email env0 ''a@x.com''
     (snd (post_events env0 ''2026-11-03T09:00:00.000Z'' body_event db_a)) =
     Response 200 (JArr [JObj event_row])
   \<and> field body_event ''isAllDay'' = JBool True
   \<and> field event_row ''isAllDay'' = JUndefined
   \<and> field event_row ''is_all_day'' = JNum 1"
proof -
  have "get_calendar_events_email env0 ''a@x.com''
          (snd (post_events env0 ''2026-11-03T09:00:00.000Z'' body_event db_a)) =
        Response 200 (JArr [JObj event_row])"
    by (simp add: post_event_eval legacy_eval)
  moreover have "field body_event ''isAllDay'' = JBool True"
    by (simp add: body_event_def field_def)
  moreover have "field event_row ''isAllDay'' = JUndefined"
    "field event_row ''is_all_day'' = JNum 1"
    by (simp_all add: event_row_def field_def)
  ultimately show ?thesis
    by simp
qed

subsection \<open>Creation timestamps\<close>

lemma stamp_falsy:
  "\<not> truthy v \<longrightarrow> text_param e (js_or v (JStr now)) = JStr now"
  by (simp add: js_or_def text_param_def)

lemma falsy_values:
  "\<not> truthy JUndefined \<and> \<not> truthy JNull \<and> \<not> truthy (JStr []) \<and> \<not> truthy (JNum 0) \<and>
   \<not> truthy (JBool False)"
  by simp

lemma keep_string:
  "d \<noteq> [] \<longrightarrow> text_param e (js_or (JStr d) (JStr now)) = JStr d"
  by (simp add: js_or_def text_param_def)

lemma keep_other:
  "truthy v \<and> (\<forall>d. v \<noteq> JStr d) \<longrightarrow>
     text_param e (js_or v (JStr now)) = JStr (pg_string e v)"
  by (cases v) (simp_all add: js_or_def text_param_def)

lemma post_events_stamps:
  "fst (post_events e now body s) = Response 200 (JObj r) \<longrightarrow>
     rows (calendar_events (snd (post_events e now body s))) = rows (calendar_events s) @ [r] \<and>
     col ''created_date'' r = JStr now"
  using post_events_stored(1,6) by blast

lemma post_profile_stamps:
  "field body ''userEmail'' = JStr u \<and> u \<noteq> [] \<and> \<not> has_nul u \<and> profiles_of s u = [] \<and>
   list_all (\<lambda>cv. sendable e (snd cv))
     (profile_insert_params e (JStr now2) (JStr now) body) \<and>
   JStr u \<in> set (user_emails s) \<longrightarrow>
     (\<exists>r. rows (profiles (snd (post_profile e now now2 body s))) = rows (profiles s) @ [r] \<and>
          col ''created_date'' r = JStr now2 \<and> col ''modified_date'' r = JStr now)"
proof
  assume a: "field body ''userEmail'' = JStr u \<and> u \<noteq> [] \<and> \<not> has_nul u \<and>
   profiles_of s u = [] \<and>
   list_all (\<lambda>cv. sendable e (snd cv))
     (profile_insert_params e (JStr now2) (JStr now) body) \<and>
   JStr u \<in> set (user_emails s)"
  let ?r = "new_row profiles_schema
              (bound_text e (profile_insert_params e (JStr now2) (JStr now) body))
              (next_id (profiles s))"
  from a have "rows (profiles (snd (post_profile e now now2 body s))) = rows (profiles s) @ [?r]"
    by (simp add: profile_insert)
  moreover have "col ''created_date'' ?r = JStr now2" "col ''modified_date'' ?r = JStr now"
    by (simp_all add: col_new_row profiles_schema_def bound_text_def profile_insert_params_def
        text_param_def)
  ultimately show "\<exists>r. rows (profiles (snd (post_profile e now now2 body s))) =
                        rows (profiles s) @ [r] \<and>
          col ''created_date'' r = JStr now2 \<and> col ''modified_date'' r = JStr now"
    by blast
qed

lemma post_projects_no_date:
  "fst (post_projects e body s) = Response 200 (JObj r) \<longrightarrow>
     rows (projects (snd (post_projects e body s))) = rows (projects s) @ [r] \<and>
     field r ''created_date'' = JUndefined"
proof
  assume a: "fst (post_projects e body s) = Response 200 (JObj r)"
  then obtain ps t' where
    ins: "exec_insert e projects_schema [] [] ps (projects s) = (Inr r, t')"
    and s': "snd (post_projects e body s) = s\<lparr>projects := t'\<rparr>"
    by (auto simp: post_projects_def Let_def err_def split: prod.splits sum.splits if_splits)
  from exec_insert_accepted [OF ins] obtain vals where
    r: "r = new_row projects_schema vals (next_id (projects s))"
    and t': "t' = \<lparr>rows = rows (projects s) @ [r], next_id = next_id (projects s) + 1\<rparr>"
    by blast
  have "map_of projects_schema ''created_date'' = None"
    by (simp add: projects_schema_def)
  with r have "field r ''created_date'' = JUndefined"
    by (simp add: field_def map_of_new_row)
  with s' t' show "rows (projects (snd (post_projects e body s))) = rows (projects s) @ [r] \<and>
     field r ''created_date'' = JUndefined"
    by simp
qed

lemma post_history_stamps:
  "fst (post_career_goals_id_history e now pid body s) = Response 200 (JObj r) \<longrightarrow>
     rows (career_stage_history (snd (post_career_goals_id_history e now pid body s))) =
       rows (career_stage_history s) @ [r] \<and>
     col ''updated_date'' r = JStr now \<and> field r ''created_date'' = JUndefined"
proof
  assume a: "fst (post_career_goals_id_history e now pid body s) = Response 200 (JObj r)"
  then obtain t' where
    ins: "exec_insert e career_stage_history_schema []
            [(''goal_id'', map (col ''id'') (rows (career_goals s)))]
            [(''goal_id'', JStr pid), (''stage'', field body ''stage''),
             (''description'', field body ''description''), (''updated_date'', JStr now)]
            (career_stage_history s) = (Inr r, t')"
    and s': "snd (post_career_goals_id_history e now pid body s) =
               s\<lparr>career_stage_history := t'\<rparr>"
    by (auto simp: post_career_goals_id_history_def Let_def err_def
        split: prod.splits sum.splits)
  from exec_insert_accepted [OF ins] obtain vals where
    r: "r = new_row career_stage_history_schema vals (next_id (career_stage_history s))"
    and t': "t' = \<lparr>rows = rows (career_stage_history s) @ [r],
                   next_id = next_id (career_stage_history s) + 1\<rparr>"
    by blast
  have "col ''updated_date'' r = text_param e (JStr now)"
    by (rule inserted_text [OF ins, THEN conjunct1])
       (simp_all add: career_stage_history_schema_def)
  moreover have "map_of career_stage_history_schema ''created_date'' = None"
    by (simp add: career_stage_history_schema_def)
  with r have "field r ''created_date'' = JUndefined"
    by (simp add: field_def map_of_new_row)
  ultimately show "rows (career_stage_history (snd (post_career_goals_id_history e now pid body s))) =
       rows (career_stage_history s) @ [r] \<and>
     col ''updated_date'' r = JStr now \<and> field r ''created_date'' = JUndefined"
    using s' t' by (simp add: text_param_def)
qed

lemma post_idea_eval:
  "fst (post_ideas env0 ''2026-11-03T09:00:00.000Z'' body_idea db_a) =
     Response 200 (JObj (idea_row ''2026-11-03T09:00:00.000Z''))"
  "fst (post_ideas env0 ''2026-11-03T09:00:00.000Z'' body_idea_dated db_a) =
     Response 200 (JObj (idea_row ''2020-01-01T00:00:00.000Z''))"
  by code_simp+

text \<open>
  C8, as the code has it. The create handlers of Idea, Note, CareerGoal, FutureWork,
  Deadline and the legacy \<open>POST /calendar_events\<close> store \<open>created_date || now\<close>: an
  accepted request appends one row whose \<open>created_date\<close> is the server's timestamp when
  the request has none or a falsy one (absent, null, the empty string, 0 or false), the
  supplied string, verbatim, when it is a non-empty string, and the text the driver
  sends for it when it is any other value (a non-zero number, true, a list, an object).
  A request of a registered user is accepted when the server accepts every parameter
  of the statement (no text holds U+0000 and every INTEGER column is given an integer);
  a request with a parameter the server refuses is answered 500 and stores nothing.
  \<open>POST /events\<close> and the insert of \<open>POST /profile\<close> always store the server's
  timestamp, whatever the request carries. A project row has no \<open>created_date\<close>, and a
  stage-history row has none either: it carries the server's timestamp in
  \<open>updated_date\<close>.
\<close>

theorem created_date_stamping:
  "(fst (post_ideas e now body s) = Response 200 (JObj r) \<longrightarrow>
      rows (ideas (snd (post_ideas e now body s))) = rows (ideas s) @ [r] \<and>
      col ''created_date'' r = text_param e (js_or (field body ''created_date'') (JStr now)))
   \<and> (fst (post_notes e now body s) = Response 200 (JObj r) \<longrightarrow>
      rows (notes_table (snd (post_notes e now body s))) = rows (notes_table s) @ [r] \<and>
      col ''created_date'' r = text_param e (js_or (field body ''created_date'') (JStr now)))
   \<and> (fst (post_career_goals e now body s) = Response 200 (JObj r) \<longrightarrow>
      rows (career_goals (snd (post_career_goals e now body s))) = rows (career_goals s) @ [r] \<and>
      col ''created_date'' r = text_param e (js_or (field body ''created_date'') (JStr now)))
   \<and> (fst (post_future_work e now body s) = Response 200 (JObj r) \<longrightarrow>
      rows (future_work (snd (post_future_work e now body s))) = rows (future_work s) @ [r] \<and>
      col ''created_date'' r = text_param e (js_or (field body ''created_date'') (JStr now)))
   \<and> (fst (post_deadlines e now body s) = Response 200 (JObj r) \<longrightarrow>
      rows (deadlines (snd (post_deadlines e now body s))) = rows (deadlines s) @ [r] \<and>
      col ''created_date'' r = text_param e (js_or (field body ''created_date'') (JStr now)))
   \<and> (fst (post_calendar_events e now body s) = Response 200 (JObj r) \<longrightarrow>
      rows (calendar_events (snd (post_calendar_events e now body s))) =
        rows (calendar_events s) @ [r] \<and>
      col ''created_date'' r = text_param e (js_or (field body ''created_date'') (JStr now)))
   \<and> (\<not> truthy v \<longrightarrow> text_param e (js_or v (JStr now)) = JStr now)
   \<and> (\<not> truthy JUndefined \<and> \<not> truthy JNull \<and> \<not> truthy (JStr []) \<and> \<not> truthy (JNum 0) \<and>
      \<not> truthy (JBool False))
   \<and> (d \<noteq> [] \<longrightarrow> text_param e (js_or (JStr d) (JStr now)) = JStr d)
   \<and> (truthy v \<and> (\<forall>d. v \<noteq> JStr d) \<longrightarrow>
        text_param e (js_or v (JStr now)) = JStr (pg_string e v))
   \<and> (field body ''user_email'' = JStr u \<and> JStr u \<in> set (user_emails s) \<and>
      binds e ideas_schema
        (post_ideas_params (js_or (field body ''created_date'') (JStr now)) body) \<longrightarrow>
      (\<exists>r. fst (post_ideas e now body s) = Response 200 (JObj r)))
   \<and> (field body ''user_email'' = JStr u \<and> JStr u \<in> set (user_emails s) \<and>
      binds e notes_schema
        (post_notes_params (js_or (field body ''created_date'') (JStr now)) body) \<longrightarrow>
      (\<exists>r. fst (post_notes e now body s) = Response 200 (JObj r)))
   \<and> (field body ''user_email'' = JStr u \<and> JStr u \<in> set (user_emails s) \<and>
      binds e career_goals_schema
        (post_career_goals_params (js_or (field body ''created_date'') (JStr now)) body) \<longrightarrow>
      (\<exists>r. fst (post_career_goals e now body s) = Response 200 (JObj r)))
   \<and> (field body ''user_email'' = JStr u \<and> JStr u \<in> set (user_emails s) \<and>
      binds e future_work_schema
        (post_future_work_params (js_or (field body ''created_date'') (JStr now)) body) \<longrightarrow>
      (\<exists>r. fst (post_future_work e now body s) = Response 200 (JObj r)))
   \<and> (field body ''user_email'' = JStr u \<and> JStr u \<in> set (user_emails s) \<and>
      binds e deadlines_schema
        (post_deadlines_params (js_or (field body ''created_date'') (JStr now)) body) \<longrightarrow>
      (\<exists>r. fst (post_deadlines e now body s) = Response 200 (JObj r)))
   \<and> (field body ''user_email'' = JStr u \<and> JStr u \<in> set (user_emails s) \<and>
      binds e calendar_events_schema
        (post_calendar_events_params (js_or (field body ''created_date'') (JStr now)) body) \<longrightarrow>
      (\<exists>r. fst (post_calendar_events e now body s) = Response 200 (JObj r)))
   \<and> (\<not> binds e ideas_schema
          (post_ideas_params (js_or (field body ''created_date'') (JStr now)) body) \<longrightarrow>
      post_ideas e now body s =
        (Response 500 (JObj [(''error'', JStr ''Error creating idea.'')]), s))
   \<and> (\<not> binds e notes_schema
          (post_notes_params (js_or (field body ''created_date'') (JStr now)) body) \<longrightarrow>
      post_notes e now body s =
        (Response 500 (JObj [(''error'', JStr ''Error creating note.'')]), s))
   \<and> (\<not> binds e career_goals_schema
          (post_career_goals_params (js_or (field body ''created_date'') (JStr now)) body) \<longrightarrow>
      post_career_goals e now body s =
        (Response 500 (JObj [(''error'', JStr ''Error creating career goal.'')]), s))
   \<and> (\<not> binds e future_work_schema
          (post_future_work_params (js_or (field body ''created_date'') (JStr now)) body) \<longrightarrow>
      post_future_work e now body s =
        (Response 500 (JObj [(''error'', JStr ''Error creating future work.'')]), s))
   \<and> (\<not> binds e deadlines_schema
          (post_deadlines_params (js_or (field body ''created_date'') (JStr now)) body) \<longrightarrow>
      post_deadlines e now body s =
        (Response 500 (JObj [(''error'', JStr ''Error creating deadline.'')]), s))
   \<and> (\<not> binds e calendar_events_schema
          (post_calendar_events_params (js_or (field body ''created_date'') (JStr now)) body) \<longrightarrow>
      post_calendar_events e now body s =
        (Response 500 (JObj [(''error'', JStr ''Error creating event.'')]), s))
   \<and> (fst (post_events e now body s) = Response 200 (JObj r) \<longrightarrow>
       rows (calendar_events (snd (post_events e now body s))) =
         rows (calendar_events s) @ [r] \<and>
       col ''created_date'' r = JStr now)
   \<and> (field body ''userEmail'' = JStr u \<and> u \<noteq> [] \<and> \<not> has_nul u \<and> profiles_of s u = [] \<and>
       list_all (\<lambda>cv. sendable e (snd cv))
         (profile_insert_params e (JStr now2) (JStr now) body) \<and>
       JStr u \<in> set (user_emails s) \<longrightarrow>
       (\<exists>r. rows (profiles (snd (post_profile e now now2 body s))) =
               rows (profiles s) @ [r] \<and>
            col ''created_date'' r = JStr now2 \<and> col ''modified_date'' r = JStr now))
   \<and> (fst (post_projects e body s) = Response 200 (JObj r) \<longrightarrow>
       rows (projects (snd (post_projects e body s))) = rows (projects s) @ [r] \<and>
       field r ''created_date'' = JUndefined)
   \<and> (fst (post_career_goals_id_history e now pid body s) = Response 200 (JObj r) \<longrightarrow>
       rows (career_stage_history (snd (post_career_goals_id_history e now pid body s))) =
         rows (career_stage_history s) @ [r] \<and>
       col ''updated_date'' r = JStr now \<and> field r ''created_date'' = JUndefined)"
  by (intro conjI post_ideas_stored_imp post_notes_stored_imp post_career_goals_stored_imp
      post_future_work_stored_imp post_deadlines_stored_imp post_calendar_events_stored_imp
      stamp_falsy falsy_values [THEN conjunct1]
      falsy_values [THEN conjunct2, THEN conjunct1]
      falsy_values [THEN conjunct2, THEN conjunct2, THEN conjunct1]
      falsy_values [THEN conjunct2, THEN conjunct2, THEN conjunct2, THEN conjunct1]
      falsy_values [THEN conjunct2, THEN conjunct2, THEN conjunct2, THEN conjunct2]
      keep_string keep_other
      post_ideas_accepts_imp post_notes_accepts_imp post_career_goals_accepts_imp
      post_future_work_accepts_imp post_deadlines_accepts_imp post_calendar_events_accepts_imp
      post_ideas_refused_imp post_notes_refused_imp post_career_goals_refused_imp
      post_future_work_refused_imp post_deadlines_refused_imp post_calendar_events_refused_imp
      post_events_stamps post_profile_stamps post_projects_no_date post_history_stamps)

text \<open>
  An idea sent without \<open>created_date\<close> is stored with the time of the call; sent with
  one, it is stored with the date supplied.
\<close>

theorem created_date_stamping_witness:
  "fst (post_ideas env0 ''2026-11-03T09:00:00.000Z'' body_idea db_a) =
     Response 200 (JObj (idea_row ''2026-11-03T09:00:00.000Z''))
   \<and> field body_idea ''created_date'' = JUndefined
   \<and> col ''created_date'' (idea_row ''2026-11-03T09:00:00.000Z'') =
       text_param env0 (js_or (field body_idea ''created_date'') (JStr ''2026-11-03T09:00:00.000Z''))
   \<and> fst (post_ideas env0 ''2026-11-03T09:00:00.000Z'' body_idea_dated db_a) =
       Response 200 (JObj (idea_row ''2020-01-01T00:00:00.000Z''))
   \<and> col ''created_date'' (idea_row ''2020-01-01T00:00:00.000Z'') =
       text_param env0
         (js_or (field body_idea_dated ''created_date'') (JStr ''2026-11-03T09:00:00.000Z''))
   \<and> text_param env0
         (js_or (field body_idea_dated ''created_date'') (JStr ''2026-11-03T09:00:00.000Z'')) =
       JStr ''2020-01-01T00:00:00.000Z''"
proof -
  have f: "field body_idea ''created_date'' = JUndefined"
    "field body_idea_dated ''created_date'' = JStr ''2020-01-01T00:00:00.000Z''"
    by (simp_all add: body_idea_def body_idea_dated_def field_def)
  note t1 = created_date_stamping [where e = env0 and now = "''2026-11-03T09:00:00.000Z''"
      and body = body_idea and s = db_a and r = "idea_row ''2026-11-03T09:00:00.000Z''"
      and v = JNull and d = "''x''" and u = "''a@x.com''" and ?now2.0 = "''t''"
      and pid = "''1''"]
  note t2 = created_date_stamping [where e = env0 and now = "''2026-11-03T09:00:00.000Z''"
      and body = body_idea_dated and s = db_a and r = "idea_row ''2020-01-01T00:00:00.000Z''"
      and d = "''2020-01-01T00:00:00.000Z''" and v = JNull and u = "''a@x.com''"
      and ?now2.0 = "''t''" and pid = "''1''"]
  from t1 [THEN conjunct1] post_idea_eval(1)
  have a: "col ''created_date'' (idea_row ''2026-11-03T09:00:00.000Z'') =
       text_param env0 (js_or (field body_idea ''created_date'') (JStr ''2026-11-03T09:00:00.000Z''))"
    by simp
  from t2 [THEN conjunct1] post_idea_eval(2)
  have b: "col ''created_date'' (idea_row ''2020-01-01T00:00:00.000Z'') =
       text_param env0
         (js_or (field body_idea_dated ''created_date'') (JStr ''2026-11-03T09:00:00.000Z''))"
    by simp
  have c: "text_param env0
         (js_or (field body_idea_dated ''created_date'') (JStr ''2026-11-03T09:00:00.000Z'')) =
       JStr ''2020-01-01T00:00:00.000Z''"
    by (simp add: f js_or_def text_param_def)
  from a b c f(1) post_idea_eval show ?thesis
    by simp
qed

text \<open>
  C8 as stated fails on \<open>POST /events\<close>: the event sent with a \<open>created_date\<close> of 2020
  is stored with the time of the call.
\<close>

theorem post_events_ignores_created_date:
  "fst (post_events env0 ''2026-11-03T09:00:00.000Z'' body_event db_a) =
     Response 200 (JObj event_row)
   \<and> field body_event ''created_date'' = JStr ''2020-01-01T00:00:00.000Z''
   \<and> col ''created_date'' event_row = JStr ''2026-11-03T09:00:00.000Z''"
proof -
  have "fst (post_events env0 ''2026-11-03T09:00:00.000Z'' body_event db_a) =
     Response 200 (JObj event_row)"
    by (simp add: post_event_eval)
  moreover have "field body_event ''created_date'' = JStr ''2020-01-01T00:00:00.000Z''"
    by (simp add: body_event_def field_def)
  moreover have "col ''created_date'' event_row = JStr ''2026-11-03T09:00:00.000Z''"
    by (simp add: event_row_def col_def)
  ultimately show ?thesis
    by simp
qed

subsection \<open>Listing by owner\<close>

text \<open>What each list handler sends: the rows matching the owner key, in the order of its query.\<close>

lemma total_orders:
  "total_preorder (desc ''created_date'')" "total_preorder (asc ''due_date'')"
  "total_preorder (asc ''event_date'')"
  "total_preorder (then_by (asc ''event_date'') (asc ''start_time''))"
  "total_preorder (then_by (asc ''stage'') (desc ''updated_date''))"
  by (intro total_asc total_desc total_then_by)+

lemma get_projects_email_run:
  "get_projects_email e email s =
     (if has_nul email then Response 500 (JObj [(''error'', JStr ''Error fetching projects.'')])
      else Response 200 (JArr (map JObj (filter (\<lambda>r. col ''owner_email'' r = JStr email) (rows (projects s))))))"
  by (simp add: get_projects_email_def exec_select_text ctype_def projects_schema_def err_def)

lemma get_projects_email_lists:
  "\<not> has_nul email \<longrightarrow>
      (\<exists>rs. get_projects_email e email s = Response 200 (JArr (map JObj rs)) \<and>
         mset rs = mset (filter (\<lambda>r. col ''owner_email'' r = JStr email) (rows (projects s))))"
proof
  assume "\<not> has_nul email"
  then have run: "get_projects_email e email s = Response 200 (JArr (map JObj (filter (\<lambda>r. col ''owner_email'' r = JStr email) (rows (projects s)))))"
    by (simp add: get_projects_email_run)
  show "\<exists>rs. get_projects_email e email s = Response 200 (JArr (map JObj rs)) \<and>
         mset rs = mset (filter (\<lambda>r. col ''owner_email'' r = JStr email) (rows (projects s)))"
    by (rule exI [where x = "filter (\<lambda>r. col ''owner_email'' r = JStr email) (rows (projects s))"]) (intro conjI run refl)
qed

lemma get_projects_email_none:
  "\<not> has_nul email \<and> filter (\<lambda>r. col ''owner_email'' r = JStr email) (rows (projects s)) = [] \<longrightarrow>
      get_projects_email e email s = Response 200 (JArr [])"
  by (simp add: get_projects_email_run order_by_def)

lemma get_projects_email_refused:
  "has_nul email \<longrightarrow>
      get_projects_email e email s = Response 500 (JObj [(''error'', JStr ''Error fetching projects.'')])"
  by (simp add: get_projects_email_run)

lemma get_meetings_email_run:
  "get_meetings_email e email s =
     (if has_nul email then Response 500 (JObj [(''error'', JStr ''Error fetching meetings.'')])
      else Response 200 (JArr (map JObj (filter (\<lambda>r. col ''colleague_email'' r = JStr email) (rows (meetings s))))))"
  by (simp add: get_meetings_email_def exec_select_text ctype_def meetings_schema_def err_def)

lemma get_meetings_email_lists:
  "\<not> has_nul email \<longrightarrow>
      (\<exists>rs. get_meetings_email e email s = Response 200 (JArr (map JObj rs)) \<and>
         mset rs = mset (filter (\<lambda>r. col ''colleague_email'' r = JStr email) (rows (meetings s))))"
proof
  assume "\<not> has_nul email"
  then have run: "get_meetings_email e email s = Response 200 (JArr (map JObj (filter (\<lambda>r. col ''colleague_email'' r = JStr email) (rows (meetings s)))))"
    by (simp add: get_meetings_email_run)
  show "\<exists>rs. get_meetings_email e email s = Response 200 (JArr (map JObj rs)) \<and>
         mset rs = mset (filter (\<lambda>r. col ''colleague_email'' r = JStr email) (rows (meetings s)))"
    by (rule exI [where x = "filter (\<lambda>r. col ''colleague_email'' r = JStr email) (rows (meetings s))"]) (intro conjI run refl)
qed

lemma get_meetings_email_none:
  "\<not> has_nul email \<and> filter (\<lambda>r. col ''colleague_email'' r = JStr email) (rows (meetings s)) = [] \<longrightarrow>
      get_meetings_email e email s = Response 200 (JArr [])"
  by (simp add: get_meetings_email_run order_by_def)

lemma get_meetings_email_refused:
  "has_nul email \<longrightarrow>
      get_meetings_email e email s = Response 500 (JObj [(''error'', JStr ''Error fetching meetings.'')])"
  by (simp add: get_meetings_email_run)

lemma get_ideas_email_run:
  "get_ideas_email e email s =
     (if has_nul email then Response 500 (JObj [(''error'', JStr ''Error fetching ideas.'')])
      else Response 200 (JArr (map JObj (order_by (desc ''created_date'') (filter (\<lambda>r. col ''user_email'' r = JStr email) (rows (ideas s)))))))"
  by (simp add: get_ideas_email_def exec_select_text ctype_def ideas_schema_def err_def)

lemma get_ideas_email_lists:
  "\<not> has_nul email \<longrightarrow>
      (\<exists>rs. get_ideas_email e email s = Response 200 (JArr (map JObj rs)) \<and>
         mset rs = mset (filter (\<lambda>r. col ''user_email'' r = JStr email) (rows (ideas s))) \<and>
         sorted_wrt (desc ''created_date'') rs)"
proof
  assume "\<not> has_nul email"
  then have run: "get_ideas_email e email s =
      Response 200 (JArr (map JObj (order_by (desc ''created_date'') (filter (\<lambda>r. col ''user_email'' r = JStr email) (rows (ideas s))))))"
    by (simp add: get_ideas_email_run)
  show "\<exists>rs. get_ideas_email e email s = Response 200 (JArr (map JObj rs)) \<and>
         mset rs = mset (filter (\<lambda>r. col ''user_email'' r = JStr email) (rows (ideas s))) \<and>
         sorted_wrt (desc ''created_date'') rs"
    by (rule exI [where x = "order_by (desc ''created_date'') (filter (\<lambda>r. col ''user_email'' r = JStr email) (rows (ideas s)))"])
       (intro conjI run mset_order_by sorted_order_by total_orders)
qed

lemma get_ideas_email_none:
  "\<not> has_nul email \<and> filter (\<lambda>r. col ''user_email'' r = JStr email) (rows (ideas s)) = [] \<longrightarrow>
      get_ideas_email e email s = Response 200 (JArr [])"
  by (simp add: get_ideas_email_run order_by_def)

lemma get_ideas_email_refused:
  "has_nul email \<longrightarrow>
      get_ideas_email e email s = Response 500 (JObj [(''error'', JStr ''Error fetching ideas.'')])"
  by (simp add: get_ideas_email_run)

lemma get_notes_email_run:
  "get_notes_email e email s =
     (if has_nul email then Response 500 (JObj [(''error'', JStr ''Error fetching notes.'')])
      else Response 200 (JArr (map JObj (order_by (desc ''created_date'') (filter (\<lambda>r. col ''user_email'' r = JStr email) (rows (notes_table s)))))))"
  by (simp add: get_notes_email_def exec_select_text ctype_def notes_schema_def err_def)

lemma get_notes_email_lists:
  "\<not> has_nul email \<longrightarrow>
      (\<exists>rs. get_notes_email e email s = Response 200 (JArr (map JObj rs)) \<and>
         mset rs = mset (filter (\<lambda>r. col ''user_email'' r = JStr email) (rows (notes_table s))) \<and>
         sorted_wrt (desc ''created_date'') rs)"
proof
  assume "\<not> has_nul email"
  then have run: "get_notes_email e email s =
      Response 200 (JArr (map JObj (order_by (desc ''created_date'') (filter (\<lambda>r. col ''user_email'' r = JStr email) (rows (notes_table s))))))"
    by (simp add: get_notes_email_run)
  show "\<exists>rs. get_notes_email e email s = Response 200 (JArr (map JObj rs)) \<and>
         mset rs = mset (filter (\<lambda>r. col ''user_email'' r = JStr email) (rows (notes_table s))) \<and>
         sorted_wrt (desc ''created_date'') rs"
    by (rule exI [where x = "order_by (desc ''created_date'') (filter (\<lambda>r. col ''user_email'' r = JStr email) (rows (notes_table s)))"])
       (intro conjI run mset_order_by sorted_order_by total_orders)
qed

lemma get_notes_email_none:
  "\<not> has_nul email \<and> filter (\<lambda>r. col ''user_email'' r = JStr email) (rows (notes_table s)) = [] \<longrightarrow>
      get_notes_email e email s = Response 200 (JArr [])"
  by (simp add: get_notes_email_run order_by_def)

lemma get_notes_email_refused:
  "has_nul email \<longrightarrow>
      get_notes_email e email s = Response 500 (JObj [(''error'', JStr ''Error fetching notes.'')])"
  by (simp add: get_notes_email_run)

lemma get_career_goals_email_run:
  "get_career_goals_email e email s =
     (if has_nul email then Response 500 (JObj [(''error'', JStr ''Error fetching career goals.'')])
      else Response 200 (JArr (map JObj (order_by (desc ''created_date'') (filter (\<lambda>r. col ''user_email'' r = JStr email) (rows (career_goals s)))))))"
  by (simp add: get_career_goals_email_def exec_select_text ctype_def career_goals_schema_def err_def)

lemma get_career_goals_email_lists:
  "\<not> has_nul email \<longrightarrow>
      (\<exists>rs. get_career_goals_email e email s = Response 200 (JArr (map JObj rs)) \<and>
         mset rs = mset (filter (\<lambda>r. col ''user_email'' r = JStr email) (rows (career_goals s))) \<and>
         sorted_wrt (desc ''created_date'') rs)"
proof
  assume "\<not> has_nul email"
  then have run: "get_career_goals_email e email s =
      Response 200 (JArr (map JObj (order_by (desc ''created_date'') (filter (\<lambda>r. col ''user_email'' r = JStr email) (rows (career_goals s))))))"
    by (simp add: get_career_goals_email_run)
  show "\<exists>rs. get_career_goals_email e email s = Response 200 (JArr (map JObj rs)) \<and>
         mset rs = mset (filter (\<lambda>r. col ''user_email'' r = JStr email) (rows (career_goals s))) \<and>
         sorted_wrt (desc ''created_date'') rs"
    by (rule exI [where x = "order_by (desc ''created_date'') (filter (\<lambda>r. col ''user_email'' r = JStr email) (rows (career_goals s)))"])
       (intro conjI run mset_order_by sorted_order_by total_orders)
qed

lemma get_career_goals_email_none:
  "\<not> has_nul email \<and> filter (\<lambda>r. col ''user_email'' r = JStr email) (rows (career_goals s)) = [] \<longrightarrow>
      get_career_goals_email e email s = Response 200 (JArr [])"
  by (simp add: get_career_goals_email_run order_by_def)

lemma get_career_goals_email_refused:
  "has_nul email \<longrightarrow>
      get_career_goals_email e email s = Response 500 (JObj [(''error'', JStr ''Error fetching career goals.'')])"
  by (simp add: get_career_goals_email_run)

lemma get_career_email_run:
  "get_career_email e email s =
     (if has_nul email then Response 500 (JObj [(''error'', JStr ''Error fetching career goals.'')])
      else Response 200 (JArr (map JObj (order_by (desc ''created_date'') (filter (\<lambda>r. col ''user_email'' r = JStr email) (rows (career_goals s)))))))"
  by (simp add: get_career_email_def exec_select_text ctype_def career_goals_schema_def err_def)

lemma get_career_email_lists:
  "\<not> has_nul email \<longrightarrow>
      (\<exists>rs. get_career_email e email s = Response 200 (JArr (map JObj rs)) \<and>
         mset rs = mset (filter (\<lambda>r. col ''user_email'' r = JStr email) (rows (career_goals s))) \<and>
         sorted_wrt (desc ''created_date'') rs)"
proof
  assume "\<not> has_nul email"
  then have run: "get_career_email e email s =
      Response 200 (JArr (map JObj (order_by (desc ''created_date'') (filter (\<lambda>r. col ''user_email'' r = JStr email) (rows (career_goals s))))))"
    by (simp add: get_career_email_run)
  show "\<exists>rs. get_career_email e email s = Response 200 (JArr (map JObj rs)) \<and>
         mset rs = mset (filter (\<lambda>r. col ''user_email'' r = JStr email) (rows (career_goals s))) \<and>
         sorted_wrt (desc ''created_date'') rs"
    by (rule exI [where x = "order_by (desc ''created_date'') (filter (\<lambda>r. col ''user_email'' r = JStr email) (rows (career_goals s)))"])
       (intro conjI run mset_order_by sorted_order_by total_orders)
qed

lemma get_career_email_none:
  "\<not> has_nul email \<and> filter (\<lambda>r. col ''user_email'' r = JStr email) (rows (career_goals s)) = [] \<longrightarrow>
      get_career_email e email s = Response 200 (JArr [])"
  by (simp add: get_career_email_run order_by_def)

lemma get_career_email_refused:
  "has_nul email \<longrightarrow>
      get_career_email e email s = Response 500 (JObj [(''error'', JStr ''Error fetching career goals.'')])"
  by (simp add: get_career_email_run)

lemma get_future_work_email_run:
  "get_future_work_email e email s =
     (if has_nul email then Response 500 (JObj [(''error'', JStr ''Error fetching future work.'')])
      else Response 200 (JArr (map JObj (order_by (desc ''created_date'') (filter (\<lambda>r. col ''user_email'' r = JStr email) (rows (future_work s)))))))"
  by (simp add: get_future_work_email_def exec_select_text ctype_def future_work_schema_def err_def)

lemma get_future_work_email_lists:
  "\<not> has_nul email \<longrightarrow>
      (\<exists>rs. get_future_work_email e email s = Response 200 (JArr (map JObj rs)) \<and>
         mset rs = mset (filter (\<lambda>r. col ''user_email'' r = JStr email) (rows (future_work s))) \<and>
         sorted_wrt (desc ''created_date'') rs)"
proof
  assume "\<not> has_nul email"
  then have run: "get_future_work_email e email s =
      Response 200 (JArr (map JObj (order_by (desc ''created_date'') (filter (\<lambda>r. col ''user_email'' r = JStr email) (rows (future_work s))))))"
    by (simp add: get_future_work_email_run)
  show "\<exists>rs. get_future_work_email e email s = Response 200 (JArr (map JObj rs)) \<and>
         mset rs = mset (filter (\<lambda>r. col ''user_email'' r = JStr email) (rows (future_work s))) \<and>
         sorted_wrt (desc ''created_date'') rs"
    by (rule exI [where x = "order_by (desc ''created_date'') (filter (\<lambda>r. col ''user_email'' r = JStr email) (rows (future_work s)))"])
       (intro conjI run mset_order_by sorted_order_by total_orders)
qed

lemma get_future_work_email_none:
  "\<not> has_nul email \<and> filter (\<lambda>r. col ''user_email'' r = JStr email) (rows (future_work s)) = [] \<longrightarrow>
      get_future_work_email e email s = Response 200 (JArr [])"
  by (simp add: get_future_work_email_run order_by_def)

lemma get_future_work_email_refused:
  "has_nul email \<longrightarrow>
      get_future_work_email e email s = Response 500 (JObj [(''error'', JStr ''Error fetching future work.'')])"
  by (simp add: get_future_work_email_run)

lemma get_future_email_run:
  "get_future_email e email s =
     (if has_nul email then Response 500 (JObj [(''error'', JStr ''Error fetching future work.'')])
      else Response 200 (JArr (map JObj (order_by (desc ''created_date'') (filter (\<lambda>r. col ''user_email'' r = JStr email) (rows (future_work s)))))))"
  by (simp add: get_future_email_def exec_select_text ctype_def future_work_schema_def err_def)

lemma get_future_email_lists:
  "\<not> has_nul email \<longrightarrow>
      (\<exists>rs. get_future_email e email s = Response 200 (JArr (map JObj rs)) \<and>
         mset rs = mset (filter (\<lambda>r. col ''user_email'' r = JStr email) (rows (future_work s))) \<and>
         sorted_wrt (desc ''created_date'') rs)"
proof
  assume "\<not> has_nul email"
  then have run: "get_future_email e email s =
      Response 200 (JArr (map JObj (order_by (desc ''created_date'') (filter (\<lambda>r. col ''user_email'' r = JStr email) (rows (future_work s))))))"
    by (simp add: get_future_email_run)
  show "\<exists>rs. get_future_email e email s = Response 200 (JArr (map JObj rs)) \<and>
         mset rs = mset (filter (\<lambda>r. col ''user_email'' r = JStr email) (rows (future_work s))) \<and>
         sorted_wrt (desc ''created_date'') rs"
    by (rule exI [where x = "order_by (desc ''created_date'') (filter (\<lambda>r. col ''user_email'' r = JStr email) (rows (future_work s)))"])
       (intro conjI run mset_order_by sorted_order_by total_orders)
qed

lemma get_future_email_none:
  "\<not> has_nul email \<and> filter (\<lambda>r. col ''user_email'' r = JStr email) (rows (future_work s)) = [] \<longrightarrow>
      get_future_email e email s = Response 200 (JArr [])"
  by (simp add: get_future_email_run order_by_def)

lemma get_future_email_refused:
  "has_nul email \<longrightarrow>
      get_future_email e email s = Response 500 (JObj [(''error'', JStr ''Error fetching future work.'')])"
  by (simp add: get_future_email_run)

lemma get_deadlines_email_run:
  "get_deadlines_email e email s =
     (if has_nul email then Response 500 (JObj [(''error'', JStr ''Error fetching deadlines.'')])
      else Response 200 (JArr (map JObj (order_by (asc ''due_date'') (filter (\<lambda>r. col ''user_email'' r = JStr email) (rows (deadlines s)))))))"
  by (simp add: get_deadlines_email_def exec_select_text ctype_def deadlines_schema_def err_def)

lemma get_deadlines_email_lists:
  "\<not> has_nul email \<longrightarrow>
      (\<exists>rs. get_deadlines_email e email s = Response 200 (JArr (map JObj rs)) \<and>
         mset rs = mset (filter (\<lambda>r. col ''user_email'' r = JStr email) (rows (deadlines s))) \<and>
         sorted_wrt (asc ''due_date'') rs)"
proof
  assume "\<not> has_nul email"
  then have run: "get_deadlines_email e email s =
      Response 200 (JArr (map JObj (order_by (asc ''due_date'') (filter (\<lambda>r. col ''user_email'' r = JStr email) (rows (deadlines s))))))"
    by (simp add: get_deadlines_email_run)
  show "\<exists>rs. get_deadlines_email e email s = Response 200 (JArr (map JObj rs)) \<and>
         mset rs = mset (filter (\<lambda>r. col ''user_email'' r = JStr email) (rows (deadlines s))) \<and>
         sorted_wrt (asc ''due_date'') rs"
    by (rule exI [where x = "order_by (asc ''due_date'') (filter (\<lambda>r. col ''user_email'' r = JStr email) (rows (deadlines s)))"])
       (intro conjI run mset_order_by sorted_order_by total_orders)
qed

lemma get_deadlines_email_none:
  "\<not> has_nul email \<and> filter (\<lambda>r. col ''user_email'' r = JStr email) (rows (deadlines s)) = [] \<longrightarrow>
      get_deadlines_email e email s = Response 200 (JArr [])"
  by (simp add: get_deadlines_email_run order_by_def)

lemma get_deadlines_email_refused:
  "has_nul email \<longrightarrow>
      get_deadlines_email e email s = Response 500 (JObj [(''error'', JStr ''Error fetching deadlines.'')])"
  by (simp add: get_deadlines_email_run)

lemma get_calendar_events_email_lists:
  "\<not> has_nul email \<longrightarrow>
      (\<exists>rs. get_calendar_events_email e email s = Response 200 (JArr (map JObj rs)) \<and>
         mset rs = mset (filter (\<lambda>r. col ''user_email'' r = JStr email) (rows (calendar_events s))) \<and>
         sorted_wrt (asc ''event_date'') rs)"
proof
  assume "\<not> has_nul email"
  then have run: "get_calendar_events_email e email s =
      Response 200 (JArr (map JObj (order_by (asc ''event_date'') (filter (\<lambda>r. col ''user_email'' r = JStr email) (rows (calendar_events s))))))"
    by (simp add: get_calendar_events_run)
  show "\<exists>rs. get_calendar_events_email e email s = Response 200 (JArr (map JObj rs)) \<and>
         mset rs = mset (filter (\<lambda>r. col ''user_email'' r = JStr email) (rows (calendar_events s))) \<and>
         sorted_wrt (asc ''event_date'') rs"
    by (rule exI [where x = "order_by (asc ''event_date'') (filter (\<lambda>r. col ''user_email'' r = JStr email) (rows (calendar_events s)))"])
       (intro conjI run mset_order_by sorted_order_by total_orders)
qed

lemma get_calendar_events_email_none:
  "\<not> has_nul email \<and> filter (\<lambda>r. col ''user_email'' r = JStr email) (rows (calendar_events s)) = [] \<longrightarrow>
      get_calendar_events_email e email s = Response 200 (JArr [])"
  by (simp add: get_calendar_events_run order_by_def)

lemma get_calendar_events_email_refused:
  "has_nul email \<longrightarrow>
      get_calendar_events_email e email s = Response 500 (JObj [(''error'', JStr ''Error fetching events.'')])"
  by (simp add: get_calendar_events_run)

lemma get_events_email_lists:
  "\<not> has_nul email \<longrightarrow>
      (\<exists>rs. get_events_email e email s = Response 200 (JArr (map event_of rs)) \<and>
         mset rs = mset (filter (\<lambda>r. col ''user_email'' r = JStr email) (rows (calendar_events s))) \<and>
         sorted_wrt (then_by (asc ''event_date'') (asc ''start_time'')) rs)"
proof
  assume "\<not> has_nul email"
  then have run: "get_events_email e email s =
      Response 200 (JArr (map event_of (order_by (then_by (asc ''event_date'') (asc ''start_time'')) (filter (\<lambda>r. col ''user_email'' r = JStr email) (rows (calendar_events s))))))"
    by (simp add: get_events_run)
  show "\<exists>rs. get_events_email e email s = Response 200 (JArr (map event_of rs)) \<and>
         mset rs = mset (filter (\<lambda>r. col ''user_email'' r = JStr email) (rows (calendar_events s))) \<and>
         sorted_wrt (then_by (asc ''event_date'') (asc ''start_time'')) rs"
    by (rule exI [where x = "order_by (then_by (asc ''event_date'') (asc ''start_time'')) (filter (\<lambda>r. col ''user_email'' r = JStr email) (rows (calendar_events s)))"])
       (intro conjI run mset_order_by sorted_order_by total_orders)
qed

lemma get_events_email_none:
  "\<not> has_nul email \<and> filter (\<lambda>r. col ''user_email'' r = JStr email) (rows (calendar_events s)) = [] \<longrightarrow>
      get_events_email e email s = Response 200 (JArr [])"
  by (simp add: get_events_run order_by_def)

lemma get_events_email_refused:
  "has_nul email \<longrightarrow>
      get_events_email e email s = Response 500 (JObj [(''error'', JStr ''Error fetching events.'')])"
  by (simp add: get_events_run)

lemma get_history_run:
  "int4_in e pid = Some g \<Longrightarrow>
   get_career_goals_id_history e pid s =
     Response 200
       (JArr (map JObj
                (order_by (then_by (asc ''stage'') (desc ''updated_date''))
                   (filter (\<lambda>r. col ''goal_id'' r = JNum g) (rows (career_stage_history s))))))"
  by (simp add: get_career_goals_id_history_def exec_select_def ctype_def
      career_stage_history_schema_def bind_int_str sql_eq_num)

lemma get_history_lists:
  "int4_in e pid = Some g \<longrightarrow>
      (\<exists>rs. get_career_goals_id_history e pid s = Response 200 (JArr (map JObj rs)) \<and>
            mset rs = mset (filter (\<lambda>r. col ''goal_id'' r = JNum g) (rows (career_stage_history s))) \<and>
            sorted_wrt (then_by (asc ''stage'') (desc ''updated_date'')) rs)"
proof
  assume "int4_in e pid = Some g"
  note run = get_history_run [OF this]
  show "\<exists>rs. get_career_goals_id_history e pid s = Response 200 (JArr (map JObj rs)) \<and>
            mset rs = mset (filter (\<lambda>r. col ''goal_id'' r = JNum g) (rows (career_stage_history s))) \<and>
            sorted_wrt (then_by (asc ''stage'') (desc ''updated_date'')) rs"
    by (rule exI [where x = "order_by (then_by (asc ''stage'') (desc ''updated_date''))
          (filter (\<lambda>r. col ''goal_id'' r = JNum g) (rows (career_stage_history s)))"])
       (intro conjI run mset_order_by sorted_order_by total_orders)
qed

lemma get_history_none:
  "int4_in e pid = Some g \<and>
      filter (\<lambda>r. col ''goal_id'' r = JNum g) (rows (career_stage_history s)) = [] \<longrightarrow>
      get_career_goals_id_history e pid s = Response 200 (JArr [])"
  by (simp add: get_history_run order_by_def)

lemma get_history_refused:
  "int4_in e pid = None \<longrightarrow>
      get_career_goals_id_history e pid s =
        Response 500 (JObj [(''error'', JStr ''Error fetching stage history.'')])"
  by (simp add: get_career_goals_id_history_def exec_select_def ctype_def
      career_stage_history_schema_def bind_int_str err_def)

lemma then_by_reads:
  "then_by le1 le2 a b \<longrightarrow> le1 a b \<and> (le1 b a \<longrightarrow> le2 a b)"
  by (auto simp: then_by_def split: if_splits)

lemma asc_desc_text:
  "col c a = JStr x \<and> col c b = JStr y \<longrightarrow> asc c a b = (x \<le> y) \<and> desc c a b = (y \<le> x)"
  by (simp add: asc_def desc_def)

text \<open>
  C7, as the code has it. For an owner key without U+0000, every list handler answers
  200 with a permutation of the rows whose owner column equals the key, and with the
  empty list when there is none; a key that holds U+0000 is answered 500. Ideas, notes,
  career goals (under either path) and future work (under either path) are sorted by
  \<open>created_date\<close> descending; deadlines by \<open>due_date\<close> ascending;
  \<open>GET /events/:email\<close> by \<open>event_date\<close> and then \<open>start_time\<close>, both ascending. The
  stage history of a goal, for an id the server reads as an integer, is sorted by
  \<open>stage\<close> ascending and then \<open>updated_date\<close> descending; an id that is no integer is
  answered 500. The legacy \<open>GET /calendar_events/:email\<close> is sorted by \<open>event_date\<close>
  only, and the queries of projects and meetings have no ORDER BY: their rows come in
  no stated order. The last two conjuncts read the comparisons: \<open>then_by\<close> is
  lexicographic, and on text columns \<open>asc\<close> and \<open>desc\<close> compare the strings.
\<close>

theorem list_by_owner:
  "(\<not> has_nul email \<longrightarrow>
      (\<exists>rs. get_projects_email e email s = Response 200 (JArr (map JObj rs)) \<and>
         mset rs = mset (filter (\<lambda>r. col ''owner_email'' r = JStr email) (rows (projects s)))))
   \<and> (\<not> has_nul email \<and> filter (\<lambda>r. col ''owner_email'' r = JStr email) (rows (projects s)) = [] \<longrightarrow>
      get_projects_email e email s = Response 200 (JArr []))
   \<and> (has_nul email \<longrightarrow>
      get_projects_email e email s = Response 500 (JObj [(''error'', JStr ''Error fetching projects.'')]))
   \<and> (\<not> has_nul email \<longrightarrow>
      (\<exists>rs. get_meetings_email e email s = Response 200 (JArr (map JObj rs)) \<and>
         mset rs = mset (filter (\<lambda>r. col ''colleague_email'' r = JStr email) (rows (meetings s)))))
   \<and> (\<not> has_nul email \<and> filter (\<lambda>r. col ''colleague_email'' r = JStr email) (rows (meetings s)) = [] \<longrightarrow>
      get_meetings_email e email s = Response 200 (JArr []))
   \<and> (has_nul email \<longrightarrow>
      get_meetings_email e email s = Response 500 (JObj [(''error'', JStr ''Error fetching meetings.'')]))
   \<and> (\<not> has_nul email \<longrightarrow>
      (\<exists>rs. get_ideas_email e email s = Response 200 (JArr (map JObj rs)) \<and>
         mset rs = mset (filter (\<lambda>r. col ''user_email'' r = JStr email) (rows (ideas s))) \<and>
         sorted_wrt (desc ''created_date'') rs))
   \<and> (\<not> has_nul email \<and> filter (\<lambda>r. col ''user_email'' r = JStr email) (rows (ideas s)) = [] \<longrightarrow>
      get_ideas_email e email s = Response 200 (JArr []))
   \<and> (has_nul email \<longrightarrow>
      get_ideas_email e email s = Response 500 (JObj [(''error'', JStr ''Error fetching ideas.'')]))
   \<and> (\<not> has_nul email \<longrightarrow>
      (\<exists>rs. get_notes_email e email s = Response 200 (JArr (map JObj rs)) \<and>
         mset rs = mset (filter (\<lambda>r. col ''user_email'' r = JStr email) (rows (notes_table s))) \<and>
         sorted_wrt (desc ''created_date'') rs))
   \<and> (\<not> has_nul email \<and> filter (\<lambda>r. col ''user_email'' r = JStr email) (rows (notes_table s)) = [] \<longrightarrow>
      get_notes_email e email s = Response 200 (JArr []))
   \<and> (has_nul email \<longrightarrow>
      get_notes_email e email s = Response 500 (JObj [(''error'', JStr ''Error fetching notes.'')]))
   \<and> (\<not> has_nul email \<longrightarrow>
      (\<exists>rs. get_career_goals_email e email s = Response 200 (JArr (map JObj rs)) \<and>
         mset rs = mset (filter (\<lambda>r. col ''user_email'' r = JStr email) (rows (career_goals s))) \<and>
         sorted_wrt (desc ''created_date'') rs))
   \<and> (\<not> has_nul email \<and> filter (\<lambda>r. col ''user_email'' r = JStr email) (rows (career_goals s)) = [] \<longrightarrow>
      get_career_goals_email e email s = Response 200 (JArr []))
   \<and> (has_nul email \<longrightarrow>
      get_career_goals_email e email s = Response 500 (JObj [(''error'', JStr ''Error fetching career goals.'')]))
   \<and> (\<not> has_nul email \<longrightarrow>
      (\<exists>rs. get_career_email e email s = Response 200 (JArr (map JObj rs)) \<and>
         mset rs = mset (filter (\<lambda>r. col ''user_email'' r = JStr email) (rows (career_goals s))) \<and>
         sorted_wrt (desc ''created_date'') rs))
   \<and> (\<not> has_nul email \<and> filter (\<lambda>r. col ''user_email'' r = JStr email) (rows (career_goals s)) = [] \<longrightarrow>
      get_career_email e email s = Response 200 (JArr []))
   \<and> (has_nul email \<longrightarrow>
      get_career_email e email s = Response 500 (JObj [(''error'', JStr ''Error fetching career goals.'')]))
   \<and> (\<not> has_nul email \<longrightarrow>
      (\<exists>rs. get_future_work_email e email s = Response 200 (JArr (map JObj rs)) \<and>
         mset rs = mset (filter (\<lambda>r. col ''user_email'' r = JStr email) (rows (future_work s))) \<and>
         sorted_wrt (desc ''created_date'') rs))
   \<and> (\<not> has_nul email \<and> filter (\<lambda>r. col ''user_email'' r = JStr email) (rows (future_work s)) = [] \<longrightarrow>
      get_future_work_email e email s = Response 200 (JArr []))
   \<and> (has_nul email \<longrightarrow>
      get_future_work_email e email s = Response 500 (JObj [(''error'', JStr ''Error fetching future work.'')]))
   \<and> (\<not> has_nul email \<longrightarrow>
      (\<exists>rs. get_future_email e email s = Response 200 (JArr (map JObj rs)) \<and>
         mset rs = mset (filter (\<lambda>r. col ''user_email'' r = JStr email) (rows (future_work s))) \<and>
         sorted_wrt (desc ''created_date'') rs))
   \<and> (\<not> has_nul email \<and> filter (\<lambda>r. col ''user_email'' r = JStr email) (rows (future_work s)) = [] \<longrightarrow>
      get_future_email e email s = Response 200 (JArr []))
   \<and> (has_nul email \<longrightarrow>
      get_future_email e email s = Response 500 (JObj [(''error'', JStr ''Error fetching future work.'')]))
   \<and> (\<not> has_nul email \<longrightarrow>
      (\<exists>rs. get_deadlines_email e email s = Response 200 (JArr (map JObj rs)) \<and>
         mset rs = mset (filter (\<lambda>r. col ''user_email'' r = JStr email) (rows (deadlines s))) \<and>
         sorted_wrt (asc ''due_date'') rs))
   \<and> (\<not> has_nul email \<and> filter (\<lambda>r. col ''user_email'' r = JStr email) (rows (deadlines s)) = [] \<longrightarrow>
      get_deadlines_email e email s = Response 200 (JArr []))
   \<and> (has_nul email \<longrightarrow>
      get_deadlines_email e email s = Response 500 (JObj [(''error'', JStr ''Error fetching deadlines.'')]))
   \<and> (\<not> has_nul email \<longrightarrow>
      (\<exists>rs. get_calendar_events_email e email s = Response 200 (JArr (map JObj rs)) \<and>
         mset rs = mset (filter (\<lambda>r. col ''user_email'' r = JStr email) (rows (calendar_events s))) \<and>
         sorted_wrt (asc ''event_date'') rs))
   \<and> (\<not> has_nul email \<and> filter (\<lambda>r. col ''user_email'' r = JStr email) (rows (calendar_events s)) = [] \<longrightarrow>
      get_calendar_events_email e email s = Response 200 (JArr []))
   \<and> (has_nul email \<longrightarrow>
      get_calendar_events_email e email s = Response 500 (JObj [(''error'', JStr ''Error fetching events.'')]))
   \<and> (\<not> has_nul email \<longrightarrow>
      (\<exists>rs. get_events_email e email s = Response 200 (JArr (map event_of rs)) \<and>
         mset rs = mset (filter (\<lambda>r. col ''user_email'' r = JStr email) (rows (calendar_events s))) \<and>
         sorted_wrt (then_by (asc ''event_date'') (asc ''start_time'')) rs))
   \<and> (\<not> has_nul email \<and> filter (\<lambda>r. col ''user_email'' r = JStr email) (rows (calendar_events s)) = [] \<longrightarrow>
      get_events_email e email s = Response 200 (JArr []))
   \<and> (has_nul email \<longrightarrow>
      get_events_email e email s = Response 500 (JObj [(''error'', JStr ''Error fetching events.'')]))
   \<and> (int4_in e pid = Some g \<longrightarrow>
      (\<exists>rs. get_career_goals_id_history e pid s = Response 200 (JArr (map JObj rs)) \<and>
            mset rs = mset (filter (\<lambda>r. col ''goal_id'' r = JNum g) (rows (career_stage_history s))) \<and>
            sorted_wrt (then_by (asc ''stage'') (desc ''updated_date'')) rs))
   \<and> (int4_in e pid = Some g \<and>
      filter (\<lambda>r. col ''goal_id'' r = JNum g) (rows (career_stage_history s)) = [] \<longrightarrow>
      get_career_goals_id_history e pid s = Response 200 (JArr []))
   \<and> (int4_in e pid = None \<longrightarrow>
      get_career_goals_id_history e pid s =
        Response 500 (JObj [(''error'', JStr ''Error fetching stage history.'')]))
   \<and> (then_by le1 le2 a b \<longrightarrow> le1 a b \<and> (le1 b a \<longrightarrow> le2 a b))
   \<and> (col c a = JStr x \<and> col c b = JStr y \<longrightarrow> asc c a b = (x \<le> y) \<and> desc c a b = (y \<le> x))"
  by (intro conjI
     get_projects_email_lists get_projects_email_none get_projects_email_refused
     get_meetings_email_lists get_meetings_email_none get_meetings_email_refused
     get_ideas_email_lists get_ideas_email_none get_ideas_email_refused
     get_notes_email_lists get_notes_email_none get_notes_email_refused
     get_career_goals_email_lists get_career_goals_email_none get_career_goals_email_refused
     get_career_email_lists get_career_email_none get_career_email_refused
     get_future_work_email_lists get_future_work_email_none get_future_work_email_refused
     get_future_email_lists get_future_email_none get_future_email_refused
     get_deadlines_email_lists get_deadlines_email_none get_deadlines_email_refused
     get_calendar_events_email_lists get_calendar_events_email_none get_calendar_events_email_refused
     get_events_email_lists get_events_email_none get_events_email_refused
     get_history_lists get_history_none get_history_refused
     then_by_reads asc_desc_text)

lemma post_event_early_eval:
  "post_events env0 ''2026-11-03T09:05:00.000Z'' body_event_early db_event =
     (Response 200 (JObj event_row_early), db_two_events)"
  by code_simp

lemma legacy_two_eval:
  "get_calendar_events_email env0 ''a@x.com'' db_two_events =
     Response 200 (JArr [JObj event_row, JObj event_row_early])"
  by code_simp

lemma two_events_unsorted:
  "\<not> sorted_wrt (then_by (asc ''event_date'') (asc ''start_time'')) [event_row, event_row_early]"
  by (simp add: then_by_def asc_def col_def event_row_def event_row_early_def)

lemma two_events_match:
  "filter (\<lambda>r. col ''user_email'' r = JStr ''a@x.com'') (rows (calendar_events db_two_events)) =
     [event_row, event_row_early]"
  "filter (\<lambda>r. col ''user_email'' r = JStr ''b@x.com'') (rows (calendar_events db_two_events)) = []"
  by (simp_all add: db_two_events_def col_def event_row_def event_row_early_def)

lemma two_events_order:
  "order_by (then_by (asc ''event_date'') (asc ''start_time'')) [event_row, event_row_early] =
     [event_row_early, event_row]"
  by (simp add: order_by_def then_by_def asc_def col_def event_row_def event_row_early_def)

lemma keys_ok: "\<not> has_nul ''a@x.com''" "\<not> has_nul ''b@x.com''"
  by (simp_all add: has_nul_def)

lemma events_two_eval:
  "get_events_email env0 ''a@x.com'' db_two_events =
     Response 200 (JArr [event_of event_row_early, event_of event_row])"
  by (simp add: get_events_run keys_ok two_events_match two_events_order)

text \<open>
  With two events of a@x.com on one day, \<open>GET /events\<close> sends the earlier start first;
  b@x.com, who has no event, gets the empty list; the history of goal 1 is sorted.
\<close>

theorem list_by_owner_witness:
  "get_events_email env0 ''a@x.com'' db_two_events =
     Response 200 (JArr [event_of event_row_early, event_of event_row])
   \<and> (\<exists>rs. get_events_email env0 ''a@x.com'' db_two_events =
              Response 200 (JArr (map event_of rs)) \<and>
            mset rs = mset [event_row, event_row_early] \<and>
            sorted_wrt (then_by (asc ''event_date'') (asc ''start_time'')) rs)
   \<and> get_events_email env0 ''b@x.com'' db_two_events = Response 200 (JArr [])
   \<and> int4_in env0 ''1'' = Some 1
   \<and> (\<exists>rs. get_career_goals_id_history env0 ''1'' db_goals =
              Response 200 (JArr (map JObj rs)) \<and>
            mset rs = mset (filter (\<lambda>r. col ''goal_id'' r = JNum 1)
                              (rows (career_stage_history db_goals))) \<and>
            sorted_wrt (then_by (asc ''stage'') (desc ''updated_date'')) rs)"
proof -
  note ta = list_by_owner [where e = env0 and s = db_two_events and email = "''a@x.com''" and
      pid = "''1''" and g = 1 and
      ?le1.0 = "asc ''event_date''" and ?le2.0 = "asc ''start_time''" and
      a = event_row and b = event_row_early and c = "''start_time''" and
      x = "''10:00''" and y = "''09:00''"]
  note tb = list_by_owner [where e = env0 and s = db_two_events and email = "''b@x.com''" and
      pid = "''1''" and g = 1 and
      ?le1.0 = "asc ''event_date''" and ?le2.0 = "asc ''start_time''" and
      a = event_row and b = event_row_early and c = "''start_time''" and
      x = "''10:00''" and y = "''09:00''"]
  note tg = list_by_owner [where e = env0 and s = db_goals and email = "''a@x.com''" and
      pid = "''1''" and g = 1 and
      ?le1.0 = "asc ''event_date''" and ?le2.0 = "asc ''start_time''" and
      a = event_row and b = event_row_early and c = "''start_time''" and
      x = "''10:00''" and y = "''09:00''"]
  from ta
  have "\<not> has_nul ''a@x.com'' \<longrightarrow>
        (\<exists>rs. get_events_email env0 ''a@x.com'' db_two_events =
              Response 200 (JArr (map event_of rs)) \<and>
            mset rs = mset (filter (\<lambda>r. col ''user_email'' r = JStr ''a@x.com'')
                              (rows (calendar_events db_two_events))) \<and>
            sorted_wrt (then_by (asc ''event_date'') (asc ''start_time'')) rs)"
    by (elim conjE)
  with keys_ok(1)
  have "\<exists>rs. get_events_email env0 ''a@x.com'' db_two_events =
              Response 200 (JArr (map event_of rs)) \<and>
            mset rs = mset (filter (\<lambda>r. col ''user_email'' r = JStr ''a@x.com'')
                              (rows (calendar_events db_two_events))) \<and>
            sorted_wrt (then_by (asc ''event_date'') (asc ''start_time'')) rs"
    by (rule rev_mp)
  then have a: "\<exists>rs. get_events_email env0 ''a@x.com'' db_two_events =
              Response 200 (JArr (map event_of rs)) \<and>
            mset rs = mset [event_row, event_row_early] \<and>
            sorted_wrt (then_by (asc ''event_date'') (asc ''start_time'')) rs"
    by (simp only: two_events_match)
  from tb
  have "\<not> has_nul ''b@x.com'' \<and>
        filter (\<lambda>r. col ''user_email'' r = JStr ''b@x.com'')
          (rows (calendar_events db_two_events)) = [] \<longrightarrow>
        get_events_email env0 ''b@x.com'' db_two_events = Response 200 (JArr [])"
    by (elim conjE)
  with conjI [OF keys_ok(2) two_events_match(2)]
  have b: "get_events_email env0 ''b@x.com'' db_two_events = Response 200 (JArr [])"
    by (rule rev_mp)
  from tg
  have "int4_in env0 ''1'' = Some 1 \<longrightarrow>
     (\<exists>rs. get_career_goals_id_history env0 ''1'' db_goals =
              Response 200 (JArr (map JObj rs)) \<and>
            mset rs = mset (filter (\<lambda>r. col ''goal_id'' r = JNum 1)
                              (rows (career_stage_history db_goals))) \<and>
            sorted_wrt (then_by (asc ''stage'') (desc ''updated_date'')) rs)"
    by (elim conjE)
  with dec_in_1
  have c: "\<exists>rs. get_career_goals_id_history env0 ''1'' db_goals =
              Response 200 (JArr (map JObj rs)) \<and>
            mset rs = mset (filter (\<lambda>r. col ''goal_id'' r = JNum 1)
                              (rows (career_stage_history db_goals))) \<and>
            sorted_wrt (then_by (asc ''stage'') (desc ''updated_date'')) rs"
    by (rule rev_mp)
  show ?thesis
    by (intro conjI events_two_eval a b c dec_in_1)
qed

text \<open>
  C7 as stated fails on the legacy listing of calendar events: the two events of one
  day come back in table order, the 10:00 event before the 09:00 one.
\<close>

theorem legacy_listing_ignores_start_time:
  "snd (post_events env0 ''2026-11-03T09:05:00.000Z'' body_event_early db_event) =
     db_two_events
   \<and> get_calendar_events_email env0 ''a@x.com'' db_two_events =
       Response 200 (JArr [JObj event_row, JObj event_row_early])
   \<and> col ''event_date'' event_row = col ''event_date'' event_row_early
   \<and> col ''start_time'' event_row = JStr ''10:00''
   \<and> col ''start_time'' event_row_early = JStr ''09:00''
   \<and> \<not> sorted_wrt (then_by (asc ''event_date'') (asc ''start_time''))
         [event_row, event_row_early]"
proof -
  have "snd (post_events env0 ''2026-11-03T09:05:00.000Z'' body_event_early db_event) =
     db_two_events"
    by (simp add: post_event_early_eval)
  moreover have "col ''event_date'' event_row = col ''event_date'' event_row_early"
    "col ''start_time'' event_row = JStr ''10:00''"
    "col ''start_time'' event_row_early = JStr ''09:00''"
    by (simp_all add: event_row_def event_row_early_def col_def)
  ultimately show ?thesis
    by (intro conjI legacy_two_eval two_events_unsorted)
qed

subsection \<open>Requests addressed to a missing id\<close>

lemma description_params_text:
  "list_all (\<lambda>cv. ctype projects_schema (fst cv) = TText) (description_params body)"
  by (simp add: description_params_def ctype_def projects_schema_def)

lemma put_ideas_id_params_text:
  "list_all (\<lambda>cv. ctype ideas_schema (fst cv) = TText) (put_ideas_id_params body)"
  by (simp add: put_ideas_id_params_def ctype_def ideas_schema_def)

lemma id_is_integer:
  "ctype projects_schema ''id'' = TInt" "ctype ideas_schema ''id'' = TInt"
  by (simp_all add: ctype_def projects_schema_def ideas_schema_def)

lemma refused_text:
  assumes "list_all (\<lambda>cv. ctype sch (fst cv) = TText) ps"
    and "\<not> list_all (\<lambda>cv. sendable e (snd cv)) ps"
  shows "bind_all e sch ps = Inl (PgError ''22021'')"
  using assms
  by (induction ps) (auto simp: bind_text split: sum.splits)

lemma exec_update_refused_text:
  assumes "list_all (\<lambda>cv. ctype sch (fst cv) = TText) ps"
    and "\<not> list_all (\<lambda>cv. sendable e (snd cv)) ps"
  shows "exec_update e sch ps kc kv t = (Inl (PgError ''22021''), t)"
  by (simp add: exec_update_def refused_text [OF assms])

text \<open>
  C9 fails on the project-description update. For an id the server reads as an integer
  and that no row has, \<open>PUT /projects/:id/description\<close> answers 500 with
  \<open>error: "Error updating description."\<close> and, when the server accepts the values of
  the body, the message of the TypeError thrown by \<open>row.project_title\<close> on the
  \<open>undefined\<close> \<open>result.rows[0]\<close> (when a value holds U+0000, the message of the
  server's refusal); the database is unchanged. The handlers that send only the count
  answer 200 with a count of 0 on the same request: \<open>DELETE /projects/:id\<close>,
  \<open>DELETE /ideas/:id\<close> and, when the server accepts the values of the body,
  \<open>PUT /ideas/:id\<close> (500 "Error updating idea." when it refuses one).
\<close>

theorem description_update_missing_id:
  assumes "int4_in e pid = Some g"
    and "\<not> list_ex (\<lambda>r. col ''id'' r = JNum g) (rows (projects s))"
    and "\<not> list_ex (\<lambda>r. col ''id'' r = JNum g) (rows (ideas s))"
  shows "put_projects_id_description e pid body s =
           (Response 500
              (JObj [(''error'', JStr ''Error updating description.''),
                     (''details'',
                      JStr (error_message e
                              (if list_all (\<lambda>cv. sendable e (snd cv)) (description_params body)
                               then JsError else PgError ''22021'')))]), s)
       \<and> delete_projects_id e pid s = (Response 200 (JObj [(''deleted'', JNum 0)]), s)
       \<and> put_ideas_id e pid body s =
           (if list_all (\<lambda>cv. sendable e (snd cv)) (put_ideas_id_params body)
            then Response 200 (JObj [(''updated'', JNum 0)])
            else Response 500 (JObj [(''error'', JStr ''Error updating idea.'')]), s)
       \<and> delete_ideas_id e pid s = (Response 200 (JObj [(''deleted'', JNum 0)]), s)"
proof (intro conjI)
  show "put_projects_id_description e pid body s =
           (Response 500
              (JObj [(''error'', JStr ''Error updating description.''),
                     (''details'',
                      JStr (error_message e
                              (if list_all (\<lambda>cv. sendable e (snd cv)) (description_params body)
                               then JsError else PgError ''22021'')))]), s)"
  proof (cases "list_all (\<lambda>cv. sendable e (snd cv)) (description_params body)")
    case True
    then have "binds e projects_schema (description_params body)"
      by (simp add: binds_text description_params_text)
    from exec_update_no_row [OF this id_is_integer(1) assms(1,2)] True show ?thesis
      by (simp add: put_projects_id_description_def)
  next
    case False
    from exec_update_refused_text [OF description_params_text False] False show ?thesis
      by (simp add: put_projects_id_description_def)
  qed
  show "delete_projects_id e pid s = (Response 200 (JObj [(''deleted'', JNum 0)]), s)"
    using assms(1,2)
    by (simp add: delete_projects_id_def rowCount_def list_ex_iff
        exec_delete_no_row [OF id_is_integer(1)])
  show "put_ideas_id e pid body s =
           (if list_all (\<lambda>cv. sendable e (snd cv)) (put_ideas_id_params body)
            then Response 200 (JObj [(''updated'', JNum 0)])
            else Response 500 (JObj [(''error'', JStr ''Error updating idea.'')]), s)"
  proof (cases "list_all (\<lambda>cv. sendable e (snd cv)) (put_ideas_id_params body)")
    case True
    then have "binds e ideas_schema (put_ideas_id_params body)"
      by (simp add: binds_text put_ideas_id_params_text)
    from exec_update_no_row [OF this id_is_integer(2) assms(1,3)] True show ?thesis
      by (simp add: put_ideas_id_def rowCount_def)
  next
    case False
    from exec_update_refused_text [OF put_ideas_id_params_text False] False show ?thesis
      by (simp add: put_ideas_id_def err_def)
  qed
  show "delete_ideas_id e pid s = (Response 200 (JObj [(''deleted'', JNum 0)]), s)"
    using assms(1,3)
    by (simp add: delete_ideas_id_def rowCount_def
        exec_delete_no_row [OF id_is_integer(2)])
qed

text \<open>
  On the empty database, the description update of project 7 is answered 500 and the
  other three requests for id 7 are answered with a count of 0.
\<close>

theorem description_update_missing_id_witness:
  "int4_in env0 ''7'' = Some 7
   \<and> rows (projects db0) = [] \<and> rows (ideas db0) = []
   \<and> put_projects_id_description env0 ''7'' [] db0 =
       (Response 500 (JObj [(''error'', JStr ''Error updating description.''),
                            (''details'', JStr ''error'')]), db0)
   \<and> delete_projects_id env0 ''7'' db0 = (Response 200 (JObj [(''deleted'', JNum 0)]), db0)
   \<and> put_ideas_id env0 ''7'' [] db0 = (Response 200 (JObj [(''updated'', JNum 0)]), db0)
   \<and> delete_ideas_id env0 ''7'' db0 = (Response 200 (JObj [(''deleted'', JNum 0)]), db0)"
proof -
  have r: "rows (projects db0) = []" "rows (ideas db0) = []"
    by (simp_all add: db0_def empty_table_def)
  have m: "error_message env0 x = ''error''" for x
    by (simp add: env0_def)
  have p: "list_all (\<lambda>cv. sendable env0 (snd cv)) (description_params [])"
    "list_all (\<lambda>cv. sendable env0 (snd cv)) (put_ideas_id_params [])"
    by (simp_all add: description_params_def put_ideas_id_params_def field_def sendable_null)
  from description_update_missing_id [where e = env0 and pid = "''7''" and g = 7
      and s = db0 and body = "[]", OF dec_in_7] r m p dec_in_7
  show ?thesis
    by simp
qed

end
